theory Spec2Isabelle
  imports Complex_Main "HOL-Library.Word"
begin

section \<open>Values, objects and the heap\<close>

text \<open>
  The converter of \<^verbatim>\<open>src/convert_ast/converter.ts\<close> reads a \<^verbatim>\<open>Uint32Array\<close> and
  builds plain JavaScript objects. A JavaScript value is modelled by \<open>jsval\<close>: the
  numbers read from the buffer are 32-bit words, the number read by
  \<^verbatim>\<open>DataView.getFloat64\<close> is kept as its 64 bits, and objects and arrays are
  references into an explicit heap, so that two references are the same object
  exactly when they are the same address.
\<close>

type_synonym u32 = "32 word"
type_synonym u8 = "8 word"

datatype jsval =
    Undefined
  | Null
  | Bool bool
  | U32 u32
  | F64 "64 word"
  | Str string
  | BigIntV int
  | Ref nat

datatype jsobj =
    Object "(string \<times> jsval) list"
  | Array "jsval list"
  | RegExpObj string string

type_synonym heap = "jsobj list"

text \<open>
  The exceptions the code can raise: \<^verbatim>\<open>new Error(message)\<close> of \<open>convertNode\<close>,
  the \<^verbatim>\<open>RangeError\<close> of \<^verbatim>\<open>new Uint32Array\<close> and \<^verbatim>\<open>getFloat64\<close>, and the
  \<^verbatim>\<open>SyntaxError\<close> of \<^verbatim>\<open>BigInt\<close> and \<^verbatim>\<open>new RegExp\<close>.
\<close>

datatype error = Error string | RangeError | SyntaxError

text \<open>
  A call returns a value, throws, or exhausts the call stack. The recursion of
  \<open>convertNode\<close> follows the references of the buffer, which may form a cycle, so the
  model carries the depth of call stack that is left; \<open>Exhausted\<close> is the call that
  needs more.
\<close>

datatype 'a outcome = Return 'a | Throw error | Exhausted

type_synonym 'a js = "heap \<Rightarrow> ('a \<times> heap) outcome"

definition ret :: "'a \<Rightarrow> 'a js" where
  "ret v h = Return (v, h)"

definition throw :: "error \<Rightarrow> 'a js" where
  "throw e h = Throw e"

definition bindJ :: "'a js \<Rightarrow> ('a \<Rightarrow> 'b js) \<Rightarrow> 'b js" where
  "bindJ m f h =
     (case m h of
        Return (v, h') \<Rightarrow> f v h'
      | Throw e \<Rightarrow> Throw e
      | Exhausted \<Rightarrow> Exhausted)"

text \<open>
  An object or array literal makes a new object: a fresh address. The model allocates
  when all the properties have been evaluated; the address itself is never observable
  in JavaScript, only whether two references are equal.
\<close>

definition alloc :: "jsobj \<Rightarrow> jsval js" where
  "alloc obj h = Return (Ref (length h), h @ [obj])"

section \<open>Reading the buffer\<close>

text \<open>
  \<open>buffer\<close> is the \<^verbatim>\<open>Uint32Array\<close>. A position is a JavaScript number, or
  \<^verbatim>\<open>undefined\<close> when it was itself read past the end of the buffer; \<open>None\<close>
  stands for \<^verbatim>\<open>undefined\<close> and for the \<^verbatim>\<open>NaN\<close> that \<^verbatim>\<open>undefined++\<close> leaves.
  Reading a typed array out of range gives \<^verbatim>\<open>undefined\<close>, it does not throw.
\<close>

type_synonym buffer = "u32 list"
type_synonym pos = "nat option"

definition rd :: "buffer \<Rightarrow> pos \<Rightarrow> u32 option" where
  "rd buffer position =
     (case position of
        None \<Rightarrow> None
      | Some i \<Rightarrow> if i < length buffer then Some (buffer ! i) else None)"

definition inc :: "pos \<Rightarrow> pos" where
  "inc position = map_option Suc position"

definition toPos :: "u32 option \<Rightarrow> pos" where
  "toPos w = map_option unat w"

text \<open>\<^verbatim>\<open>x ? a : b\<close> and \<^verbatim>\<open>!!x\<close> on a value read from the buffer.\<close>

definition truthy :: "u32 option \<Rightarrow> bool" where
  "truthy w = (case w of None \<Rightarrow> False | Some x \<Rightarrow> x \<noteq> 0)"

definition num :: "u32 option \<Rightarrow> jsval" where
  "num w = (case w of None \<Rightarrow> Undefined | Some x \<Rightarrow> U32 x)"

text \<open>
  \<^verbatim>\<open>position << 2\<close>: the operand is taken modulo \<open>2^32\<close>, shifted, and the result
  read as a signed 32-bit integer; \<^verbatim>\<open>NaN << 2\<close> is 0.
\<close>

definition shl2 :: "pos \<Rightarrow> int" where
  "shl2 position =
     (case position of
        None \<Rightarrow> 0
      | Some p \<Rightarrow> sint (push_bit 2 (word_of_nat p :: u32)))"

text \<open>The template literal \<^verbatim>\<open>${nodeType}\<close>: a number in decimal, or \<^verbatim>\<open>undefined\<close>.\<close>

fun decimal :: "nat \<Rightarrow> string" where
  "decimal n =
     (if n < 10 then [''0123456789'' ! n]
      else decimal (n div 10) @ [''0123456789'' ! (n mod 10)])"

declare decimal.simps [simp del]

definition toString :: "u32 option \<Rightarrow> string" where
  "toString w = (case w of None \<Rightarrow> ''undefined'' | Some x \<Rightarrow> decimal (unat x))"

section \<open>Text spans and lists\<close>

text \<open>
  \<open>readString\<close> is the caller's resolver; its first argument is the result of
  \<^verbatim>\<open>position << 2\<close>, its second the length read from the buffer (or \<^verbatim>\<open>undefined\<close>).
  It is taken to be a pure function that returns a string.
\<close>

type_synonym readString = "int \<Rightarrow> u32 option \<Rightarrow> string"

definition convertString :: "pos \<Rightarrow> buffer \<Rightarrow> readString \<Rightarrow> string" where
  "convertString position buffer readString =
     (let length = rd buffer position;
          position = inc position;
          bytePosition = shl2 position
      in readString bytePosition length)"

type_synonym convertNodeT = "pos \<Rightarrow> buffer \<Rightarrow> readString \<Rightarrow> jsval js"

text \<open>
  The loop of \<open>convertNodeList\<close>. \<open>len\<close> is the bound of \<^verbatim>\<open>index < length\<close>: the
  length word as a number, 0 when the length is \<^verbatim>\<open>undefined\<close> (the comparison is
  then false at once). \<open>convertNode\<close> is the function the loop calls for a nonzero
  reference.
\<close>

function convertNodeList_loop ::
  "convertNodeT \<Rightarrow> buffer \<Rightarrow> readString \<Rightarrow> nat \<Rightarrow> nat \<Rightarrow> pos \<Rightarrow> jsval list \<Rightarrow> (jsval list) js"
where
  "convertNodeList_loop convertNode buffer readString len index position list h =
     (if index < len then
        (let nodePosition = rd buffer position in
         case (if truthy nodePosition
               then convertNode (toPos nodePosition) buffer readString h
               else Return (Null, h)) of
           Return (item, h') \<Rightarrow>
             convertNodeList_loop convertNode buffer readString len (index + 1)
               (inc position) (list @ [item]) h'
         | Throw e \<Rightarrow> Throw e
         | Exhausted \<Rightarrow> Exhausted)
      else Return (list, h))"
  by pat_completeness auto
termination
  by (relation "measure (\<lambda>(cn, b, r, len, index, p, l, h). len - index)") auto

declare convertNodeList_loop.simps [simp del]

definition convertNodeList ::
  "convertNodeT \<Rightarrow> pos \<Rightarrow> buffer \<Rightarrow> readString \<Rightarrow> jsval js" where
  "convertNodeList convertNode position buffer readString =
     (let length = rd buffer position;
          position = inc position
      in bindJ (convertNodeList_loop convertNode buffer readString
                  (case length of None \<Rightarrow> 0 | Some n \<Rightarrow> unat n) 0 position [])
           (\<lambda>list. alloc (Array list)))"

section \<open>The host: typed-array bytes, \<^verbatim>\<open>getFloat64\<close>, \<^verbatim>\<open>BigInt\<close> and \<^verbatim>\<open>RegExp\<close>\<close>

text \<open>
  \<^verbatim>\<open>buffer.buffer\<close> is the \<^verbatim>\<open>ArrayBuffer\<close> under the \<^verbatim>\<open>Uint32Array\<close>: its
  bytes. A typed array stores an element in the byte order of the platform, which is
  taken to be little-endian (as on the platforms Node.js runs on).
\<close>

definition le_bytes :: "u32 \<Rightarrow> u8 list" where
  "le_bytes w = [ucast w, ucast (drop_bit 8 w), ucast (drop_bit 16 w), ucast (drop_bit 24 w)]"

definition arrayBuffer :: "buffer \<Rightarrow> u8 list" where
  "arrayBuffer buffer = concat (map le_bytes buffer)"

text \<open>Bytes read as one little-endian number, of any width.\<close>

definition le_word :: "u8 list \<Rightarrow> 'a::len word" where
  "le_word bs = foldr (\<lambda>b w. or (ucast b) (push_bit 8 w)) bs 0"

text \<open>
  \<^verbatim>\<open>new Uint32Array(arrayBuffer)\<close>: a view of the whole \<^verbatim>\<open>ArrayBuffer\<close>, four bytes
  to an element. The constructor throws a \<^verbatim>\<open>RangeError\<close> when the byte length is not
  a multiple of 4.
\<close>

fun words_of :: "u8 list \<Rightarrow> buffer" where
  "words_of (a # b # c # d # rest) = le_word [a, b, c, d] # words_of rest"
| "words_of _ = []"

definition newUint32Array :: "u8 list \<Rightarrow> buffer js" where
  "newUint32Array bytes =
     (if length bytes mod 4 \<noteq> 0 then throw RangeError else ret (words_of bytes))"

text \<open>
  \<^verbatim>\<open>new DataView(arrayBuffer).getFloat64(byteOffset, true)\<close>: a \<^verbatim>\<open>RangeError\<close> when
  the offset is negative or fewer than 8 bytes follow it, else the 8 bytes at the
  offset, little-endian, as the bits of the number.
\<close>

definition getFloat64 :: "u8 list \<Rightarrow> int \<Rightarrow> jsval js" where
  "getFloat64 bytes byteOffset =
     (if byteOffset < 0 \<or> int (length bytes) < byteOffset + 8 then throw RangeError
      else ret (F64 (le_word (take 8 (drop (nat byteOffset) bytes)))))"

text \<open>
  \<^verbatim>\<open>BigInt(text)\<close> and \<^verbatim>\<open>new RegExp(pattern, flags)\<close> are built into the host and
  are parameters of the model: \<open>BigInt\<close> gives the integer a text denotes, or \<open>None\<close>
  where the host throws a \<^verbatim>\<open>SyntaxError\<close>; \<open>RegExp\<close> tells whether the host accepts
  the pattern with the flags.
\<close>

record builtins =
  BigInt :: "string \<Rightarrow> int option"
  RegExp :: "string \<Rightarrow> string \<Rightarrow> bool"

definition toBigInt :: "builtins \<Rightarrow> string \<Rightarrow> jsval js" where
  "toBigInt host text =
     (case BigInt host text of None \<Rightarrow> throw SyntaxError | Some i \<Rightarrow> ret (BigIntV i))"

definition newRegExp :: "builtins \<Rightarrow> string \<Rightarrow> string \<Rightarrow> jsval js" where
  "newRegExp host pattern flags =
     (if RegExp host pattern flags then alloc (RegExpObj pattern flags) else throw SyntaxError)"

section \<open>The tables of kinds\<close>

text \<open>\<^verbatim>\<open>TABLE[index]\<close>: \<^verbatim>\<open>undefined\<close> past the end of the table.\<close>

definition lookupKind :: "string list \<Rightarrow> u32 option \<Rightarrow> jsval" where
  "lookupKind table index =
     (case index of
        None \<Rightarrow> Undefined
      | Some w \<Rightarrow> if unat w < length table then Str (table ! unat w) else Undefined)"

definition DECLARATION_KINDS :: "u32 option \<Rightarrow> jsval" where
  "DECLARATION_KINDS = lookupKind [''var'', ''let'', ''const'']"

definition PROPERTY_KINDS :: "u32 option \<Rightarrow> jsval" where
  "PROPERTY_KINDS = lookupKind [''init'', ''get'', ''set'']"

definition METHOD_DEFINITION_KINDS :: "u32 option \<Rightarrow> jsval" where
  "METHOD_DEFINITION_KINDS = lookupKind [''constructor'', ''method'', ''get'', ''set'']"

section \<open>The converters, in the order of \<open>nodeConverters\<close>\<close>

text \<open>
  A converter is called with the position after the tag word. \<^verbatim>\<open>buffer[position++]\<close>
  is written with the offset the increments have reached. The calls that can throw or
  allocate are bound in the order JavaScript evaluates them: the \<^verbatim>\<open>const\<close>
  declarations first, then the properties of the returned object literal from top to
  bottom. The first argument is the \<open>convertNode\<close> the converter calls.
\<close>

type_synonym converter = "convertNodeT \<Rightarrow> nat \<Rightarrow> buffer \<Rightarrow> readString \<Rightarrow> jsval js"

text \<open>ArrayExpression\<close>

definition conv_ArrayExpression :: "converter" where
  "conv_ArrayExpression convertNode position buffer readString =
     (let start = rd buffer (Some position);
          end' = rd buffer (Some (position + 1)) in
     bindJ (convertNodeList convertNode (Some (position + 2)) buffer readString) (\<lambda>elements.
     alloc (Object [
        (''elements'', elements),
        (''end'', num end'),
        (''start'', num start),
        (''type'', Str ''ArrayExpression'')])))"

text \<open>ArrayPattern\<close>

definition conv_ArrayPattern :: "converter" where
  "conv_ArrayPattern convertNode position buffer readString =
     (let start = rd buffer (Some position);
          end' = rd buffer (Some (position + 1)) in
     bindJ (convertNodeList convertNode (Some (position + 2)) buffer readString) (\<lambda>elements.
     alloc (Object [
        (''elements'', elements),
        (''end'', num end'),
        (''start'', num start),
        (''type'', Str ''ArrayPattern'')])))"

text \<open>ArrowFunctionExpression\<close>

definition conv_ArrowFunctionExpression :: "converter" where
  "conv_ArrowFunctionExpression convertNode position buffer readString =
     (let start = rd buffer (Some position);
          end' = rd buffer (Some (position + 1));
          async = truthy (rd buffer (Some (position + 2)));
          generator = truthy (rd buffer (Some (position + 3))) in
     bindJ (convertNodeList convertNode (toPos (rd buffer (Some (position + 4)))) buffer readString) (\<lambda>parameters.
     (let expression = truthy (rd buffer (Some (position + 5))) in
     bindJ (convertNode (Some (position + 6)) buffer readString) (\<lambda>body.
     alloc (Object [
        (''async'', Bool async),
        (''body'', body),
        (''end'', num end'),
        (''expression'', Bool expression),
        (''generator'', Bool generator),
        (''id'', Null),
        (''params'', parameters),
        (''start'', num start),
        (''type'', Str ''ArrowFunctionExpression'')])))))"

text \<open>AssignmentExpression\<close>

definition conv_AssignmentExpression :: "converter" where
  "conv_AssignmentExpression convertNode position buffer readString =
     (let start = rd buffer (Some position);
          end' = rd buffer (Some (position + 1)) in
     bindJ (convertNode (toPos (rd buffer (Some (position + 2)))) buffer readString) (\<lambda>left.
     bindJ (convertNode (toPos (rd buffer (Some (position + 3)))) buffer readString) (\<lambda>right.
     (let operator = convertString (Some (position + 4)) buffer readString in
     alloc (Object [
        (''end'', num end'),
        (''left'', left),
        (''operator'', Str operator),
        (''right'', right),
        (''start'', num start),
        (''type'', Str ''AssignmentExpression'')])))))"

text \<open>AssignmentPattern\<close>

definition conv_AssignmentPattern :: "converter" where
  "conv_AssignmentPattern convertNode position buffer readString =
     (let start = rd buffer (Some position);
          end' = rd buffer (Some (position + 1)) in
     bindJ (convertNode (toPos (rd buffer (Some (position + 2)))) buffer readString) (\<lambda>left.
     bindJ (convertNode (Some (position + 3)) buffer readString) (\<lambda>right.
     alloc (Object [
        (''end'', num end'),
        (''left'', left),
        (''right'', right),
        (''start'', num start),
        (''type'', Str ''AssignmentPattern'')]))))"

text \<open>AwaitExpression\<close>

definition conv_AwaitExpression :: "converter" where
  "conv_AwaitExpression convertNode position buffer readString =
     (let start = rd buffer (Some position);
          end' = rd buffer (Some (position + 1)) in
     bindJ (convertNode (Some (position + 2)) buffer readString) (\<lambda>argument.
     alloc (Object [
        (''argument'', argument),
        (''end'', num end'),
        (''start'', num start),
        (''type'', Str ''AwaitExpression'')])))"

text \<open>BinaryExpression\<close>

definition conv_BinaryExpression :: "converter" where
  "conv_BinaryExpression convertNode position buffer readString =
     (let start = rd buffer (Some position);
          end' = rd buffer (Some (position + 1)) in
     bindJ (convertNode (toPos (rd buffer (Some (position + 2)))) buffer readString) (\<lambda>left.
     bindJ (convertNode (toPos (rd buffer (Some (position + 3)))) buffer readString) (\<lambda>right.
     (let operator = convertString (Some (position + 4)) buffer readString in
     alloc (Object [
        (''end'', num end'),
        (''left'', left),
        (''operator'', Str operator),
        (''right'', right),
        (''start'', num start),
        (''type'', Str ''BinaryExpression'')])))))"

text \<open>BlockStatement\<close>

definition conv_BlockStatement :: "converter" where
  "conv_BlockStatement convertNode position buffer readString =
     (let start = rd buffer (Some position);
          end' = rd buffer (Some (position + 1)) in
     bindJ (convertNodeList convertNode (Some (position + 2)) buffer readString) (\<lambda>body.
     alloc (Object [
        (''body'', body),
        (''end'', num end'),
        (''start'', num start),
        (''type'', Str ''BlockStatement'')])))"

text \<open>BreakStatement\<close>

definition conv_BreakStatement :: "converter" where
  "conv_BreakStatement convertNode position buffer readString =
     (let start = rd buffer (Some position);
          end' = rd buffer (Some (position + 1));
          labelPosition = rd buffer (Some (position + 2)) in
     bindJ (if truthy labelPosition then convertNode (toPos labelPosition) buffer readString else ret Null) (\<lambda>label.
     alloc (Object [
        (''end'', num end'),
        (''label'', label),
        (''start'', num start),
        (''type'', Str ''BreakStatement'')])))"

text \<open>CallExpression\<close>

definition conv_CallExpression :: "converter" where
  "conv_CallExpression convertNode position buffer readString =
     (let start = rd buffer (Some position);
          end' = rd buffer (Some (position + 1));
          optional = truthy (rd buffer (Some (position + 2))) in
     bindJ (convertNode (toPos (rd buffer (Some (position + 3)))) buffer readString) (\<lambda>callee.
     bindJ (convertNodeList convertNode (Some (position + 4)) buffer readString) (\<lambda>argumentsList.
     alloc (Object [
        (''arguments'', argumentsList),
        (''callee'', callee),
        (''end'', num end'),
        (''optional'', Bool optional),
        (''start'', num start),
        (''type'', Str ''CallExpression'')]))))"

text \<open>CatchClause\<close>

definition conv_CatchClause :: "converter" where
  "conv_CatchClause convertNode position buffer readString =
     (let start = rd buffer (Some position);
          end' = rd buffer (Some (position + 1));
          parameterPosition = rd buffer (Some (position + 2)) in
     bindJ (convertNode (Some (position + 3)) buffer readString) (\<lambda>body.
     bindJ (if truthy parameterPosition then convertNode (toPos parameterPosition) buffer readString else ret Null) (\<lambda>param.
     alloc (Object [
        (''body'', body),
        (''end'', num end'),
        (''param'', param),
        (''start'', num start),
        (''type'', Str ''CatchClause'')]))))"

text \<open>ChainExpression\<close>

definition conv_ChainExpression :: "converter" where
  "conv_ChainExpression convertNode position buffer readString =
     (let start = rd buffer (Some position);
          end' = rd buffer (Some (position + 1)) in
     bindJ (convertNode (Some (position + 2)) buffer readString) (\<lambda>expression.
     alloc (Object [
        (''end'', num end'),
        (''expression'', expression),
        (''start'', num start),
        (''type'', Str ''ChainExpression'')])))"

text \<open>ClassBody\<close>

definition conv_ClassBody :: "converter" where
  "conv_ClassBody convertNode position buffer readString =
     (let start = rd buffer (Some position);
          end' = rd buffer (Some (position + 1)) in
     bindJ (convertNodeList convertNode (Some (position + 2)) buffer readString) (\<lambda>body.
     alloc (Object [
        (''body'', body),
        (''end'', num end'),
        (''start'', num start),
        (''type'', Str ''ClassBody'')])))"

text \<open>ClassDeclaration\<close>

definition conv_ClassDeclaration :: "converter" where
  "conv_ClassDeclaration convertNode position buffer readString =
     (let start = rd buffer (Some position);
          end' = rd buffer (Some (position + 1));
          idPosition = rd buffer (Some (position + 2));
          superClassPosition = rd buffer (Some (position + 3)) in
     bindJ (convertNode (toPos (rd buffer (Some (position + 4)))) buffer readString) (\<lambda>body.
     bindJ (if truthy idPosition then convertNode (toPos idPosition) buffer readString else ret Null) (\<lambda>id'.
     bindJ (if truthy superClassPosition then convertNode (toPos superClassPosition) buffer readString else ret Null) (\<lambda>superClass.
     alloc (Object [
        (''body'', body),
        (''end'', num end'),
        (''id'', id'),
        (''start'', num start),
        (''superClass'', superClass),
        (''type'', Str ''ClassDeclaration'')])))))"

text \<open>ClassExpression\<close>

definition conv_ClassExpression :: "converter" where
  "conv_ClassExpression convertNode position buffer readString =
     (let start = rd buffer (Some position);
          end' = rd buffer (Some (position + 1));
          idPosition = rd buffer (Some (position + 2));
          superClassPosition = rd buffer (Some (position + 3)) in
     bindJ (convertNode (toPos (rd buffer (Some (position + 4)))) buffer readString) (\<lambda>body.
     bindJ (if truthy idPosition then convertNode (toPos idPosition) buffer readString else ret Null) (\<lambda>id'.
     bindJ (if truthy superClassPosition then convertNode (toPos superClassPosition) buffer readString else ret Null) (\<lambda>superClass.
     alloc (Object [
        (''body'', body),
        (''end'', num end'),
        (''id'', id'),
        (''start'', num start),
        (''superClass'', superClass),
        (''type'', Str ''ClassExpression'')])))))"

text \<open>ConditionalExpression\<close>

definition conv_ConditionalExpression :: "converter" where
  "conv_ConditionalExpression convertNode position buffer readString =
     (let start = rd buffer (Some position);
          end' = rd buffer (Some (position + 1)) in
     bindJ (convertNode (toPos (rd buffer (Some (position + 2)))) buffer readString) (\<lambda>test.
     bindJ (convertNode (toPos (rd buffer (Some (position + 3)))) buffer readString) (\<lambda>consequent.
     bindJ (convertNode (Some (position + 4)) buffer readString) (\<lambda>alternate.
     alloc (Object [
        (''alternate'', alternate),
        (''consequent'', consequent),
        (''end'', num end'),
        (''start'', num start),
        (''test'', test),
        (''type'', Str ''ConditionalExpression'')])))))"

text \<open>ContinueStatement\<close>

definition conv_ContinueStatement :: "converter" where
  "conv_ContinueStatement convertNode position buffer readString =
     (let start = rd buffer (Some position);
          end' = rd buffer (Some (position + 1));
          labelPosition = rd buffer (Some (position + 2)) in
     bindJ (if truthy labelPosition then convertNode (toPos labelPosition) buffer readString else ret Null) (\<lambda>label.
     alloc (Object [
        (''end'', num end'),
        (''label'', label),
        (''start'', num start),
        (''type'', Str ''ContinueStatement'')])))"

text \<open>DebuggerStatement\<close>

definition conv_DebuggerStatement :: "converter" where
  "conv_DebuggerStatement convertNode position buffer readString =
     (let start = rd buffer (Some position);
          end' = rd buffer (Some (position + 1)) in
     alloc (Object [
        (''end'', num end'),
        (''start'', num start),
        (''type'', Str ''DebuggerStatement'')]))"

text \<open>DoWhileStatement\<close>

definition conv_DoWhileStatement :: "converter" where
  "conv_DoWhileStatement convertNode position buffer readString =
     (let start = rd buffer (Some position);
          end' = rd buffer (Some (position + 1)) in
     bindJ (convertNode (toPos (rd buffer (Some (position + 2)))) buffer readString) (\<lambda>test.
     bindJ (convertNode (Some (position + 3)) buffer readString) (\<lambda>body.
     alloc (Object [
        (''body'', body),
        (''end'', num end'),
        (''start'', num start),
        (''test'', test),
        (''type'', Str ''DoWhileStatement'')]))))"

text \<open>EmptyStatement\<close>

definition conv_EmptyStatement :: "converter" where
  "conv_EmptyStatement convertNode position buffer readString =
     (let start = rd buffer (Some position);
          end' = rd buffer (Some (position + 1)) in
     alloc (Object [
        (''end'', num end'),
        (''start'', num start),
        (''type'', Str ''EmptyStatement'')]))"

text \<open>ExportAllDeclaration\<close>

definition conv_ExportAllDeclaration :: "converter" where
  "conv_ExportAllDeclaration convertNode position buffer readString =
     (let start = rd buffer (Some position);
          end' = rd buffer (Some (position + 1)) in
     bindJ (convertNodeList convertNode (toPos (rd buffer (Some (position + 2)))) buffer readString) (\<lambda>assertions.
     (let exportedPosition = rd buffer (Some (position + 3)) in
     bindJ (convertNode (Some (position + 4)) buffer readString) (\<lambda>source.
     bindJ (if truthy exportedPosition then convertNode (toPos exportedPosition) buffer readString else ret Null) (\<lambda>exported.
     alloc (Object [
        (''assertions'', assertions),
        (''end'', num end'),
        (''exported'', exported),
        (''source'', source),
        (''start'', num start),
        (''type'', Str ''ExportAllDeclaration'')]))))))"

text \<open>ExportDefaultDeclaration\<close>

definition conv_ExportDefaultDeclaration :: "converter" where
  "conv_ExportDefaultDeclaration convertNode position buffer readString =
     (let start = rd buffer (Some position);
          end' = rd buffer (Some (position + 1)) in
     bindJ (convertNode (Some (position + 2)) buffer readString) (\<lambda>declaration.
     alloc (Object [
        (''declaration'', declaration),
        (''end'', num end'),
        (''start'', num start),
        (''type'', Str ''ExportDefaultDeclaration'')])))"

text \<open>ExportNamedDeclaration\<close>

definition conv_ExportNamedDeclaration :: "converter" where
  "conv_ExportNamedDeclaration convertNode position buffer readString =
     (let start = rd buffer (Some position);
          end' = rd buffer (Some (position + 1));
          declarationPosition = rd buffer (Some (position + 2));
          sourcePosition = rd buffer (Some (position + 3)) in
     bindJ (convertNodeList convertNode (toPos (rd buffer (Some (position + 4)))) buffer readString) (\<lambda>assertions.
     bindJ (convertNodeList convertNode (Some (position + 5)) buffer readString) (\<lambda>specifiers.
     bindJ (if truthy declarationPosition then convertNode (toPos declarationPosition) buffer readString else ret Null) (\<lambda>declaration.
     bindJ (if truthy sourcePosition then convertNode (toPos sourcePosition) buffer readString else ret Null) (\<lambda>source.
     alloc (Object [
        (''assertions'', assertions),
        (''declaration'', declaration),
        (''end'', num end'),
        (''source'', source),
        (''specifiers'', specifiers),
        (''start'', num start),
        (''type'', Str ''ExportNamedDeclaration'')]))))))"

text \<open>ExportSpecifier\<close>

definition conv_ExportSpecifier :: "converter" where
  "conv_ExportSpecifier convertNode position buffer readString =
     (let start = rd buffer (Some position);
          end' = rd buffer (Some (position + 1));
          exportedPosition = rd buffer (Some (position + 2)) in
     bindJ (convertNode (Some (position + 3)) buffer readString) (\<lambda>local.
     bindJ (if truthy exportedPosition then convertNode (toPos exportedPosition) buffer readString else ret local) (\<lambda>exported.
     alloc (Object [
        (''end'', num end'),
        (''exported'', exported),
        (''local'', local),
        (''start'', num start),
        (''type'', Str ''ExportSpecifier'')]))))"

text \<open>ExpressionStatement\<close>

definition conv_ExpressionStatement :: "converter" where
  "conv_ExpressionStatement convertNode position buffer readString =
     (let start = rd buffer (Some position);
          end' = rd buffer (Some (position + 1)) in
     bindJ (convertNode (Some (position + 2)) buffer readString) (\<lambda>expression.
     alloc (Object [
        (''end'', num end'),
        (''expression'', expression),
        (''start'', num start),
        (''type'', Str ''ExpressionStatement'')])))"

text \<open>ForInStatement\<close>

definition conv_ForInStatement :: "converter" where
  "conv_ForInStatement convertNode position buffer readString =
     (let start = rd buffer (Some position);
          end' = rd buffer (Some (position + 1)) in
     bindJ (convertNode (toPos (rd buffer (Some (position + 2)))) buffer readString) (\<lambda>left.
     bindJ (convertNode (toPos (rd buffer (Some (position + 3)))) buffer readString) (\<lambda>right.
     bindJ (convertNode (Some (position + 4)) buffer readString) (\<lambda>body.
     alloc (Object [
        (''body'', body),
        (''end'', num end'),
        (''left'', left),
        (''right'', right),
        (''start'', num start),
        (''type'', Str ''ForInStatement'')])))))"

text \<open>ForOfStatement\<close>

definition conv_ForOfStatement :: "converter" where
  "conv_ForOfStatement convertNode position buffer readString =
     (let start = rd buffer (Some position);
          end' = rd buffer (Some (position + 1));
          awaited = truthy (rd buffer (Some (position + 2))) in
     bindJ (convertNode (toPos (rd buffer (Some (position + 3)))) buffer readString) (\<lambda>left.
     bindJ (convertNode (toPos (rd buffer (Some (position + 4)))) buffer readString) (\<lambda>right.
     bindJ (convertNode (Some (position + 5)) buffer readString) (\<lambda>body.
     alloc (Object [
        (''await'', Bool awaited),
        (''body'', body),
        (''end'', num end'),
        (''left'', left),
        (''right'', right),
        (''start'', num start),
        (''type'', Str ''ForOfStatement'')])))))"

text \<open>ForStatement\<close>

definition conv_ForStatement :: "converter" where
  "conv_ForStatement convertNode position buffer readString =
     (let start = rd buffer (Some position);
          end' = rd buffer (Some (position + 1));
          initPosition = rd buffer (Some (position + 2));
          testPosition = rd buffer (Some (position + 3));
          updatePosition = rd buffer (Some (position + 4)) in
     bindJ (convertNode (Some (position + 5)) buffer readString) (\<lambda>body.
     bindJ (if truthy initPosition then convertNode (toPos initPosition) buffer readString else ret Null) (\<lambda>init.
     bindJ (if truthy testPosition then convertNode (toPos testPosition) buffer readString else ret Null) (\<lambda>test.
     bindJ (if truthy updatePosition then convertNode (toPos updatePosition) buffer readString else ret Null) (\<lambda>update.
     alloc (Object [
        (''body'', body),
        (''end'', num end'),
        (''init'', init),
        (''start'', num start),
        (''test'', test),
        (''type'', Str ''ForStatement''),
        (''update'', update)]))))))"

text \<open>FunctionDeclaration\<close>

definition conv_FunctionDeclaration :: "converter" where
  "conv_FunctionDeclaration convertNode position buffer readString =
     (let start = rd buffer (Some position);
          end' = rd buffer (Some (position + 1));
          async = truthy (rd buffer (Some (position + 2)));
          generator = truthy (rd buffer (Some (position + 3)));
          idPosition = rd buffer (Some (position + 4)) in
     bindJ (convertNodeList convertNode (toPos (rd buffer (Some (position + 5)))) buffer readString) (\<lambda>parameters.
     bindJ (convertNode (Some (position + 6)) buffer readString) (\<lambda>body.
     bindJ (if truthy idPosition then convertNode (toPos idPosition) buffer readString else ret Null) (\<lambda>id'.
     alloc (Object [
        (''async'', Bool async),
        (''body'', body),
        (''end'', num end'),
        (''expression'', Bool False),
        (''generator'', Bool generator),
        (''id'', id'),
        (''params'', parameters),
        (''start'', num start),
        (''type'', Str ''FunctionDeclaration'')])))))"

text \<open>FunctionExpression\<close>

definition conv_FunctionExpression :: "converter" where
  "conv_FunctionExpression convertNode position buffer readString =
     (let start = rd buffer (Some position);
          end' = rd buffer (Some (position + 1));
          async = truthy (rd buffer (Some (position + 2)));
          generator = truthy (rd buffer (Some (position + 3)));
          idPosition = rd buffer (Some (position + 4)) in
     bindJ (convertNodeList convertNode (toPos (rd buffer (Some (position + 5)))) buffer readString) (\<lambda>parameters.
     bindJ (convertNode (Some (position + 6)) buffer readString) (\<lambda>body.
     bindJ (if truthy idPosition then convertNode (toPos idPosition) buffer readString else ret Null) (\<lambda>id'.
     alloc (Object [
        (''async'', Bool async),
        (''body'', body),
        (''end'', num end'),
        (''expression'', Bool False),
        (''generator'', Bool generator),
        (''id'', id'),
        (''params'', parameters),
        (''start'', num start),
        (''type'', Str ''FunctionExpression'')])))))"

text \<open>Identifier\<close>

definition conv_Identifier :: "converter" where
  "conv_Identifier convertNode position buffer readString =
     (let start = rd buffer (Some position);
          end' = rd buffer (Some (position + 1));
          name = convertString (Some (position + 2)) buffer readString in
     alloc (Object [
        (''end'', num end'),
        (''name'', Str name),
        (''start'', num start),
        (''type'', Str ''Identifier'')]))"

text \<open>IfStatement\<close>

definition conv_IfStatement :: "converter" where
  "conv_IfStatement convertNode position buffer readString =
     (let start = rd buffer (Some position);
          end' = rd buffer (Some (position + 1)) in
     bindJ (convertNode (toPos (rd buffer (Some (position + 2)))) buffer readString) (\<lambda>consequent.
     (let alternatePosition = rd buffer (Some (position + 3)) in
     bindJ (convertNode (Some (position + 4)) buffer readString) (\<lambda>test.
     bindJ (if truthy alternatePosition then convertNode (toPos alternatePosition) buffer readString else ret Null) (\<lambda>alternate.
     alloc (Object [
        (''alternate'', alternate),
        (''consequent'', consequent),
        (''end'', num end'),
        (''start'', num start),
        (''test'', test),
        (''type'', Str ''IfStatement'')]))))))"

text \<open>ImportAttribute\<close>

definition conv_ImportAttribute :: "converter" where
  "conv_ImportAttribute convertNode position buffer readString =
     (let start = rd buffer (Some position);
          end' = rd buffer (Some (position + 1)) in
     bindJ (convertNode (toPos (rd buffer (Some (position + 2)))) buffer readString) (\<lambda>key.
     bindJ (convertNode (Some (position + 3)) buffer readString) (\<lambda>value.
     alloc (Object [
        (''end'', num end'),
        (''key'', key),
        (''start'', num start),
        (''type'', Str ''ImportAttribute''),
        (''value'', value)]))))"

text \<open>ImportDeclaration\<close>

definition conv_ImportDeclaration :: "converter" where
  "conv_ImportDeclaration convertNode position buffer readString =
     (let start = rd buffer (Some position);
          end' = rd buffer (Some (position + 1)) in
     bindJ (convertNode (toPos (rd buffer (Some (position + 2)))) buffer readString) (\<lambda>source.
     bindJ (convertNodeList convertNode (toPos (rd buffer (Some (position + 3)))) buffer readString) (\<lambda>assertions.
     bindJ (convertNodeList convertNode (Some (position + 4)) buffer readString) (\<lambda>specifiers.
     alloc (Object [
        (''assertions'', assertions),
        (''end'', num end'),
        (''source'', source),
        (''specifiers'', specifiers),
        (''start'', num start),
        (''type'', Str ''ImportDeclaration'')])))))"

text \<open>ImportDefaultSpecifier\<close>

definition conv_ImportDefaultSpecifier :: "converter" where
  "conv_ImportDefaultSpecifier convertNode position buffer readString =
     (let start = rd buffer (Some position);
          end' = rd buffer (Some (position + 1)) in
     bindJ (convertNode (Some (position + 2)) buffer readString) (\<lambda>local.
     alloc (Object [
        (''end'', num end'),
        (''local'', local),
        (''start'', num start),
        (''type'', Str ''ImportDefaultSpecifier'')])))"

text \<open>ImportExpression\<close>

definition conv_ImportExpression :: "converter" where
  "conv_ImportExpression convertNode position buffer readString =
     (let start = rd buffer (Some position);
          end' = rd buffer (Some (position + 1)) in
     bindJ (convertNodeList convertNode (toPos (rd buffer (Some (position + 2)))) buffer readString) (\<lambda>arguments'.
     bindJ (convertNode (Some (position + 3)) buffer readString) (\<lambda>source.
     alloc (Object [
        (''arguments'', arguments'),
        (''end'', num end'),
        (''source'', source),
        (''start'', num start),
        (''type'', Str ''ImportExpression'')]))))"

text \<open>ImportNamespaceSpecifier\<close>

definition conv_ImportNamespaceSpecifier :: "converter" where
  "conv_ImportNamespaceSpecifier convertNode position buffer readString =
     (let start = rd buffer (Some position);
          end' = rd buffer (Some (position + 1)) in
     bindJ (convertNode (Some (position + 2)) buffer readString) (\<lambda>local.
     alloc (Object [
        (''end'', num end'),
        (''local'', local),
        (''start'', num start),
        (''type'', Str ''ImportNamespaceSpecifier'')])))"

text \<open>ImportSpecifier\<close>

definition conv_ImportSpecifier :: "converter" where
  "conv_ImportSpecifier convertNode position buffer readString =
     (let start = rd buffer (Some position);
          end' = rd buffer (Some (position + 1));
          importedPosition = rd buffer (Some (position + 2)) in
     bindJ (convertNode (Some (position + 3)) buffer readString) (\<lambda>local.
     bindJ (if truthy importedPosition then convertNode (toPos importedPosition) buffer readString else ret local) (\<lambda>imported.
     alloc (Object [
        (''end'', num end'),
        (''imported'', imported),
        (''local'', local),
        (''start'', num start),
        (''type'', Str ''ImportSpecifier'')]))))"

text \<open>LabeledStatement\<close>

definition conv_LabeledStatement :: "converter" where
  "conv_LabeledStatement convertNode position buffer readString =
     (let start = rd buffer (Some position);
          end' = rd buffer (Some (position + 1)) in
     bindJ (convertNode (toPos (rd buffer (Some (position + 2)))) buffer readString) (\<lambda>body.
     bindJ (convertNode (Some (position + 3)) buffer readString) (\<lambda>label.
     alloc (Object [
        (''body'', body),
        (''end'', num end'),
        (''label'', label),
        (''start'', num start),
        (''type'', Str ''LabeledStatement'')]))))"

text \<open>Literal<string>\<close>

definition conv_Literal_string :: "converter" where
  "conv_Literal_string convertNode position buffer readString =
     (let start = rd buffer (Some position);
          end' = rd buffer (Some (position + 1));
          rawPosition = rd buffer (Some (position + 2));
          raw = if truthy rawPosition then Str (convertString (toPos rawPosition) buffer readString) else Undefined;
          value = convertString (Some (position + 3)) buffer readString in
     alloc (Object [
        (''end'', num end'),
        (''raw'', raw),
        (''start'', num start),
        (''type'', Str ''Literal''),
        (''value'', Str value)]))"

text \<open>Literal<boolean>\<close>

definition conv_Literal_boolean :: "converter" where
  "conv_Literal_boolean convertNode position buffer readString =
     (let start = rd buffer (Some position);
          end' = rd buffer (Some (position + 1));
          value = truthy (rd buffer (Some (position + 2))) in
     alloc (Object [
        (''end'', num end'),
        (''raw'', Str (if value then ''true'' else ''false'')),
        (''start'', num start),
        (''type'', Str ''Literal''),
        (''value'', Bool value)]))"

text \<open>Literal<number>\<close>

definition conv_Literal_number :: "converter" where
  "conv_Literal_number convertNode position buffer readString =
     (let start = rd buffer (Some position);
          end' = rd buffer (Some (position + 1));
          rawPosition = rd buffer (Some (position + 2));
          raw = if truthy rawPosition then Str (convertString (toPos rawPosition) buffer readString) else Undefined in
     bindJ (getFloat64 (arrayBuffer buffer) (shl2 (Some (position + 3)))) (\<lambda>value.
     alloc (Object [
        (''end'', num end'),
        (''raw'', raw),
        (''start'', num start),
        (''type'', Str ''Literal''),
        (''value'', value)])))"

text \<open>Literal<null>\<close>

definition conv_Literal_null :: "converter" where
  "conv_Literal_null convertNode position buffer readString =
     (let start = rd buffer (Some position);
          end' = rd buffer (Some (position + 1)) in
     alloc (Object [
        (''end'', num end'),
        (''raw'', Str ''null''),
        (''start'', num start),
        (''type'', Str ''Literal''),
        (''value'', Null)]))"

text \<open>Literal<RegExp>\<close>

definition conv_Literal_RegExp :: "builtins \<Rightarrow> converter" where
  "conv_Literal_RegExp host convertNode position buffer readString =
     (let start = rd buffer (Some position);
          end' = rd buffer (Some (position + 1));
          pattern = convertString (toPos (rd buffer (Some (position + 2)))) buffer readString;
          flags = convertString (Some (position + 3)) buffer readString in
     bindJ (alloc (Object [(''flags'', Str flags), (''pattern'', Str pattern)])) (\<lambda>regex.
     bindJ (newRegExp host pattern flags) (\<lambda>value.
     alloc (Object [
        (''end'', num end'),
        (''raw'', Str (''/'' @ pattern @ ''/'' @ flags)),
        (''regex'', regex),
        (''start'', num start),
        (''type'', Str ''Literal''),
        (''value'', value)]))))"

text \<open>Literal<bigint>\<close>

definition conv_Literal_bigint :: "builtins \<Rightarrow> converter" where
  "conv_Literal_bigint host convertNode position buffer readString =
     (let start = rd buffer (Some position);
          end' = rd buffer (Some (position + 1));
          bigint = convertString (toPos (rd buffer (Some (position + 2)))) buffer readString;
          raw = convertString (Some (position + 3)) buffer readString in
     bindJ (toBigInt host bigint) (\<lambda>value.
     alloc (Object [
        (''bigint'', Str bigint),
        (''end'', num end'),
        (''raw'', Str raw),
        (''start'', num start),
        (''type'', Str ''Literal''),
        (''value'', value)])))"

text \<open>LogicalExpression\<close>

definition conv_LogicalExpression :: "converter" where
  "conv_LogicalExpression convertNode position buffer readString =
     (let start = rd buffer (Some position);
          end' = rd buffer (Some (position + 1)) in
     bindJ (convertNode (toPos (rd buffer (Some (position + 2)))) buffer readString) (\<lambda>left.
     bindJ (convertNode (toPos (rd buffer (Some (position + 3)))) buffer readString) (\<lambda>right.
     (let operator = convertString (Some (position + 4)) buffer readString in
     alloc (Object [
        (''end'', num end'),
        (''left'', left),
        (''operator'', Str operator),
        (''right'', right),
        (''start'', num start),
        (''type'', Str ''LogicalExpression'')])))))"

text \<open>MemberExpression\<close>

definition conv_MemberExpression :: "converter" where
  "conv_MemberExpression convertNode position buffer readString =
     (let start = rd buffer (Some position);
          end' = rd buffer (Some (position + 1));
          optional = truthy (rd buffer (Some (position + 2))) in
     bindJ (convertNode (toPos (rd buffer (Some (position + 3)))) buffer readString) (\<lambda>object.
     (let computed = truthy (rd buffer (Some (position + 4))) in
     bindJ (convertNode (Some (position + 5)) buffer readString) (\<lambda>property.
     alloc (Object [
        (''computed'', Bool computed),
        (''end'', num end'),
        (''object'', object),
        (''optional'', Bool optional),
        (''property'', property),
        (''start'', num start),
        (''type'', Str ''MemberExpression'')])))))"

text \<open>MetaProperty\<close>

definition conv_MetaProperty :: "converter" where
  "conv_MetaProperty convertNode position buffer readString =
     (let start = rd buffer (Some position);
          end' = rd buffer (Some (position + 1)) in
     bindJ (convertNode (toPos (rd buffer (Some (position + 2)))) buffer readString) (\<lambda>meta.
     bindJ (convertNode (Some (position + 3)) buffer readString) (\<lambda>property.
     alloc (Object [
        (''end'', num end'),
        (''meta'', meta),
        (''property'', property),
        (''start'', num start),
        (''type'', Str ''MetaProperty'')]))))"

text \<open>MethodDefinition\<close>

definition conv_MethodDefinition :: "converter" where
  "conv_MethodDefinition convertNode position buffer readString =
     (let start = rd buffer (Some position);
          end' = rd buffer (Some (position + 1));
          kind = METHOD_DEFINITION_KINDS (rd buffer (Some (position + 2)));
          computed = truthy (rd buffer (Some (position + 3)));
          isStatic = truthy (rd buffer (Some (position + 4))) in
     bindJ (convertNode (toPos (rd buffer (Some (position + 5)))) buffer readString) (\<lambda>value.
     bindJ (convertNode (Some (position + 6)) buffer readString) (\<lambda>key.
     alloc (Object [
        (''computed'', Bool computed),
        (''end'', num end'),
        (''key'', key),
        (''kind'', kind),
        (''start'', num start),
        (''static'', Bool isStatic),
        (''type'', Str ''MethodDefinition''),
        (''value'', value)]))))"

text \<open>NewExpression\<close>

definition conv_NewExpression :: "converter" where
  "conv_NewExpression convertNode position buffer readString =
     (let start = rd buffer (Some position);
          end' = rd buffer (Some (position + 1));
          argumentsPosition = rd buffer (Some (position + 2)) in
     bindJ (convertNode (Some (position + 3)) buffer readString) (\<lambda>callee.
     bindJ (if truthy argumentsPosition then convertNodeList convertNode (toPos argumentsPosition) buffer readString else alloc (Array [])) (\<lambda>arguments.
     alloc (Object [
        (''arguments'', arguments),
        (''callee'', callee),
        (''end'', num end'),
        (''start'', num start),
        (''type'', Str ''NewExpression'')]))))"

text \<open>ObjectExpression\<close>

definition conv_ObjectExpression :: "converter" where
  "conv_ObjectExpression convertNode position buffer readString =
     (let start = rd buffer (Some position);
          end' = rd buffer (Some (position + 1)) in
     bindJ (convertNodeList convertNode (Some (position + 2)) buffer readString) (\<lambda>properties.
     alloc (Object [
        (''end'', num end'),
        (''properties'', properties),
        (''start'', num start),
        (''type'', Str ''ObjectExpression'')])))"

text \<open>ObjectPattern\<close>

definition conv_ObjectPattern :: "converter" where
  "conv_ObjectPattern convertNode position buffer readString =
     (let start = rd buffer (Some position);
          end' = rd buffer (Some (position + 1)) in
     bindJ (convertNodeList convertNode (Some (position + 2)) buffer readString) (\<lambda>properties.
     alloc (Object [
        (''end'', num end'),
        (''properties'', properties),
        (''start'', num start),
        (''type'', Str ''ObjectPattern'')])))"

text \<open>PrivateIdentifier\<close>

definition conv_PrivateIdentifier :: "converter" where
  "conv_PrivateIdentifier convertNode position buffer readString =
     (let start = rd buffer (Some position);
          end' = rd buffer (Some (position + 1));
          name = convertString (Some (position + 2)) buffer readString in
     alloc (Object [
        (''end'', num end'),
        (''name'', Str name),
        (''start'', num start),
        (''type'', Str ''PrivateIdentifier'')]))"

text \<open>Program\<close>

definition conv_Program :: "converter" where
  "conv_Program convertNode position buffer readString =
     (let start = rd buffer (Some position);
          end' = rd buffer (Some (position + 1)) in
     bindJ (convertNodeList convertNode (Some (position + 2)) buffer readString) (\<lambda>body.
     alloc (Object [
        (''body'', body),
        (''end'', num end'),
        (''sourceType'', Str ''module''),
        (''start'', num start),
        (''type'', Str ''Program'')])))"

text \<open>Property\<close>

definition conv_Property :: "converter" where
  "conv_Property convertNode position buffer readString =
     (let start = rd buffer (Some position);
          end' = rd buffer (Some (position + 1));
          kind = PROPERTY_KINDS (rd buffer (Some (position + 2)));
          method = truthy (rd buffer (Some (position + 3)));
          computed = truthy (rd buffer (Some (position + 4)));
          valuePosition = rd buffer (Some (position + 5));
          shorthand = \<not> truthy valuePosition in
     bindJ (convertNode (Some (position + 6)) buffer readString) (\<lambda>key.
     bindJ (if truthy valuePosition then convertNode (toPos valuePosition) buffer readString else ret key) (\<lambda>value.
     alloc (Object [
        (''computed'', Bool computed),
        (''end'', num end'),
        (''key'', key),
        (''kind'', kind),
        (''method'', Bool method),
        (''shorthand'', Bool shorthand),
        (''start'', num start),
        (''type'', Str ''Property''),
        (''value'', value)]))))"

text \<open>PropertyDefinition\<close>

definition conv_PropertyDefinition :: "converter" where
  "conv_PropertyDefinition convertNode position buffer readString =
     (let start = rd buffer (Some position);
          end' = rd buffer (Some (position + 1));
          computed = truthy (rd buffer (Some (position + 2)));
          isStatic = truthy (rd buffer (Some (position + 3)));
          valuePosition = rd buffer (Some (position + 4)) in
     bindJ (convertNode (Some (position + 5)) buffer readString) (\<lambda>key.
     bindJ (if truthy valuePosition then convertNode (toPos valuePosition) buffer readString else ret Null) (\<lambda>value.
     alloc (Object [
        (''computed'', Bool computed),
        (''end'', num end'),
        (''key'', key),
        (''start'', num start),
        (''static'', Bool isStatic),
        (''type'', Str ''PropertyDefinition''),
        (''value'', value)]))))"

text \<open>RestElement\<close>

definition conv_RestElement :: "converter" where
  "conv_RestElement convertNode position buffer readString =
     (let start = rd buffer (Some position);
          end' = rd buffer (Some (position + 1)) in
     bindJ (convertNode (Some (position + 2)) buffer readString) (\<lambda>argument.
     alloc (Object [
        (''argument'', argument),
        (''end'', num end'),
        (''start'', num start),
        (''type'', Str ''RestElement'')])))"

text \<open>ReturnStatement\<close>

definition conv_ReturnStatement :: "converter" where
  "conv_ReturnStatement convertNode position buffer readString =
     (let start = rd buffer (Some position);
          end' = rd buffer (Some (position + 1));
          argumentPosition = rd buffer (Some (position + 2)) in
     bindJ (if truthy argumentPosition then convertNode (toPos argumentPosition) buffer readString else ret Null) (\<lambda>argument.
     alloc (Object [
        (''argument'', argument),
        (''end'', num end'),
        (''start'', num start),
        (''type'', Str ''ReturnStatement'')])))"

text \<open>SequenceExpression\<close>

definition conv_SequenceExpression :: "converter" where
  "conv_SequenceExpression convertNode position buffer readString =
     (let start = rd buffer (Some position);
          end' = rd buffer (Some (position + 1)) in
     bindJ (convertNodeList convertNode (Some (position + 2)) buffer readString) (\<lambda>expressions.
     alloc (Object [
        (''end'', num end'),
        (''expressions'', expressions),
        (''start'', num start),
        (''type'', Str ''SequenceExpression'')])))"

text \<open>SpreadElement\<close>

definition conv_SpreadElement :: "converter" where
  "conv_SpreadElement convertNode position buffer readString =
     (let start = rd buffer (Some position);
          end' = rd buffer (Some (position + 1)) in
     bindJ (convertNode (toPos (rd buffer (Some (position + 2)))) buffer readString) (\<lambda>argument.
     alloc (Object [
        (''argument'', argument),
        (''end'', num end'),
        (''start'', num start),
        (''type'', Str ''SpreadElement'')])))"

text \<open>StaticBlock\<close>

definition conv_StaticBlock :: "converter" where
  "conv_StaticBlock convertNode position buffer readString =
     (let start = rd buffer (Some position);
          end' = rd buffer (Some (position + 1)) in
     bindJ (convertNodeList convertNode (Some (position + 2)) buffer readString) (\<lambda>body.
     alloc (Object [
        (''body'', body),
        (''end'', num end'),
        (''start'', num start),
        (''type'', Str ''StaticBlock'')])))"

text \<open>Super\<close>

definition conv_Super :: "converter" where
  "conv_Super convertNode position buffer readString =
     (let start = rd buffer (Some position);
          end' = rd buffer (Some (position + 1)) in
     alloc (Object [
        (''end'', num end'),
        (''start'', num start),
        (''type'', Str ''Super'')]))"

text \<open>SwitchCase\<close>

definition conv_SwitchCase :: "converter" where
  "conv_SwitchCase convertNode position buffer readString =
     (let start = rd buffer (Some position);
          end' = rd buffer (Some (position + 1));
          testPosition = rd buffer (Some (position + 2)) in
     bindJ (convertNodeList convertNode (Some (position + 3)) buffer readString) (\<lambda>consequent.
     bindJ (if truthy testPosition then convertNode (toPos testPosition) buffer readString else ret Null) (\<lambda>test.
     alloc (Object [
        (''consequent'', consequent),
        (''end'', num end'),
        (''start'', num start),
        (''test'', test),
        (''type'', Str ''SwitchCase'')]))))"

text \<open>SwitchStatement\<close>

definition conv_SwitchStatement :: "converter" where
  "conv_SwitchStatement convertNode position buffer readString =
     (let start = rd buffer (Some position);
          end' = rd buffer (Some (position + 1)) in
     bindJ (convertNode (toPos (rd buffer (Some (position + 2)))) buffer readString) (\<lambda>discriminant.
     bindJ (convertNodeList convertNode (Some (position + 3)) buffer readString) (\<lambda>cases.
     alloc (Object [
        (''cases'', cases),
        (''discriminant'', discriminant),
        (''end'', num end'),
        (''start'', num start),
        (''type'', Str ''SwitchStatement'')]))))"

text \<open>ThisExpression\<close>

definition conv_ThisExpression :: "converter" where
  "conv_ThisExpression convertNode position buffer readString =
     (let start = rd buffer (Some position);
          end' = rd buffer (Some (position + 1)) in
     alloc (Object [
        (''end'', num end'),
        (''start'', num start),
        (''type'', Str ''ThisExpression'')]))"

text \<open>ThrowStatement\<close>

definition conv_ThrowStatement :: "converter" where
  "conv_ThrowStatement convertNode position buffer readString =
     (let start = rd buffer (Some position);
          end' = rd buffer (Some (position + 1)) in
     bindJ (convertNode (Some (position + 2)) buffer readString) (\<lambda>argument.
     alloc (Object [
        (''argument'', argument),
        (''end'', num end'),
        (''start'', num start),
        (''type'', Str ''ThrowStatement'')])))"

text \<open>TryStatement\<close>

definition conv_TryStatement :: "converter" where
  "conv_TryStatement convertNode position buffer readString =
     (let start = rd buffer (Some position);
          end' = rd buffer (Some (position + 1));
          handlerPosition = rd buffer (Some (position + 2));
          finalizerPosition = rd buffer (Some (position + 3)) in
     bindJ (convertNode (Some (position + 4)) buffer readString) (\<lambda>block.
     bindJ (if truthy finalizerPosition then convertNode (toPos finalizerPosition) buffer readString else ret Null) (\<lambda>finalizer.
     bindJ (if truthy handlerPosition then convertNode (toPos handlerPosition) buffer readString else ret Null) (\<lambda>handler.
     alloc (Object [
        (''block'', block),
        (''end'', num end'),
        (''finalizer'', finalizer),
        (''handler'', handler),
        (''start'', num start),
        (''type'', Str ''TryStatement'')])))))"

text \<open>VariableDeclaration\<close>

definition conv_VariableDeclaration :: "converter" where
  "conv_VariableDeclaration convertNode position buffer readString =
     (let start = rd buffer (Some position);
          end' = rd buffer (Some (position + 1));
          kind = DECLARATION_KINDS (rd buffer (Some (position + 2))) in
     bindJ (convertNodeList convertNode (Some (position + 3)) buffer readString) (\<lambda>declarations.
     alloc (Object [
        (''declarations'', declarations),
        (''end'', num end'),
        (''kind'', kind),
        (''start'', num start),
        (''type'', Str ''VariableDeclaration'')])))"

text \<open>VariableDeclarator\<close>

definition conv_VariableDeclarator :: "converter" where
  "conv_VariableDeclarator convertNode position buffer readString =
     (let start = rd buffer (Some position);
          end' = rd buffer (Some (position + 1));
          init_position = rd buffer (Some (position + 2)) in
     bindJ (convertNode (Some (position + 3)) buffer readString) (\<lambda>id'.
     bindJ (if truthy init_position then convertNode (toPos init_position) buffer readString else ret Null) (\<lambda>init.
     alloc (Object [
        (''end'', num end'),
        (''id'', id'),
        (''init'', init),
        (''start'', num start),
        (''type'', Str ''VariableDeclarator'')]))))"

text \<open>WhileStatement\<close>

definition conv_WhileStatement :: "converter" where
  "conv_WhileStatement convertNode position buffer readString =
     (let start = rd buffer (Some position);
          end' = rd buffer (Some (position + 1)) in
     bindJ (convertNode (toPos (rd buffer (Some (position + 2)))) buffer readString) (\<lambda>test.
     bindJ (convertNode (Some (position + 3)) buffer readString) (\<lambda>body.
     alloc (Object [
        (''body'', body),
        (''end'', num end'),
        (''start'', num start),
        (''test'', test),
        (''type'', Str ''WhileStatement'')]))))"

text \<open>AssignmentPatternProperty -> Property\<close>

definition conv_AssignmentPatternProperty :: "converter" where
  "conv_AssignmentPatternProperty convertNode position buffer readString =
     (let start = rd buffer (Some position);
          end' = rd buffer (Some (position + 1));
          valuePosition = rd buffer (Some (position + 2)) in
     bindJ (convertNode (Some (position + 3)) buffer readString) (\<lambda>key.
     bindJ (if truthy valuePosition then convertNode (toPos valuePosition) buffer readString else ret key) (\<lambda>value.
     alloc (Object [
        (''computed'', Bool False),
        (''end'', num end'),
        (''key'', key),
        (''kind'', Str ''init''),
        (''method'', Bool False),
        (''shorthand'', Bool (\<not> truthy valuePosition)),
        (''start'', num start),
        (''type'', Str ''Property''),
        (''value'', value)]))))"

definition nodeConverters :: "builtins \<Rightarrow> converter option list" where
  "nodeConverters host = [
     Some (conv_ArrayExpression) \<comment> \<open>0: ArrayExpression\<close>,
     Some (conv_ArrayPattern) \<comment> \<open>1: ArrayPattern\<close>,
     Some (conv_ArrowFunctionExpression) \<comment> \<open>2: ArrowFunctionExpression\<close>,
     Some (conv_AssignmentExpression) \<comment> \<open>3: AssignmentExpression\<close>,
     Some (conv_AssignmentPattern) \<comment> \<open>4: AssignmentPattern\<close>,
     Some (conv_AwaitExpression) \<comment> \<open>5: AwaitExpression\<close>,
     Some (conv_BinaryExpression) \<comment> \<open>6: BinaryExpression\<close>,
     Some (conv_BlockStatement) \<comment> \<open>7: BlockStatement\<close>,
     Some (conv_BreakStatement) \<comment> \<open>8: BreakStatement\<close>,
     Some (conv_CallExpression) \<comment> \<open>9: CallExpression\<close>,
     Some (conv_CatchClause) \<comment> \<open>10: CatchClause\<close>,
     Some (conv_ChainExpression) \<comment> \<open>11: ChainExpression\<close>,
     Some (conv_ClassBody) \<comment> \<open>12: ClassBody\<close>,
     Some (conv_ClassDeclaration) \<comment> \<open>13: ClassDeclaration\<close>,
     Some (conv_ClassExpression) \<comment> \<open>14: ClassExpression\<close>,
     Some (conv_ConditionalExpression) \<comment> \<open>15: ConditionalExpression\<close>,
     Some (conv_ContinueStatement) \<comment> \<open>16: ContinueStatement\<close>,
     Some (conv_DebuggerStatement) \<comment> \<open>17: DebuggerStatement\<close>,
     Some (conv_DoWhileStatement) \<comment> \<open>18: DoWhileStatement\<close>,
     Some (conv_EmptyStatement) \<comment> \<open>19: EmptyStatement\<close>,
     Some (conv_ExportAllDeclaration) \<comment> \<open>20: ExportAllDeclaration\<close>,
     Some (conv_ExportDefaultDeclaration) \<comment> \<open>21: ExportDefaultDeclaration\<close>,
     Some (conv_ExportNamedDeclaration) \<comment> \<open>22: ExportNamedDeclaration\<close>,
     Some (conv_ExportSpecifier) \<comment> \<open>23: ExportSpecifier\<close>,
     Some (conv_ExpressionStatement) \<comment> \<open>24: ExpressionStatement\<close>,
     Some (conv_ForInStatement) \<comment> \<open>25: ForInStatement\<close>,
     Some (conv_ForOfStatement) \<comment> \<open>26: ForOfStatement\<close>,
     Some (conv_ForStatement) \<comment> \<open>27: ForStatement\<close>,
     Some (conv_FunctionDeclaration) \<comment> \<open>28: FunctionDeclaration\<close>,
     Some (conv_FunctionExpression) \<comment> \<open>29: FunctionExpression\<close>,
     Some (conv_Identifier) \<comment> \<open>30: Identifier\<close>,
     Some (conv_IfStatement) \<comment> \<open>31: IfStatement\<close>,
     Some (conv_ImportAttribute) \<comment> \<open>32: ImportAttribute\<close>,
     Some (conv_ImportDeclaration) \<comment> \<open>33: ImportDeclaration\<close>,
     Some (conv_ImportDefaultSpecifier) \<comment> \<open>34: ImportDefaultSpecifier\<close>,
     Some (conv_ImportExpression) \<comment> \<open>35: ImportExpression\<close>,
     Some (conv_ImportNamespaceSpecifier) \<comment> \<open>36: ImportNamespaceSpecifier\<close>,
     Some (conv_ImportSpecifier) \<comment> \<open>37: ImportSpecifier\<close>,
     Some (conv_LabeledStatement) \<comment> \<open>38: LabeledStatement\<close>,
     Some (conv_Literal_string) \<comment> \<open>39: Literal<string>\<close>,
     Some (conv_Literal_boolean) \<comment> \<open>40: Literal<boolean>\<close>,
     Some (conv_Literal_number) \<comment> \<open>41: Literal<number>\<close>,
     Some (conv_Literal_null) \<comment> \<open>42: Literal<null>\<close>,
     Some (conv_Literal_RegExp host) \<comment> \<open>43: Literal<RegExp>\<close>,
     Some (conv_Literal_bigint host) \<comment> \<open>44: Literal<bigint>\<close>,
     Some (conv_LogicalExpression) \<comment> \<open>45: LogicalExpression\<close>,
     Some (conv_MemberExpression) \<comment> \<open>46: MemberExpression\<close>,
     Some (conv_MetaProperty) \<comment> \<open>47: MetaProperty\<close>,
     Some (conv_MethodDefinition) \<comment> \<open>48: MethodDefinition\<close>,
     Some (conv_NewExpression) \<comment> \<open>49: NewExpression\<close>,
     Some (conv_ObjectExpression) \<comment> \<open>50: ObjectExpression\<close>,
     Some (conv_ObjectPattern) \<comment> \<open>51: ObjectPattern\<close>,
     Some (conv_PrivateIdentifier) \<comment> \<open>52: PrivateIdentifier\<close>,
     Some (conv_Program) \<comment> \<open>53: Program\<close>,
     Some (conv_Property) \<comment> \<open>54: Property\<close>,
     Some (conv_PropertyDefinition) \<comment> \<open>55: PropertyDefinition\<close>,
     Some (conv_RestElement) \<comment> \<open>56: RestElement\<close>,
     Some (conv_ReturnStatement) \<comment> \<open>57: ReturnStatement\<close>,
     Some (conv_SequenceExpression) \<comment> \<open>58: SequenceExpression\<close>,
     Some (conv_SpreadElement) \<comment> \<open>59: SpreadElement\<close>,
     Some (conv_StaticBlock) \<comment> \<open>60: StaticBlock\<close>,
     Some (conv_Super) \<comment> \<open>61: Super\<close>,
     Some (conv_SwitchCase) \<comment> \<open>62: SwitchCase\<close>,
     Some (conv_SwitchStatement) \<comment> \<open>63: SwitchStatement\<close>,
     None \<comment> \<open>64: TaggedTemplateExpression, not implemented\<close>,
     None \<comment> \<open>65: TemplateElement, not implemented\<close>,
     None \<comment> \<open>66: TemplateLiteral, not implemented\<close>,
     Some (conv_ThisExpression) \<comment> \<open>67: ThisExpression\<close>,
     Some (conv_ThrowStatement) \<comment> \<open>68: ThrowStatement\<close>,
     Some (conv_TryStatement) \<comment> \<open>69: TryStatement\<close>,
     None \<comment> \<open>70: UnaryExpression, not implemented\<close>,
     None \<comment> \<open>71: UpdateExpression, not implemented\<close>,
     Some (conv_VariableDeclaration) \<comment> \<open>72: VariableDeclaration\<close>,
     Some (conv_VariableDeclarator) \<comment> \<open>73: VariableDeclarator\<close>,
     Some (conv_WhileStatement) \<comment> \<open>74: WhileStatement\<close>,
     None \<comment> \<open>75: YieldExpression, not implemented\<close>,
     Some (conv_AssignmentPatternProperty) \<comment> \<open>76: AssignmentPatternProperty -> Property\<close>]"

text \<open>
  \<^verbatim>\<open>nodeConverters[nodeType]\<close>: \<open>None\<close> is a falsy entry, \<^verbatim>\<open>null\<close> in the table or
  \<^verbatim>\<open>undefined\<close> past its end.
\<close>

definition nodeConverter :: "builtins \<Rightarrow> u32 option \<Rightarrow> converter option" where
  "nodeConverter host nodeType =
     (case nodeType of
        None \<Rightarrow> None
      | Some w \<Rightarrow>
          if unat w < length (nodeConverters host) then nodeConverters host ! unat w else None)"

section \<open>\<open>convertNode\<close> and \<open>convertProgram\<close>\<close>

text \<open>
  The second argument is the depth of call stack left for nested \<open>convertNode\<close>
  calls. \<^verbatim>\<open>console.trace()\<close> only prints and is left out. An \<^verbatim>\<open>undefined\<close> position
  has an \<^verbatim>\<open>undefined\<close> tag, so a converter is only ever called with a number.
\<close>

primrec convertNode :: "builtins \<Rightarrow> nat \<Rightarrow> convertNodeT" where
  "convertNode host 0 = (\<lambda>position buffer readString h. Exhausted)"
| "convertNode host (Suc depth) = (\<lambda>position buffer readString.
     (let nodeType = rd buffer position;
          converter = nodeConverter host nodeType
      in case (converter, position) of
           (Some converter, Some p) \<Rightarrow>
             converter (convertNode host depth) (p + 1) buffer readString
         | _ \<Rightarrow> throw (Error (''Unknown node type: '' @ toString nodeType))))"

definition convertProgram :: "builtins \<Rightarrow> nat \<Rightarrow> u8 list \<Rightarrow> readString \<Rightarrow> jsval js" where
  "convertProgram host depth buffer readString =
     bindJ (newUint32Array buffer) (\<lambda>words.
     convertNode host depth (Some 0) words readString)"

section \<open>Reading the result\<close>

text \<open>\<^verbatim>\<open>node.name\<close>: the property of the object a value refers to.\<close>

definition field :: "heap \<Rightarrow> jsval \<Rightarrow> string \<Rightarrow> jsval" where
  "field h v name =
     (case v of
        Ref a \<Rightarrow>
          (if a < length h then
             (case h ! a of
                Object props \<Rightarrow> (case map_of props name of Some x \<Rightarrow> x | None \<Rightarrow> Undefined)
              | _ \<Rightarrow> Undefined)
           else Undefined)
      | _ \<Rightarrow> Undefined)"

text \<open>The elements of the array a value refers to.\<close>

definition items :: "heap \<Rightarrow> jsval \<Rightarrow> jsval list option" where
  "items h v =
     (case v of
        Ref a \<Rightarrow>
          (if a < length h then (case h ! a of Array xs \<Rightarrow> Some xs | _ \<Rightarrow> None) else None)
      | _ \<Rightarrow> None)"

text \<open>
  What every converter returns: a new object whose \<open>start\<close> and \<open>end\<close> are the two
  words at the converter's position.
\<close>

definition is_node :: "nat \<Rightarrow> buffer \<Rightarrow> jsval \<Rightarrow> heap \<Rightarrow> bool" where
  "is_node p b v h =
     (\<exists>a props. v = Ref a \<and> a < length h \<and> h ! a = Object props \<and>
        map_of props ''start'' = Some (num (rd b (Some p))) \<and>
        map_of props ''end'' = Some (num (rd b (Some (p + 1)))))"

text \<open>A property of the value and heap a computation returns, when it returns.\<close>

definition post :: "'a js \<Rightarrow> ('a \<Rightarrow> heap \<Rightarrow> bool) \<Rightarrow> bool" where
  "post m Q = (\<forall>h v h'. m h = Return (v, h') \<longrightarrow> Q v h')"

section \<open>Examples and tables for the properties\<close>

text \<open>A host and a resolver for the examples: the resolver names the range it is asked for.\<close>

definition exampleHost :: builtins where
  "exampleHost = \<lparr> BigInt = (\<lambda>text. Some 0), RegExp = (\<lambda>pattern flags. True) \<rparr>"

definition exampleReadString :: readString where
  "exampleReadString bytePosition len =
     (if bytePosition < 0 then ''-'' @ decimal (nat (- bytePosition))
      else decimal (nat bytePosition)) @ '':'' @ toString len"


text \<open>
  The list of a list header as the specification words it, for comparison with the
  loop of \<open>convertNodeList\<close>: the reference words in their order, where 0 gives
  \<^verbatim>\<open>null\<close> and any other word the node that \<open>cn\<close> decodes at that position.
\<close>

fun decodeRefs ::
  "convertNodeT \<Rightarrow> buffer \<Rightarrow> readString \<Rightarrow> u32 list \<Rightarrow> (jsval list) js" where
  "decodeRefs cn buffer readString [] h = Return ([], h)"
| "decodeRefs cn buffer readString (w # ws) h =
     (case (if w = 0 then Return (Null, h)
            else cn (Some (unat w)) buffer readString h) of
        Return (x, h1) \<Rightarrow>
          (case decodeRefs cn buffer readString ws h1 of
             Return (xs, h') \<Rightarrow> Return (x # xs, h')
           | Throw e \<Rightarrow> Throw e
           | Exhausted \<Rightarrow> Exhausted)
      | Throw e \<Rightarrow> Throw e
      | Exhausted \<Rightarrow> Exhausted)"

text \<open>
  The number that 64 bits denote as a JavaScript \<^verbatim>\<open>Number\<close>, an IEEE 754 binary64: the
  sign bit, 11 bits of exponent and 52 bits of fraction. \<open>Finite s m\<close> is the number of
  sign \<open>s\<close> (\<open>True\<close>: negative) and magnitude \<open>m\<close>.
\<close>

datatype number = NaN | Infinite bool | Finite bool real

definition f64_value :: "64 word \<Rightarrow> number" where
  "f64_value w =
     (let sign = (2 ^ 63 \<le> unat w);
          e = unat w div 2 ^ 52 mod 2 ^ 11;
          f = unat w mod 2 ^ 52
      in if e = 2047 then (if f = 0 then Infinite sign else NaN)
         else if e = 0 then Finite sign (real f / 2 ^ 1074)
         else if e < 1075 then Finite sign ((2 ^ 52 + real f) / 2 ^ (1075 - e))
         else Finite sign ((2 ^ 52 + real f) * 2 ^ (e - 1075)))"

section \<open>Trees and renumbering\<close>

text \<open>
  Renumbering: the references of a value and of an object moved up by \<open>k\<close> addresses,
  and an outcome on the empty heap put after a heap \<open>h\<close>.
\<close>

fun shift :: "nat \<Rightarrow> jsval \<Rightarrow> jsval" where
  "shift k (Ref a) = Ref (a + k)"
| "shift k v = v"

text \<open>
  Renumbering: the references of a value and of an object moved up by \<open>k\<close> addresses,
  and an outcome on the empty heap put after a heap \<open>h\<close>.
\<close>

fun shiftObj :: "nat \<Rightarrow> jsobj \<Rightarrow> jsobj" where
  "shiftObj k (Object props) = Object (map (\<lambda>(name, v). (name, shift k v)) props)"
| "shiftObj k (Array xs) = Array (map (shift k) xs)"
| "shiftObj k (RegExpObj pattern flags) = RegExpObj pattern flags"

definition relocate :: "('a \<Rightarrow> 'a) \<Rightarrow> heap \<Rightarrow> ('a \<times> heap) outcome \<Rightarrow> ('a \<times> heap) outcome" where
  "relocate sv h out =
     (case out of
        Return (v, e) \<Rightarrow> Return (sv v, h @ map (shiftObj (length h)) e)
      | Throw x \<Rightarrow> Throw x
      | Exhausted \<Rightarrow> Exhausted)"

text \<open>
  \<open>uniform sv k m' m\<close>: run after any heap of \<open>k\<close> objects, \<open>m'\<close> does what \<open>m\<close>
  does without it, renumbered by \<open>k\<close> (\<open>sv\<close> renumbers the value).
\<close>

definition uniform :: "('a \<Rightarrow> 'a) \<Rightarrow> nat \<Rightarrow> 'a js \<Rightarrow> 'a js \<Rightarrow> bool" where
  "uniform sv k m' m =
     (\<forall>h e. length h = k \<longrightarrow> m' (h @ map (shiftObj k) e) = relocate sv h (m e))"

text \<open>
  The tree a value stands for: the objects behind the references, without their
  addresses. Every object of the converter is allocated after the objects it refers to,
  so a reference is followed into the heap before it; a reference to the object itself
  or to a later one would be \<open>TDangling\<close>.
\<close>

datatype tree =
    TUndefined | TNull | TBool bool | TU32 u32 | TF64 "64 word" | TStr string | TBigInt int
  | TObject "(string \<times> tree) list" | TArray "tree list" | TRegExp string string
  | TDangling

function reify :: "heap \<Rightarrow> jsval \<Rightarrow> tree" where
  "reify h (Ref a) =
     (if a < length h then
        (case h ! a of
           Object props \<Rightarrow> TObject (map (\<lambda>(name, v). (name, reify (take a h) v)) props)
         | Array xs \<Rightarrow> TArray (map (reify (take a h)) xs)
         | RegExpObj pattern flags \<Rightarrow> TRegExp pattern flags)
      else TDangling)"
| "reify h Undefined = TUndefined"
| "reify h Null = TNull"
| "reify h (Bool b) = TBool b"
| "reify h (U32 w) = TU32 w"
| "reify h (F64 w) = TF64 w"
| "reify h (Str s) = TStr s"
| "reify h (BigIntV i) = TBigInt i"
  by pat_completeness auto

termination
  by (relation "measure (\<lambda>(h, v). length h)") auto

text \<open>
  A heap is \<open>backward\<close> when every object refers to earlier objects only.
  \<open>good S m\<close>: on a backward heap that holds the values of \<open>S\<close>, what \<open>m\<close>
  returns is a value of a backward heap that is not shorter.
\<close>

fun nonref :: "jsval \<Rightarrow> bool" where
  "nonref (Ref a) = False"
| "nonref v = True"

fun below :: "nat \<Rightarrow> jsval \<Rightarrow> bool" where
  "below n (Ref a) = (a < n)"
| "below n v = True"

fun vals :: "jsobj \<Rightarrow> jsval list" where
  "vals (Object props) = map snd props"
| "vals (Array xs) = xs"
| "vals (RegExpObj pattern flags) = []"

definition backward :: "heap \<Rightarrow> bool" where
  "backward h = (\<forall>a < length h. \<forall>v \<in> set (vals (h ! a)). below a v)"

definition good :: "jsval set \<Rightarrow> jsval js \<Rightarrow> bool" where
  "good S m =
     (\<forall>h v h'. backward h \<and> (\<forall>x \<in> S. below (length h) x) \<longrightarrow> m h = Return (v, h') \<longrightarrow>
        backward h' \<and> length h \<le> length h' \<and> below (length h') v)"

text \<open>No reference of the tree was left unfollowed.\<close>

fun whole :: "tree \<Rightarrow> bool" where
  "whole TDangling = False"
| "whole (TObject props) = list_all (\<lambda>(name, t). whole t) props"
| "whole (TArray ts) = list_all whole ts"
| "whole t = True"

section \<open>Basic facts\<close>

lemmas conv_defs =
  conv_ArrayExpression_def conv_ArrayPattern_def conv_ArrowFunctionExpression_def
  conv_AssignmentExpression_def conv_AssignmentPattern_def conv_AwaitExpression_def
  conv_BinaryExpression_def conv_BlockStatement_def conv_BreakStatement_def
  conv_CallExpression_def conv_CatchClause_def conv_ChainExpression_def conv_ClassBody_def
  conv_ClassDeclaration_def conv_ClassExpression_def conv_ConditionalExpression_def
  conv_ContinueStatement_def conv_DebuggerStatement_def conv_DoWhileStatement_def
  conv_EmptyStatement_def conv_ExportAllDeclaration_def conv_ExportDefaultDeclaration_def
  conv_ExportNamedDeclaration_def conv_ExportSpecifier_def conv_ExpressionStatement_def
  conv_ForInStatement_def conv_ForOfStatement_def conv_ForStatement_def
  conv_FunctionDeclaration_def conv_FunctionExpression_def conv_Identifier_def
  conv_IfStatement_def conv_ImportAttribute_def conv_ImportDeclaration_def
  conv_ImportDefaultSpecifier_def conv_ImportExpression_def
  conv_ImportNamespaceSpecifier_def conv_ImportSpecifier_def conv_LabeledStatement_def
  conv_Literal_string_def conv_Literal_boolean_def conv_Literal_number_def
  conv_Literal_null_def conv_Literal_RegExp_def conv_Literal_bigint_def
  conv_LogicalExpression_def conv_MemberExpression_def conv_MetaProperty_def
  conv_MethodDefinition_def conv_NewExpression_def conv_ObjectExpression_def
  conv_ObjectPattern_def conv_PrivateIdentifier_def conv_Program_def conv_Property_def
  conv_PropertyDefinition_def conv_RestElement_def conv_ReturnStatement_def
  conv_SequenceExpression_def conv_SpreadElement_def conv_StaticBlock_def conv_Super_def
  conv_SwitchCase_def conv_SwitchStatement_def conv_ThisExpression_def
  conv_ThrowStatement_def conv_TryStatement_def conv_VariableDeclaration_def
  conv_VariableDeclarator_def conv_WhileStatement_def conv_AssignmentPatternProperty_def

lemma post_bindJ: "(\<And>v. post (f v) Q) \<Longrightarrow> post (bindJ m f) Q"
  by (auto simp: post_def bindJ_def split: outcome.splits)

lemma post_alloc: "(\<And>h. Q (Ref (length h)) (h @ [obj])) \<Longrightarrow> post (alloc obj) Q"
  by (auto simp: post_def alloc_def)

lemma postD: "post m Q \<Longrightarrow> m h = Return (v, h') \<Longrightarrow> Q v h'"
  by (simp add: post_def)

lemma field_new:
  "field (h @ [Object props]) (Ref (length h)) name =
     (case map_of props name of Some x \<Rightarrow> x | None \<Rightarrow> Undefined)"
  by (simp add: field_def)

lemma is_node_new:
  "map_of props ''start'' = Some (num (rd b (Some p))) \<Longrightarrow>
   map_of props ''end'' = Some (num (rd b (Some (p + 1)))) \<Longrightarrow>
   is_node p b (Ref (length h)) (h @ [Object props])"
  by (simp add: is_node_def)

lemma is_node_field:
  "is_node p b v h \<Longrightarrow>
   field h v ''start'' = num (rd b (Some p)) \<and> field h v ''end'' = num (rd b (Some (p + 1)))"
  by (auto simp: is_node_def field_def)

text \<open>Every converter of the table returns a node.\<close>

lemma conv_is_node:
  "post (conv_ArrayExpression cn p b r) (is_node p b)"
  "post (conv_ArrayPattern cn p b r) (is_node p b)"
  "post (conv_ArrowFunctionExpression cn p b r) (is_node p b)"
  "post (conv_AssignmentExpression cn p b r) (is_node p b)"
  "post (conv_AssignmentPattern cn p b r) (is_node p b)"
  "post (conv_AwaitExpression cn p b r) (is_node p b)"
  "post (conv_BinaryExpression cn p b r) (is_node p b)"
  "post (conv_BlockStatement cn p b r) (is_node p b)"
  "post (conv_BreakStatement cn p b r) (is_node p b)"
  "post (conv_CallExpression cn p b r) (is_node p b)"
  "post (conv_CatchClause cn p b r) (is_node p b)"
  "post (conv_ChainExpression cn p b r) (is_node p b)"
  "post (conv_ClassBody cn p b r) (is_node p b)"
  "post (conv_ClassDeclaration cn p b r) (is_node p b)"
  "post (conv_ClassExpression cn p b r) (is_node p b)"
  "post (conv_ConditionalExpression cn p b r) (is_node p b)"
  "post (conv_ContinueStatement cn p b r) (is_node p b)"
  "post (conv_DebuggerStatement cn p b r) (is_node p b)"
  "post (conv_DoWhileStatement cn p b r) (is_node p b)"
  "post (conv_EmptyStatement cn p b r) (is_node p b)"
  "post (conv_ExportAllDeclaration cn p b r) (is_node p b)"
  "post (conv_ExportDefaultDeclaration cn p b r) (is_node p b)"
  "post (conv_ExportNamedDeclaration cn p b r) (is_node p b)"
  "post (conv_ExportSpecifier cn p b r) (is_node p b)"
  "post (conv_ExpressionStatement cn p b r) (is_node p b)"
  "post (conv_ForInStatement cn p b r) (is_node p b)"
  "post (conv_ForOfStatement cn p b r) (is_node p b)"
  "post (conv_ForStatement cn p b r) (is_node p b)"
  "post (conv_FunctionDeclaration cn p b r) (is_node p b)"
  "post (conv_FunctionExpression cn p b r) (is_node p b)"
  "post (conv_Identifier cn p b r) (is_node p b)"
  "post (conv_IfStatement cn p b r) (is_node p b)"
  "post (conv_ImportAttribute cn p b r) (is_node p b)"
  "post (conv_ImportDeclaration cn p b r) (is_node p b)"
  "post (conv_ImportDefaultSpecifier cn p b r) (is_node p b)"
  "post (conv_ImportExpression cn p b r) (is_node p b)"
  "post (conv_ImportNamespaceSpecifier cn p b r) (is_node p b)"
  "post (conv_ImportSpecifier cn p b r) (is_node p b)"
  "post (conv_LabeledStatement cn p b r) (is_node p b)"
  "post (conv_Literal_string cn p b r) (is_node p b)"
  "post (conv_Literal_boolean cn p b r) (is_node p b)"
  "post (conv_Literal_number cn p b r) (is_node p b)"
  "post (conv_Literal_null cn p b r) (is_node p b)"
  "post (conv_Literal_RegExp host cn p b r) (is_node p b)"
  "post (conv_Literal_bigint host cn p b r) (is_node p b)"
  "post (conv_LogicalExpression cn p b r) (is_node p b)"
  "post (conv_MemberExpression cn p b r) (is_node p b)"
  "post (conv_MetaProperty cn p b r) (is_node p b)"
  "post (conv_MethodDefinition cn p b r) (is_node p b)"
  "post (conv_NewExpression cn p b r) (is_node p b)"
  "post (conv_ObjectExpression cn p b r) (is_node p b)"
  "post (conv_ObjectPattern cn p b r) (is_node p b)"
  "post (conv_PrivateIdentifier cn p b r) (is_node p b)"
  "post (conv_Program cn p b r) (is_node p b)"
  "post (conv_Property cn p b r) (is_node p b)"
  "post (conv_PropertyDefinition cn p b r) (is_node p b)"
  "post (conv_RestElement cn p b r) (is_node p b)"
  "post (conv_ReturnStatement cn p b r) (is_node p b)"
  "post (conv_SequenceExpression cn p b r) (is_node p b)"
  "post (conv_SpreadElement cn p b r) (is_node p b)"
  "post (conv_StaticBlock cn p b r) (is_node p b)"
  "post (conv_Super cn p b r) (is_node p b)"
  "post (conv_SwitchCase cn p b r) (is_node p b)"
  "post (conv_SwitchStatement cn p b r) (is_node p b)"
  "post (conv_ThisExpression cn p b r) (is_node p b)"
  "post (conv_ThrowStatement cn p b r) (is_node p b)"
  "post (conv_TryStatement cn p b r) (is_node p b)"
  "post (conv_VariableDeclaration cn p b r) (is_node p b)"
  "post (conv_VariableDeclarator cn p b r) (is_node p b)"
  "post (conv_WhileStatement cn p b r) (is_node p b)"
  "post (conv_AssignmentPatternProperty cn p b r) (is_node p b)"
  unfolding conv_defs Let_def
  by (auto intro!: post_bindJ post_alloc is_node_new)

lemma nodeConverter_mem:
  "nodeConverter host t = Some c \<Longrightarrow> Some c \<in> set (nodeConverters host)"
  by (auto simp: nodeConverter_def split: option.splits if_splits dest: nth_mem)

lemma converter_is_node:
  assumes "nodeConverter host t = Some c"
  shows "post (c cn p b r) (is_node p b)"
  using nodeConverter_mem [OF assms]
  by (auto simp: nodeConverters_def conv_is_node)

text \<open>One step of \<open>convertNode\<close> at a position whose tag has a converter.\<close>

lemma convertNode_tag:
  assumes "rd buffer (Some p) = Some tag" and "nodeConverter host (Some tag) = Some c"
  shows "convertNode host (Suc depth) (Some p) buffer readString =
           c (convertNode host depth) (Suc p) buffer readString"
  using assms by (simp add: Let_def)

lemma convertNode_is_node:
  assumes "convertNode host depth (Some p) b r h = Return (v, h')"
  shows "is_node (Suc p) b v h'"
proof (cases depth)
  case 0
  with assms show ?thesis by simp
next
  case (Suc d)
  show ?thesis
  proof (cases "nodeConverter host (rd b (Some p))")
    case None
    with assms Suc show ?thesis by (simp add: throw_def)
  next
    case (Some c)
    with assms Suc have "c (convertNode host d) (p + 1) b r h = Return (v, h')"
      by simp
    with converter_is_node [OF Some, of "convertNode host d" "p + 1" b r] show ?thesis
      by (auto dest: postD)
  qed
qed

section \<open>Unknown tags\<close>

text \<open>The rendering of the tag in the message tells the tags apart.\<close>

lemma digit_inj:
  assumes "i < 10" "j < 10" "''0123456789'' ! i = ''0123456789'' ! j"
  shows "i = j"
proof -
  have "distinct ''0123456789''" by simp
  with assms show ?thesis
    by (simp add: nth_eq_iff_index_eq)
qed

lemma decimal_nonempty: "decimal n \<noteq> []"
  by (subst decimal.simps) simp

lemma decimal_digits: "set (decimal n) \<subseteq> set ''0123456789''"
proof (induction n rule: decimal.induct)
  case (1 n)
  have d: "''0123456789'' ! k \<in> set ''0123456789''" if "k < 10" for k
    using that by (intro nth_mem) simp
  show ?case
  proof (cases "n < 10")
    case True
    with d [of n] show ?thesis by (subst decimal.simps) simp
  next
    case False
    with 1 d [of "n mod 10"] show ?thesis by (subst decimal.simps) simp
  qed
qed

lemma decimal_inj: "decimal n = decimal m \<Longrightarrow> n = m"
proof (induction n arbitrary: m rule: decimal.induct)
  case (1 n)
  show ?case
  proof (cases "n < 10")
    case n: True
    show ?thesis
    proof (cases "m < 10")
      case True
      with n 1(2) show ?thesis
        by (subst (asm) (1 2) decimal.simps) (simp add: digit_inj)
    next
      case False
      with n 1(2) decimal_nonempty [of "m div 10"] show ?thesis
        by (subst (asm) (1 2) decimal.simps) simp
    qed
  next
    case n: False
    show ?thesis
    proof (cases "m < 10")
      case True
      with n 1(2) decimal_nonempty [of "n div 10"] show ?thesis
        by (subst (asm) (1 2) decimal.simps) simp
    next
      case False
      with n 1(2) have "decimal (n div 10) = decimal (m div 10)"
        and "''0123456789'' ! (n mod 10) = ''0123456789'' ! (m mod 10)"
        by (subst (asm) (1 2) decimal.simps, simp)+
      with 1(1) [OF n] have "n div 10 = m div 10" "n mod 10 = m mod 10"
        by (simp_all add: digit_inj)
      then show ?thesis by (metis div_mult_mod_eq)
    qed
  qed
qed

lemma decimal_not_undefined: "decimal n \<noteq> ''undefined''"
proof
  assume "decimal n = ''undefined''"
  then have "CHR ''u'' \<in> set (decimal n)" by simp
  with decimal_digits [of n] show False by auto
qed

lemma toString_inj: "toString t = toString t' \<Longrightarrow> t = t'"
  using decimal_not_undefined decimal_not_undefined [symmetric]
  by (auto simp: toString_def word_unat_eq_iff split: option.splits dest!: decimal_inj)

text \<open>
  C1 (as amended). Decoding at a position whose tag has no converter throws, at any
  depth of call stack above 0 and whatever the heap: the error is
  \<^verbatim>\<open>Error("Unknown node type: " + tag)\<close>, with the tag in decimal, or \<^verbatim>\<open>undefined\<close>
  when the position is outside the buffer. No value is returned. The tags without a
  converter are the six \<^verbatim>\<open>null\<close> entries of the table (64 TaggedTemplateExpression,
  65 TemplateElement, 66 TemplateLiteral, 70 UnaryExpression, 71 UpdateExpression,
  75 YieldExpression), every tag from 77 on, and the tag that is not there. The message
  carries the tag, which it identifies (two tags with one rendering are equal), and
  nothing of the position.
\<close>

theorem unknown_tag_throws:
  "(nodeConverter host (rd buffer position) = None \<longrightarrow>
      convertNode host (Suc depth) position buffer readString h =
        Throw (Error (''Unknown node type: '' @ toString (rd buffer position)))) \<and>
   nodeConverter host None = None \<and>
   (\<forall>tag \<in> {64, 65, 66, 70, 71, 75}. nodeConverter host (Some tag) = None) \<and>
   (\<forall>tag. 77 \<le> unat tag \<longrightarrow> nodeConverter host (Some tag) = None) \<and>
   (\<forall>t t'. toString t = toString t' \<longrightarrow> t = t')"
  by (simp add: throw_def nodeConverter_def nodeConverters_def) (blast dest: toString_inj)

theorem unknown_tag_throws_witness:
  "nodeConverter exampleHost (rd [7, 70] (Some 1)) = None \<and>
   convertNode exampleHost (Suc 0) (Some 1) [7, 70] exampleReadString [] =
     Throw (Error ''Unknown node type: 70'')"
  using unknown_tag_throws [of exampleHost "[7, 70]" "Some 1" 0 exampleReadString "[]"]
  by (simp add: rd_def toString_def decimal.simps)

text \<open>
  C1 as stated fails where it says that the error identifies the word position: the
  same reserved tag at positions 0 and 1 raises the very same error.
\<close>

theorem unknown_tag_error_omits_position:
  "convertNode exampleHost (Suc 0) (Some 0) [64, 64] exampleReadString [] =
     Throw (Error ''Unknown node type: 64'') \<and>
   convertNode exampleHost (Suc 0) (Some 1) [64, 64] exampleReadString [] =
     Throw (Error ''Unknown node type: 64'')"
  by (simp add: rd_def nodeConverter_def nodeConverters_def toString_def throw_def
      decimal.simps)

section \<open>Positions\<close>

text \<open>
  C4 (as amended). The \<open>start\<close> and \<open>end\<close> of every node that \<open>convertNode\<close> returns,
  of every kind, are the two words after the tag word, copied as they are
  (\<^verbatim>\<open>undefined\<close> where the buffer ends before them). Nothing is said about their
  order: the converter does not compare them.
\<close>

theorem positions_copied:
  assumes "convertNode host depth position buffer readString h = Return (node, h')"
  shows "field h' node ''start'' = num (rd buffer (inc position)) \<and>
         field h' node ''end'' = num (rd buffer (inc (inc position)))"
proof (cases position)
  case None
  with assms show ?thesis
    by (cases depth) (simp_all add: rd_def nodeConverter_def throw_def)
next
  case (Some p)
  with assms have "is_node (Suc p) buffer node h'"
    by (simp add: convertNode_is_node)
  from is_node_field [OF this] Some show ?thesis
    by (simp add: inc_def)
qed

lemma debugger_5_3:
  "convertNode exampleHost (Suc 0) (Some 0) [17, 5, 3] exampleReadString [] =
     Return (Ref 0,
       [Object [(''end'', U32 3), (''start'', U32 5), (''type'', Str ''DebuggerStatement'')]])"
  by (simp add: rd_def nodeConverter_def nodeConverters_def conv_DebuggerStatement_def
      alloc_def num_def)

theorem positions_copied_witness:
  "field [Object [(''end'', U32 3), (''start'', U32 5), (''type'', Str ''DebuggerStatement'')]]
     (Ref 0) ''start'' = U32 5 \<and>
   field [Object [(''end'', U32 3), (''start'', U32 5), (''type'', Str ''DebuggerStatement'')]]
     (Ref 0) ''end'' = U32 3"
  using positions_copied [OF debugger_5_3]
  by (simp add: rd_def inc_def num_def)

text \<open>
  C4 as stated fails where it says \<open>start \<le> end\<close>: a debugger statement whose words
  are 5 and 3 decodes, with \<open>start = 5\<close> and \<open>end = 3\<close>.
\<close>

theorem positions_order_counterexample:
  "convertNode exampleHost (Suc 0) (Some 0) [17, 5, 3] exampleReadString [] =
     Return (Ref 0,
       [Object [(''end'', U32 3), (''start'', U32 5), (''type'', Str ''DebuggerStatement'')]]) \<and>
   field [Object [(''end'', U32 3), (''start'', U32 5), (''type'', Str ''DebuggerStatement'')]]
     (Ref 0) ''start'' = U32 5 \<and>
   field [Object [(''end'', U32 3), (''start'', U32 5), (''type'', Str ''DebuggerStatement'')]]
     (Ref 0) ''end'' = U32 3 \<and>
   \<not> (5 :: u32) \<le> 3"
  by (simp add: rd_def nodeConverter_def nodeConverters_def conv_DebuggerStatement_def
      alloc_def num_def field_def)

section \<open>Facts about the program node\<close>

lemma program_post:
  "post (conv_Program cn p b r)
     (\<lambda>v h. field h v ''sourceType'' = Str ''module'' \<and> field h v ''type'' = Str ''Program'')"
  unfolding conv_Program_def Let_def
  by (intro post_bindJ post_alloc) (simp add: field_new)

lemma tag_Program: "nodeConverter host (Some 53) = Some conv_Program"
  by (simp add: nodeConverter_def nodeConverters_def)

lemma tag_Debugger: "nodeConverter host (Some 17) = Some conv_DebuggerStatement"
  by (simp add: nodeConverter_def nodeConverters_def)

lemma program_example:
  "convertNode exampleHost (Suc (Suc 0)) (Some 0) [53, 0, 10, 1, 5, 17, 1, 2]
     exampleReadString [] =
   Return (Ref 2,
     [Object [(''end'', U32 2), (''start'', U32 1), (''type'', Str ''DebuggerStatement'')],
      Array [Ref 0],
      Object [(''body'', Ref 1), (''end'', U32 10), (''sourceType'', Str ''module''),
        (''start'', U32 0), (''type'', Str ''Program'')]])"
  by (simp add: tag_Program tag_Debugger rd_def conv_Program_def conv_DebuggerStatement_def
      convertNodeList_def convertNodeList_loop.simps bindJ_def alloc_def num_def truthy_def
      toPos_def inc_def)

section \<open>Facts about single converters\<close>

lemma tags:
  "nodeConverter host (Some 0) = Some conv_ArrayExpression"
  "nodeConverter host (Some 1) = Some conv_ArrayPattern"
  "nodeConverter host (Some 2) = Some conv_ArrowFunctionExpression"
  "nodeConverter host (Some 3) = Some conv_AssignmentExpression"
  "nodeConverter host (Some 4) = Some conv_AssignmentPattern"
  "nodeConverter host (Some 5) = Some conv_AwaitExpression"
  "nodeConverter host (Some 6) = Some conv_BinaryExpression"
  "nodeConverter host (Some 7) = Some conv_BlockStatement"
  "nodeConverter host (Some 8) = Some conv_BreakStatement"
  "nodeConverter host (Some 9) = Some conv_CallExpression"
  "nodeConverter host (Some 10) = Some conv_CatchClause"
  "nodeConverter host (Some 11) = Some conv_ChainExpression"
  "nodeConverter host (Some 12) = Some conv_ClassBody"
  "nodeConverter host (Some 13) = Some conv_ClassDeclaration"
  "nodeConverter host (Some 14) = Some conv_ClassExpression"
  "nodeConverter host (Some 15) = Some conv_ConditionalExpression"
  "nodeConverter host (Some 16) = Some conv_ContinueStatement"
  "nodeConverter host (Some 17) = Some conv_DebuggerStatement"
  "nodeConverter host (Some 18) = Some conv_DoWhileStatement"
  "nodeConverter host (Some 19) = Some conv_EmptyStatement"
  "nodeConverter host (Some 20) = Some conv_ExportAllDeclaration"
  "nodeConverter host (Some 21) = Some conv_ExportDefaultDeclaration"
  "nodeConverter host (Some 22) = Some conv_ExportNamedDeclaration"
  "nodeConverter host (Some 23) = Some conv_ExportSpecifier"
  "nodeConverter host (Some 24) = Some conv_ExpressionStatement"
  "nodeConverter host (Some 25) = Some conv_ForInStatement"
  "nodeConverter host (Some 26) = Some conv_ForOfStatement"
  "nodeConverter host (Some 27) = Some conv_ForStatement"
  "nodeConverter host (Some 28) = Some conv_FunctionDeclaration"
  "nodeConverter host (Some 29) = Some conv_FunctionExpression"
  "nodeConverter host (Some 30) = Some conv_Identifier"
  "nodeConverter host (Some 31) = Some conv_IfStatement"
  "nodeConverter host (Some 32) = Some conv_ImportAttribute"
  "nodeConverter host (Some 33) = Some conv_ImportDeclaration"
  "nodeConverter host (Some 34) = Some conv_ImportDefaultSpecifier"
  "nodeConverter host (Some 35) = Some conv_ImportExpression"
  "nodeConverter host (Some 36) = Some conv_ImportNamespaceSpecifier"
  "nodeConverter host (Some 37) = Some conv_ImportSpecifier"
  "nodeConverter host (Some 38) = Some conv_LabeledStatement"
  "nodeConverter host (Some 39) = Some conv_Literal_string"
  "nodeConverter host (Some 40) = Some conv_Literal_boolean"
  "nodeConverter host (Some 41) = Some conv_Literal_number"
  "nodeConverter host (Some 42) = Some conv_Literal_null"
  "nodeConverter host (Some 43) = Some (conv_Literal_RegExp host)"
  "nodeConverter host (Some 44) = Some (conv_Literal_bigint host)"
  "nodeConverter host (Some 45) = Some conv_LogicalExpression"
  "nodeConverter host (Some 46) = Some conv_MemberExpression"
  "nodeConverter host (Some 47) = Some conv_MetaProperty"
  "nodeConverter host (Some 48) = Some conv_MethodDefinition"
  "nodeConverter host (Some 49) = Some conv_NewExpression"
  "nodeConverter host (Some 50) = Some conv_ObjectExpression"
  "nodeConverter host (Some 51) = Some conv_ObjectPattern"
  "nodeConverter host (Some 52) = Some conv_PrivateIdentifier"
  "nodeConverter host (Some 53) = Some conv_Program"
  "nodeConverter host (Some 54) = Some conv_Property"
  "nodeConverter host (Some 55) = Some conv_PropertyDefinition"
  "nodeConverter host (Some 56) = Some conv_RestElement"
  "nodeConverter host (Some 57) = Some conv_ReturnStatement"
  "nodeConverter host (Some 58) = Some conv_SequenceExpression"
  "nodeConverter host (Some 59) = Some conv_SpreadElement"
  "nodeConverter host (Some 60) = Some conv_StaticBlock"
  "nodeConverter host (Some 61) = Some conv_Super"
  "nodeConverter host (Some 62) = Some conv_SwitchCase"
  "nodeConverter host (Some 63) = Some conv_SwitchStatement"
  "nodeConverter host (Some 67) = Some conv_ThisExpression"
  "nodeConverter host (Some 68) = Some conv_ThrowStatement"
  "nodeConverter host (Some 69) = Some conv_TryStatement"
  "nodeConverter host (Some 72) = Some conv_VariableDeclaration"
  "nodeConverter host (Some 73) = Some conv_VariableDeclarator"
  "nodeConverter host (Some 74) = Some conv_WhileStatement"
  "nodeConverter host (Some 76) = Some conv_AssignmentPatternProperty"
  by (simp_all add: nodeConverter_def nodeConverters_def)

lemma tag_ExportSpecifier: "nodeConverter host (Some 23) = Some conv_ExportSpecifier"
  and tag_ImportSpecifier: "nodeConverter host (Some 37) = Some conv_ImportSpecifier"
  and tag_Property: "nodeConverter host (Some 54) = Some conv_Property"
  and tag_AssignmentPatternProperty:
    "nodeConverter host (Some 76) = Some conv_AssignmentPatternProperty"
  by (rule tags)+

lemma bindJ_ret [simp]: "bindJ (ret v) f = f v"
  by (rule ext) (simp add: bindJ_def ret_def)

lemma truthy_0 [simp]: "\<not> truthy (Some 0)"
  by (simp add: truthy_def)


lemma via_converter:
  assumes "convertNode host depth (Some p) buffer readString h = Return (node, h')"
    and "rd buffer (Some p) = Some tag"
    and "nodeConverter host (Some tag) = Some c"
    and "\<And>cn. post (c cn (p + 1) buffer readString) Q"
  shows "Q node h'"
proof (cases depth)
  case 0
  with assms show ?thesis by simp
next
  case (Suc d)
  with assms(1)
  have "c (convertNode host d) (p + 1) buffer readString h = Return (node, h')"
    by (simp add: convertNode_tag [OF assms(2,3)] del: convertNode.simps)
  from postD [OF assms(4) this] show ?thesis .
qed





lemma convertNode_Ref:
  assumes "convertNode host depth position b r h = Return (v, h')"
  shows "\<exists>a. v = Ref a \<and> a < length h'"
proof (cases position)
  case None
  with assms show ?thesis
    by (cases depth) (simp_all add: rd_def nodeConverter_def throw_def)
next
  case (Some p)
  with convertNode_is_node [of host depth p b r h v h'] assms show ?thesis
    by (auto simp: is_node_def)
qed

lemma property_inv:
  assumes "conv_Property cn q b r h = Return (v, h')"
  shows "\<exists>key h1. cn (Some (q + 6)) b r h = Return (key, h1) \<and> field h' v ''key'' = key \<and>
     (rd b (Some (q + 5)) = Some 0 \<longrightarrow>
        field h' v ''shorthand'' = Bool True \<and> field h' v ''value'' = key) \<and>
     (\<forall>w. rd b (Some (q + 5)) = Some w \<and> w \<noteq> 0 \<longrightarrow>
        field h' v ''shorthand'' = Bool False \<and>
        (\<exists>h2. cn (Some (unat w)) b r h1 = Return (field h' v ''value'', h2)))"
  using assms unfolding conv_Property_def Let_def
  by (auto simp: bindJ_def alloc_def field_new truthy_def toPos_def ret_def
      split: outcome.splits if_splits)

lemma assignmentPatternProperty_inv:
  assumes "conv_AssignmentPatternProperty cn q b r h = Return (v, h')"
  shows "\<exists>key h1. cn (Some (q + 3)) b r h = Return (key, h1) \<and> field h' v ''key'' = key \<and>
     (rd b (Some (q + 2)) = Some 0 \<longrightarrow>
        field h' v ''shorthand'' = Bool True \<and> field h' v ''value'' = key) \<and>
     (\<forall>w. rd b (Some (q + 2)) = Some w \<and> w \<noteq> 0 \<longrightarrow>
        field h' v ''shorthand'' = Bool False \<and>
        (\<exists>h2. cn (Some (unat w)) b r h1 = Return (field h' v ''value'', h2)))"
  using assms unfolding conv_AssignmentPatternProperty_def Let_def
  by (auto simp: bindJ_def alloc_def field_new truthy_def toPos_def ret_def
      split: outcome.splits if_splits)

section \<open>The program node\<close>

text \<open>
  C10. Decoding at a position whose tag is 53 (Program) is the decoding of the body
  list at the third word after the tag, followed by the allocation of the node: the
  node is produced whenever its body list is, and it carries the type \<^verbatim>\<open>'Program'\<close>
  and the \<open>sourceType\<close> \<^verbatim>\<open>'module'\<close>, whatever the buffer holds. Every node decoded at
  such a position, at any depth of call stack, has that type and that \<open>sourceType\<close>.
\<close>

theorem program_sourceType:
  assumes "rd buffer (Some p) = Some 53"
  shows
    "convertNode host (Suc depth) (Some p) buffer readString h =
       (case convertNodeList (convertNode host depth) (Some (p + 3)) buffer readString h of
          Return (body, h1) \<Rightarrow>
            Return (Ref (length h1), h1 @ [Object [
              (''body'', body),
              (''end'', num (rd buffer (Some (p + 2)))),
              (''sourceType'', Str ''module''),
              (''start'', num (rd buffer (Some (p + 1)))),
              (''type'', Str ''Program'')]])
        | Throw e \<Rightarrow> Throw e
        | Exhausted \<Rightarrow> Exhausted) \<and>
     (\<forall>d node h'. convertNode host d (Some p) buffer readString h = Return (node, h') \<longrightarrow>
        field h' node ''type'' = Str ''Program'' \<and>
        field h' node ''sourceType'' = Str ''module'')"
proof (intro conjI allI impI)
  show "convertNode host (Suc depth) (Some p) buffer readString h =
       (case convertNodeList (convertNode host depth) (Some (p + 3)) buffer readString h of
          Return (body, h1) \<Rightarrow>
            Return (Ref (length h1), h1 @ [Object [
              (''body'', body),
              (''end'', num (rd buffer (Some (p + 2)))),
              (''sourceType'', Str ''module''),
              (''start'', num (rd buffer (Some (p + 1)))),
              (''type'', Str ''Program'')]])
        | Throw e \<Rightarrow> Throw e
        | Exhausted \<Rightarrow> Exhausted)"
    unfolding convertNode_tag [OF assms tag_Program] conv_Program_def Let_def
    by (simp add: bindJ_def alloc_def eval_nat_numeral split: outcome.splits)
next
  fix d node h'
  assume r: "convertNode host d (Some p) buffer readString h = Return (node, h')"
  show "field h' node ''type'' = Str ''Program''"
    using via_converter [OF r assms tag_Program program_post] by simp
  show "field h' node ''sourceType'' = Str ''module''"
    using via_converter [OF r assms tag_Program program_post] by simp
qed

theorem program_sourceType_witness:
  "\<exists>node h'.
     convertNode exampleHost (Suc (Suc 0)) (Some 0) [53, 0, 10, 1, 5, 17, 1, 2]
       exampleReadString [] = Return (node, h') \<and>
     field h' node ''type'' = Str ''Program'' \<and>
     field h' node ''sourceType'' = Str ''module''"
proof -
  have l: "convertNodeList (convertNode exampleHost (Suc 0)) (Some (0 + 3))
      [53, 0, 10, 1, 5, 17, 1, 2] exampleReadString [] =
    Return (Ref 1,
      [Object [(''end'', U32 2), (''start'', U32 1), (''type'', Str ''DebuggerStatement'')],
       Array [Ref 0]])"
    by (simp add: tags convertNodeList_def convertNodeList_loop.simps
        conv_DebuggerStatement_def rd_def bindJ_def alloc_def num_def truthy_def toPos_def
        inc_def)
  have t: "rd [53, 0, 10, 1, 5, 17, 1, 2] (Some 0) = Some 53"
    by (simp add: rd_def)
  note program_sourceType [OF t, of exampleHost "Suc 0" exampleReadString "[]",
      THEN conjunct1, unfolded l]
  then show ?thesis
    by (simp add: field_def del: convertNode.simps)
qed

section \<open>Defaults that are the sibling node\<close>

text \<open>
  C5. An export specifier (tag 23, property \<open>exported\<close>) or import specifier (tag 37,
  property \<open>imported\<close>) whose \<open>exported\<close>/\<open>imported\<close> word, the third after the tag,
  is 0. Decoding it is the decoding of the \<open>local\<close> node at the fourth word after the
  tag, followed by the allocation of the specifier, in which \<open>local\<close> and
  \<open>exported\<close>/\<open>imported\<close> are one and the same value: the specifier is produced
  whenever its local node is. In every specifier so decoded, \<open>local\<close> is an object
  reference, the one \<open>convertNode\<close> returned, and \<open>exported\<close>/\<open>imported\<close> holds the same
  reference, that is the same object.
\<close>

theorem default_specifier:
  assumes "rd buffer (Some p) = Some 23 \<and> name = ''exported'' \<and> kind = ''ExportSpecifier'' \<or>
           rd buffer (Some p) = Some 37 \<and> name = ''imported'' \<and> kind = ''ImportSpecifier''"
    and "rd buffer (Some (p + 3)) = Some 0"
  shows
    "convertNode host (Suc depth) (Some p) buffer readString h =
       (case convertNode host depth (Some (p + 4)) buffer readString h of
          Return (local, h1) \<Rightarrow>
            Return (Ref (length h1), h1 @ [Object [
              (''end'', num (rd buffer (Some (p + 2)))),
              (name, local),
              (''local'', local),
              (''start'', num (rd buffer (Some (p + 1)))),
              (''type'', Str kind)]])
        | Throw e \<Rightarrow> Throw e
        | Exhausted \<Rightarrow> Exhausted) \<and>
     (\<forall>node h'. convertNode host (Suc depth) (Some p) buffer readString h = Return (node, h') \<longrightarrow>
        (\<exists>a h1. convertNode host depth (Some (p + 4)) buffer readString h = Return (Ref a, h1) \<and>
           field h' node ''local'' = Ref a \<and> field h' node name = Ref a))"
proof -
  from assms(2) have z: "rd buffer (Some (Suc p + 2)) = Some 0"
    by (simp add: eval_nat_numeral)
  have eq: "convertNode host (Suc depth) (Some p) buffer readString h =
       (case convertNode host depth (Some (p + 4)) buffer readString h of
          Return (local, h1) \<Rightarrow>
            Return (Ref (length h1), h1 @ [Object [
              (''end'', num (rd buffer (Some (p + 2)))),
              (name, local),
              (''local'', local),
              (''start'', num (rd buffer (Some (p + 1)))),
              (''type'', Str kind)]])
        | Throw e \<Rightarrow> Throw e
        | Exhausted \<Rightarrow> Exhausted)"
    using assms(1)
  proof (elim disjE conjE)
    assume tag: "rd buffer (Some p) = Some 23"
      and "name = ''exported''" "kind = ''ExportSpecifier''"
    then show ?thesis
      unfolding convertNode_tag [OF tag tag_ExportSpecifier] conv_ExportSpecifier_def Let_def z
      by (simp add: bindJ_def alloc_def eval_nat_numeral split: outcome.splits)
  next
    assume tag: "rd buffer (Some p) = Some 37"
      and "name = ''imported''" "kind = ''ImportSpecifier''"
    then show ?thesis
      unfolding convertNode_tag [OF tag tag_ImportSpecifier] conv_ImportSpecifier_def Let_def z
      by (simp add: bindJ_def alloc_def eval_nat_numeral split: outcome.splits)
  qed
  have "\<exists>a h1. convertNode host depth (Some (p + 4)) buffer readString h = Return (Ref a, h1) \<and>
           field h' node ''local'' = Ref a \<and> field h' node name = Ref a"
    if r: "convertNode host (Suc depth) (Some p) buffer readString h = Return (node, h')"
    for node h'
  proof -
    from r [unfolded eq] obtain local h1 where
      l: "convertNode host depth (Some (p + 4)) buffer readString h = Return (local, h1)"
      and n: "node = Ref (length h1)"
      and h': "h' = h1 @ [Object [
              (''end'', num (rd buffer (Some (p + 2)))),
              (name, local),
              (''local'', local),
              (''start'', num (rd buffer (Some (p + 1)))),
              (''type'', Str kind)]]"
      by (auto split: outcome.splits)
    from convertNode_Ref [OF l] obtain a where "local = Ref a" by blast
    moreover from assms(1) have "name = ''exported'' \<or> name = ''imported''" by blast
    ultimately show ?thesis
      using l n h' by (auto simp: field_new)
  qed
  with eq show ?thesis by blast
qed

theorem default_specifier_witness:
  "(\<exists>node h' a.
      convertNode exampleHost (Suc (Suc 0)) (Some 0) [23, 0, 9, 0, 17, 1, 2]
        exampleReadString [] = Return (node, h') \<and>
      field h' node ''type'' = Str ''ExportSpecifier'' \<and>
      field h' node ''local'' = Ref a \<and> field h' node ''exported'' = Ref a) \<and>
   (\<exists>node h' a.
      convertNode exampleHost (Suc (Suc 0)) (Some 0) [37, 0, 9, 0, 17, 1, 2]
        exampleReadString [] = Return (node, h') \<and>
      field h' node ''type'' = Str ''ImportSpecifier'' \<and>
      field h' node ''local'' = Ref a \<and> field h' node ''imported'' = Ref a)"
proof -
  have l: "convertNode exampleHost (Suc 0) (Some (0 + 4)) (w # [0, 9, 0, 17, 1, 2])
      exampleReadString [] =
    Return (Ref 0, [Object [(''end'', U32 2), (''start'', U32 1), (''type'', Str ''DebuggerStatement'')]])" for w
    by (simp add: tags conv_DebuggerStatement_def rd_def alloc_def num_def)
  have "rd [23, 0, 9, 0, 17, 1, 2] (Some 0) = Some 23 \<and> ''exported'' = ''exported'' \<and>
      ''ExportSpecifier'' = ''ExportSpecifier'' \<or>
    rd [23, 0, 9, 0, 17, 1, 2] (Some 0) = Some 37 \<and> ''exported'' = ''imported'' \<and>
      ''ExportSpecifier'' = ''ImportSpecifier''"
    and "rd [23, 0, 9, 0, 17, 1, 2] (Some (0 + 3)) = Some 0"
    by (simp_all add: rd_def)
  note e = default_specifier [OF this, of exampleHost "Suc 0" exampleReadString "[]",
      THEN conjunct1, unfolded l]
  have "rd [37, 0, 9, 0, 17, 1, 2] (Some 0) = Some 23 \<and> ''imported'' = ''exported'' \<and>
      ''ImportSpecifier'' = ''ExportSpecifier'' \<or>
    rd [37, 0, 9, 0, 17, 1, 2] (Some 0) = Some 37 \<and> ''imported'' = ''imported'' \<and>
      ''ImportSpecifier'' = ''ImportSpecifier''"
    and "rd [37, 0, 9, 0, 17, 1, 2] (Some (0 + 3)) = Some 0"
    by (simp_all add: rd_def)
  note i = default_specifier [OF this, of exampleHost "Suc 0" exampleReadString "[]",
      THEN conjunct1, unfolded l]
  from e i show ?thesis
    by (simp add: field_def del: convertNode.simps)
qed

section \<open>Shorthand properties\<close>

text \<open>
  C9. A Property node comes from tag 54, whose value word is the sixth after the tag,
  and from tag 76 (the assignment-pattern property), whose value word is the third; the
  key is decoded at the word after the value word. For either tag, decoding is the
  decoding of the key, then of the value at the position the value word names when
  that word is not 0, then the allocation of the node: the node is produced whenever
  its key and, for a value word other than 0, its value are. In every node so decoded:
  when the value word is 0 the node has \<open>shorthand = true\<close> and its \<open>value\<close> is the very
  reference of its \<open>key\<close>; when the value word is \<open>w \<noteq> 0\<close> the node has
  \<open>shorthand = false\<close> and its \<open>value\<close> is what \<open>convertNode\<close> returns at position \<open>w\<close>,
  called after the key was decoded.
\<close>

theorem property_shorthand:
  "(rd buffer (Some p) = Some 54 \<longrightarrow>
      convertNode host (Suc depth) (Some p) buffer readString h =
       (case convertNode host depth (Some (p + 7)) buffer readString h of
          Return (key, h1) \<Rightarrow>
            (case (if truthy (rd buffer (Some (p + 6)))
                   then convertNode host depth (toPos (rd buffer (Some (p + 6)))) buffer
                     readString h1
                   else Return (key, h1)) of
               Return (value, h2) \<Rightarrow>
                 Return (Ref (length h2), h2 @ [Object [
                   (''computed'', Bool (truthy (rd buffer (Some (p + 5))))),
                   (''end'', num (rd buffer (Some (p + 2)))),
                   (''key'', key),
                   (''kind'', PROPERTY_KINDS (rd buffer (Some (p + 3)))),
                   (''method'', Bool (truthy (rd buffer (Some (p + 4))))),
                   (''shorthand'', Bool (\<not> truthy (rd buffer (Some (p + 6))))),
                   (''start'', num (rd buffer (Some (p + 1)))),
                   (''type'', Str ''Property''),
                   (''value'', value)]])
             | Throw e \<Rightarrow> Throw e
             | Exhausted \<Rightarrow> Exhausted)
        | Throw e \<Rightarrow> Throw e
        | Exhausted \<Rightarrow> Exhausted)) \<and>
   (rd buffer (Some p) = Some 76 \<longrightarrow>
      convertNode host (Suc depth) (Some p) buffer readString h =
       (case convertNode host depth (Some (p + 4)) buffer readString h of
          Return (key, h1) \<Rightarrow>
            (case (if truthy (rd buffer (Some (p + 3)))
                   then convertNode host depth (toPos (rd buffer (Some (p + 3)))) buffer
                     readString h1
                   else Return (key, h1)) of
               Return (value, h2) \<Rightarrow>
                 Return (Ref (length h2), h2 @ [Object [
                   (''computed'', Bool False),
                   (''end'', num (rd buffer (Some (p + 2)))),
                   (''key'', key),
                   (''kind'', Str ''init''),
                   (''method'', Bool False),
                   (''shorthand'', Bool (\<not> truthy (rd buffer (Some (p + 3))))),
                   (''start'', num (rd buffer (Some (p + 1)))),
                   (''type'', Str ''Property''),
                   (''value'', value)]])
             | Throw e \<Rightarrow> Throw e
             | Exhausted \<Rightarrow> Exhausted)
        | Throw e \<Rightarrow> Throw e
        | Exhausted \<Rightarrow> Exhausted)) \<and>
   (rd buffer (Some p) = Some 54 \<and> k = 6 \<or> rd buffer (Some p) = Some 76 \<and> k = 3 \<longrightarrow>
      (\<forall>node h'.
         convertNode host (Suc depth) (Some p) buffer readString h = Return (node, h') \<longrightarrow>
       (\<exists>key h1.
           convertNode host depth (Some (p + k + 1)) buffer readString h = Return (key, h1) \<and>
           field h' node ''key'' = key \<and> (\<exists>a. key = Ref a) \<and>
           (rd buffer (Some (p + k)) = Some 0 \<longrightarrow>
              field h' node ''shorthand'' = Bool True \<and> field h' node ''value'' = key) \<and>
           (\<forall>w. rd buffer (Some (p + k)) = Some w \<and> w \<noteq> 0 \<longrightarrow>
              field h' node ''shorthand'' = Bool False \<and>
              (\<exists>h2. convertNode host depth (Some (unat w)) buffer readString h1 =
                 Return (field h' node ''value'', h2))))))"
proof (intro conjI impI allI)
  assume tag: "rd buffer (Some p) = Some 54"
  show "convertNode host (Suc depth) (Some p) buffer readString h =
       (case convertNode host depth (Some (p + 7)) buffer readString h of
          Return (key, h1) \<Rightarrow>
            (case (if truthy (rd buffer (Some (p + 6)))
                   then convertNode host depth (toPos (rd buffer (Some (p + 6)))) buffer
                     readString h1
                   else Return (key, h1)) of
               Return (value, h2) \<Rightarrow>
                 Return (Ref (length h2), h2 @ [Object [
                   (''computed'', Bool (truthy (rd buffer (Some (p + 5))))),
                   (''end'', num (rd buffer (Some (p + 2)))),
                   (''key'', key),
                   (''kind'', PROPERTY_KINDS (rd buffer (Some (p + 3)))),
                   (''method'', Bool (truthy (rd buffer (Some (p + 4))))),
                   (''shorthand'', Bool (\<not> truthy (rd buffer (Some (p + 6))))),
                   (''start'', num (rd buffer (Some (p + 1)))),
                   (''type'', Str ''Property''),
                   (''value'', value)]])
             | Throw e \<Rightarrow> Throw e
             | Exhausted \<Rightarrow> Exhausted)
        | Throw e \<Rightarrow> Throw e
        | Exhausted \<Rightarrow> Exhausted)"
    unfolding convertNode_tag [OF tag tag_Property] conv_Property_def Let_def
    by (simp add: bindJ_def alloc_def ret_def eval_nat_numeral split: outcome.splits)
next
  assume tag: "rd buffer (Some p) = Some 76"
  show "convertNode host (Suc depth) (Some p) buffer readString h =
       (case convertNode host depth (Some (p + 4)) buffer readString h of
          Return (key, h1) \<Rightarrow>
            (case (if truthy (rd buffer (Some (p + 3)))
                   then convertNode host depth (toPos (rd buffer (Some (p + 3)))) buffer
                     readString h1
                   else Return (key, h1)) of
               Return (value, h2) \<Rightarrow>
                 Return (Ref (length h2), h2 @ [Object [
                   (''computed'', Bool False),
                   (''end'', num (rd buffer (Some (p + 2)))),
                   (''key'', key),
                   (''kind'', Str ''init''),
                   (''method'', Bool False),
                   (''shorthand'', Bool (\<not> truthy (rd buffer (Some (p + 3))))),
                   (''start'', num (rd buffer (Some (p + 1)))),
                   (''type'', Str ''Property''),
                   (''value'', value)]])
             | Throw e \<Rightarrow> Throw e
             | Exhausted \<Rightarrow> Exhausted)
        | Throw e \<Rightarrow> Throw e
        | Exhausted \<Rightarrow> Exhausted)"
    unfolding convertNode_tag [OF tag tag_AssignmentPatternProperty]
      conv_AssignmentPatternProperty_def Let_def
    by (simp add: bindJ_def alloc_def ret_def eval_nat_numeral split: outcome.splits)
next
  fix node h'
  assume tk: "rd buffer (Some p) = Some 54 \<and> k = 6 \<or> rd buffer (Some p) = Some 76 \<and> k = 3"
    and r: "convertNode host (Suc depth) (Some p) buffer readString h = Return (node, h')"
  have "\<exists>key h1.
          convertNode host depth (Some (p + k + 1)) buffer readString h = Return (key, h1) \<and>
          field h' node ''key'' = key \<and>
          (rd buffer (Some (p + k)) = Some 0 \<longrightarrow>
             field h' node ''shorthand'' = Bool True \<and> field h' node ''value'' = key) \<and>
          (\<forall>w. rd buffer (Some (p + k)) = Some w \<and> w \<noteq> 0 \<longrightarrow>
             field h' node ''shorthand'' = Bool False \<and>
             (\<exists>h2. convertNode host depth (Some (unat w)) buffer readString h1 =
                Return (field h' node ''value'', h2)))"
    using tk
  proof (elim disjE conjE)
    assume tag: "rd buffer (Some p) = Some 54" and k: "k = 6"
    from r
    have "conv_Property (convertNode host depth) (Suc p) buffer readString h =
        Return (node, h')"
      by (simp add: convertNode_tag [OF tag tag_Property] del: convertNode.simps)
    from property_inv [OF this] k show ?thesis
      by (auto simp: eval_nat_numeral)
  next
    assume tag: "rd buffer (Some p) = Some 76" and k: "k = 3"
    from r
    have "conv_AssignmentPatternProperty (convertNode host depth) (Suc p) buffer readString h =
        Return (node, h')"
      by (simp add: convertNode_tag [OF tag tag_AssignmentPatternProperty]
          del: convertNode.simps)
    from assignmentPatternProperty_inv [OF this] k show ?thesis
      by (auto simp: eval_nat_numeral)
  qed
  then obtain key h1 where
    l: "convertNode host depth (Some (p + k + 1)) buffer readString h = Return (key, h1)"
      "field h' node ''key'' = key"
      "rd buffer (Some (p + k)) = Some 0 \<longrightarrow>
         field h' node ''shorthand'' = Bool True \<and> field h' node ''value'' = key"
      "\<forall>w. rd buffer (Some (p + k)) = Some w \<and> w \<noteq> 0 \<longrightarrow>
         field h' node ''shorthand'' = Bool False \<and>
         (\<exists>h2. convertNode host depth (Some (unat w)) buffer readString h1 =
            Return (field h' node ''value'', h2))"
    by blast
  from convertNode_Ref [OF l(1)] l
  show "(\<exists>key h1.
           convertNode host depth (Some (p + k + 1)) buffer readString h = Return (key, h1) \<and>
           field h' node ''key'' = key \<and> (\<exists>a. key = Ref a) \<and>
           (rd buffer (Some (p + k)) = Some 0 \<longrightarrow>
              field h' node ''shorthand'' = Bool True \<and> field h' node ''value'' = key) \<and>
           (\<forall>w. rd buffer (Some (p + k)) = Some w \<and> w \<noteq> 0 \<longrightarrow>
              field h' node ''shorthand'' = Bool False \<and>
              (\<exists>h2. convertNode host depth (Some (unat w)) buffer readString h1 =
                 Return (field h' node ''value'', h2))))"
    by blast
qed

theorem property_shorthand_witness:
  "(\<exists>node h' a.
      convertNode exampleHost (Suc (Suc 0)) (Some 0) [54, 0, 9, 0, 0, 0, 0, 17, 1, 2]
        exampleReadString [] = Return (node, h') \<and>
      field h' node ''type'' = Str ''Property'' \<and>
      field h' node ''shorthand'' = Bool True \<and>
      field h' node ''key'' = Ref a \<and> field h' node ''value'' = Ref a) \<and>
   (\<exists>node h' a b.
      convertNode exampleHost (Suc (Suc 0)) (Some 0) [54, 0, 9, 0, 0, 0, 10, 17, 1, 2, 17, 3, 4]
        exampleReadString [] = Return (node, h') \<and>
      field h' node ''type'' = Str ''Property'' \<and>
      field h' node ''shorthand'' = Bool False \<and>
      field h' node ''key'' = Ref a \<and> field h' node ''value'' = Ref b \<and> a \<noteq> b \<and>
      field h' (Ref a) ''start'' = U32 1 \<and> field h' (Ref b) ''start'' = U32 3) \<and>
   (\<exists>node h' a.
      convertNode exampleHost (Suc (Suc 0)) (Some 0) [76, 0, 9, 0, 17, 1, 2]
        exampleReadString [] = Return (node, h') \<and>
      field h' node ''type'' = Str ''Property'' \<and>
      field h' node ''shorthand'' = Bool True \<and>
      field h' node ''key'' = Ref a \<and> field h' node ''value'' = Ref a) \<and>
   (\<exists>node h' a b.
      convertNode exampleHost (Suc (Suc 0)) (Some 0) [76, 0, 9, 7, 17, 1, 2, 17, 3, 4]
        exampleReadString [] = Return (node, h') \<and>
      field h' node ''type'' = Str ''Property'' \<and>
      field h' node ''shorthand'' = Bool False \<and>
      field h' node ''key'' = Ref a \<and> field h' node ''value'' = Ref b \<and> a \<noteq> b \<and>
      field h' (Ref a) ''start'' = U32 1 \<and> field h' (Ref b) ''start'' = U32 3)"
proof -
  have ka: "convertNode exampleHost (Suc 0) (Some 7) [54, 0, 9, 0, 0, 0, 0, 17, 1, 2]
      exampleReadString [] =
    Return (Ref 0, [Object [(''end'', U32 2), (''start'', U32 1), (''type'', Str ''DebuggerStatement'')]])"
    by (simp add: tags conv_DebuggerStatement_def rd_def alloc_def num_def)
  have "rd [54, 0, 9, 0, 0, 0, 0, 17, 1, 2] (Some 0) = Some 54"
    by (simp add: rd_def)
  from property_shorthand [THEN conjunct1, THEN mp, OF this,
      of exampleHost "Suc 0" exampleReadString "[]"]
  have a: "\<exists>node h' a.
      convertNode exampleHost (Suc (Suc 0)) (Some 0) [54, 0, 9, 0, 0, 0, 0, 17, 1, 2]
        exampleReadString [] = Return (node, h') \<and>
      field h' node ''type'' = Str ''Property'' \<and>
      field h' node ''shorthand'' = Bool True \<and>
      field h' node ''key'' = Ref a \<and> field h' node ''value'' = Ref a"
    by (simp add: ka rd_def truthy_def toPos_def field_def del: convertNode.simps)
  have kb: "convertNode exampleHost (Suc 0) (Some 7) [54, 0, 9, 0, 0, 0, 10, 17, 1, 2, 17, 3, 4]
      exampleReadString [] =
    Return (Ref 0, [Object [(''end'', U32 2), (''start'', U32 1), (''type'', Str ''DebuggerStatement'')]])"
    by (simp add: tags conv_DebuggerStatement_def rd_def alloc_def num_def)
  have vb: "convertNode exampleHost (Suc 0) (Some 10) [54, 0, 9, 0, 0, 0, 10, 17, 1, 2, 17, 3, 4]
      exampleReadString [Object [(''end'', U32 2), (''start'', U32 1), (''type'', Str ''DebuggerStatement'')]] =
    Return (Ref 1, [Object [(''end'', U32 2), (''start'', U32 1), (''type'', Str ''DebuggerStatement'')],
      Object [(''end'', U32 4), (''start'', U32 3), (''type'', Str ''DebuggerStatement'')]])"
    by (simp add: tags conv_DebuggerStatement_def rd_def alloc_def num_def)
  have "rd [54, 0, 9, 0, 0, 0, 10, 17, 1, 2, 17, 3, 4] (Some 0) = Some 54"
    by (simp add: rd_def)
  from property_shorthand [THEN conjunct1, THEN mp, OF this,
      of exampleHost "Suc 0" exampleReadString "[]"]
  have b: "\<exists>node h' a b.
      convertNode exampleHost (Suc (Suc 0)) (Some 0) [54, 0, 9, 0, 0, 0, 10, 17, 1, 2, 17, 3, 4]
        exampleReadString [] = Return (node, h') \<and>
      field h' node ''type'' = Str ''Property'' \<and>
      field h' node ''shorthand'' = Bool False \<and>
      field h' node ''key'' = Ref a \<and> field h' node ''value'' = Ref b \<and> a \<noteq> b \<and>
      field h' (Ref a) ''start'' = U32 1 \<and> field h' (Ref b) ''start'' = U32 3"
    by (simp add: kb vb rd_def truthy_def toPos_def field_def del: convertNode.simps)
  have kc: "convertNode exampleHost (Suc 0) (Some 4) [76, 0, 9, 0, 17, 1, 2]
      exampleReadString [] =
    Return (Ref 0, [Object [(''end'', U32 2), (''start'', U32 1), (''type'', Str ''DebuggerStatement'')]])"
    by (simp add: tags conv_DebuggerStatement_def rd_def alloc_def num_def)
  have "rd [76, 0, 9, 0, 17, 1, 2] (Some 0) = Some 76"
    by (simp add: rd_def)
  from property_shorthand [THEN conjunct2, THEN conjunct1, THEN mp, OF this,
      of exampleHost "Suc 0" exampleReadString "[]"]
  have c: "\<exists>node h' a.
      convertNode exampleHost (Suc (Suc 0)) (Some 0) [76, 0, 9, 0, 17, 1, 2]
        exampleReadString [] = Return (node, h') \<and>
      field h' node ''type'' = Str ''Property'' \<and>
      field h' node ''shorthand'' = Bool True \<and>
      field h' node ''key'' = Ref a \<and> field h' node ''value'' = Ref a"
    by (simp add: kc rd_def truthy_def toPos_def field_def del: convertNode.simps)
  have kd: "convertNode exampleHost (Suc 0) (Some 4) [76, 0, 9, 7, 17, 1, 2, 17, 3, 4]
      exampleReadString [] =
    Return (Ref 0, [Object [(''end'', U32 2), (''start'', U32 1), (''type'', Str ''DebuggerStatement'')]])"
    by (simp add: tags conv_DebuggerStatement_def rd_def alloc_def num_def)
  have vd: "convertNode exampleHost (Suc 0) (Some 7) [76, 0, 9, 7, 17, 1, 2, 17, 3, 4]
      exampleReadString [Object [(''end'', U32 2), (''start'', U32 1), (''type'', Str ''DebuggerStatement'')]] =
    Return (Ref 1, [Object [(''end'', U32 2), (''start'', U32 1), (''type'', Str ''DebuggerStatement'')],
      Object [(''end'', U32 4), (''start'', U32 3), (''type'', Str ''DebuggerStatement'')]])"
    by (simp add: tags conv_DebuggerStatement_def rd_def alloc_def num_def)
  have "rd [76, 0, 9, 7, 17, 1, 2, 17, 3, 4] (Some 0) = Some 76"
    by (simp add: rd_def)
  from property_shorthand [THEN conjunct2, THEN conjunct1, THEN mp, OF this,
      of exampleHost "Suc 0" exampleReadString "[]"]
  have d: "\<exists>node h' a b.
      convertNode exampleHost (Suc (Suc 0)) (Some 0) [76, 0, 9, 7, 17, 1, 2, 17, 3, 4]
        exampleReadString [] = Return (node, h') \<and>
      field h' node ''type'' = Str ''Property'' \<and>
      field h' node ''shorthand'' = Bool False \<and>
      field h' node ''key'' = Ref a \<and> field h' node ''value'' = Ref b \<and> a \<noteq> b \<and>
      field h' (Ref a) ''start'' = U32 1 \<and> field h' (Ref b) ''start'' = U32 3"
    by (simp add: kd vd rd_def truthy_def toPos_def field_def del: convertNode.simps)
  from a b c d show ?thesis
    by blast
qed

section \<open>Optional references\<close>






section \<open>The shift of a position\<close>

lemma shl2_small:
  assumes "q < 2 ^ 29"
  shows "shl2 (Some q) = 4 * int q"
proof -
  have "push_bit 2 (word_of_nat q :: u32) = word_of_nat (4 * q)"
    by (simp add: push_bit_eq_mult)
  moreover have "sint (word_of_nat (4 * q) :: u32) = int (4 * q)"
    unfolding signed_of_nat using assms by (simp add: signed_take_bit_int_eq_self)
  ultimately show ?thesis by (simp add: shl2_def)
qed

section \<open>Lists\<close>

lemma loop_decodeRefs:
  assumes "q + (len - index) \<le> length b"
  shows "convertNodeList_loop cn b r len index (Some q) list h =
     (case decodeRefs cn b r (take (len - index) (drop q b)) h of
        Return (xs, h') \<Rightarrow> Return (list @ xs, h')
      | Throw e \<Rightarrow> Throw e
      | Exhausted \<Rightarrow> Exhausted)"
  using assms
proof (induction "len - index" arbitrary: index q list h)
  case 0
  then show ?case by (simp add: convertNodeList_loop.simps)
next
  case (Suc n)
  then have lt: "index < len" and q: "q < length b" and n: "n = len - Suc index"
    and le: "Suc q + (len - Suc index) \<le> length b"
    by simp_all
  have tk: "take (len - index) (drop q b) = b ! q # take (len - Suc index) (drop (Suc q) b)"
  proof -
    from lt have "len - index = Suc (len - Suc index)" by simp
    with q show ?thesis
      by (simp add: Cons_nth_drop_Suc [symmetric])
  qed
  note IH = Suc.hyps(1) [OF n le]
  show ?case
    by (subst convertNodeList_loop.simps)
      (simp add: lt tk rd_def q truthy_def toPos_def inc_def IH Let_def split: outcome.splits)
qed

lemma convertNodeList_decodeRefs:
  assumes "p < length buffer" and "p + unat (buffer ! p) < length buffer"
  shows "convertNodeList cn (Some p) buffer r =
     bindJ (decodeRefs cn buffer r (take (unat (buffer ! p)) (drop (p + 1) buffer)))
       (\<lambda>xs. alloc (Array xs))"
proof
  fix h
  from assms have "Suc p + (unat (buffer ! p) - 0) \<le> length buffer" by simp
  from loop_decodeRefs [OF this, of cn r "[]" h] assms(1)
  show "convertNodeList cn (Some p) buffer r h =
     bindJ (decodeRefs cn buffer r (take (unat (buffer ! p)) (drop (p + 1) buffer)))
       (\<lambda>xs. alloc (Array xs)) h"
    by (simp add: convertNodeList_def rd_def inc_def bindJ_def Let_def split: outcome.splits)
qed

lemma decodeRefs_elems:
  assumes "decodeRefs cn b r ws h = Return (xs, h')"
  shows "length xs = length ws \<and>
     (\<forall>i < length ws.
        (ws ! i = 0 \<longrightarrow> xs ! i = Null) \<and>
        (ws ! i \<noteq> 0 \<longrightarrow> (\<exists>h1 h2. cn (Some (unat (ws ! i))) b r h1 = Return (xs ! i, h2))))"
  using assms
proof (induction ws arbitrary: h xs)
  case Nil
  then show ?case by simp
next
  case (Cons w ws)
  from Cons.prems obtain x h1 xs' where
    x: "(if w = 0 then Return (Null, h) else cn (Some (unat w)) b r h) = Return (x, h1)"
    and r: "decodeRefs cn b r ws h1 = Return (xs', h')" and xs: "xs = x # xs'"
    by (auto split: outcome.splits if_splits)
  note IH = Cons.IH [OF r]
  show ?case
  proof (intro conjI allI impI)
    show "length xs = length (w # ws)" using IH xs by simp
  next
    fix i assume "i < length (w # ws)" "(w # ws) ! i = 0"
    with IH xs x show "xs ! i = Null"
      by (cases i) (auto split: if_splits)
  next
    fix i assume "i < length (w # ws)" "(w # ws) ! i \<noteq> 0"
    with IH xs x show "\<exists>h1 h2. cn (Some (unat ((w # ws) ! i))) b r h1 = Return (xs ! i, h2)"
      by (cases i) (auto split: if_splits)
  qed
qed

lemma decodeRefs_returns:
  assumes "\<forall>w \<in> set ws. w \<noteq> 0 \<longrightarrow> (\<forall>h. \<exists>x h1. cn (Some (unat w)) b r h = Return (x, h1))"
  shows "\<exists>xs h'. decodeRefs cn b r ws h = Return (xs, h')"
  using assms
proof (induction ws arbitrary: h)
  case Nil
  then show ?case by simp
next
  case (Cons w ws)
  have "\<exists>x h1. (if w = 0 then Return (Null, h) else cn (Some (unat w)) b r h) = Return (x, h1)"
    using Cons.prems by auto
  then obtain x h1 where
    x: "(if w = 0 then Return (Null, h) else cn (Some (unat w)) b r h) = Return (x, h1)"
    by blast
  from Cons.IH [of h1] Cons.prems obtain xs h' where "decodeRefs cn b r ws h1 = Return (xs, h')"
    by auto
  with x show ?case by (auto split: if_splits)
qed

text \<open>
  C3. A list header at position \<open>p\<close> whose length word \<open>N\<close> and \<open>N\<close> reference words
  lie in the buffer. The list decoder is the decoding of those \<open>N\<close> references in
  their order, followed by the allocation of the array. When it returns, the array
  has exactly \<open>N\<close> entries; entry \<open>i\<close> is \<^verbatim>\<open>null\<close> where reference \<open>i\<close> is 0 and
  is otherwise a value that \<open>cn\<close> returned at the position reference \<open>i\<close> names. It
  does return when \<open>cn\<close> returns at every nonzero reference.
\<close>

theorem list_fidelity:
  assumes "p < length buffer" and "p + unat (buffer ! p) < length buffer"
  shows
    "convertNodeList cn (Some p) buffer readString =
       bindJ (decodeRefs cn buffer readString (take (unat (buffer ! p)) (drop (p + 1) buffer)))
         (\<lambda>xs. alloc (Array xs)) \<and>
     (convertNodeList cn (Some p) buffer readString h = Return (v, h') \<longrightarrow>
        (\<exists>xs. items h' v = Some xs \<and> length xs = unat (buffer ! p) \<and>
           (\<forall>i < unat (buffer ! p).
              (buffer ! (p + 1 + i) = 0 \<longrightarrow> xs ! i = Null) \<and>
              (buffer ! (p + 1 + i) \<noteq> 0 \<longrightarrow>
                 (\<exists>h1 h2. cn (Some (unat (buffer ! (p + 1 + i)))) buffer readString h1 =
                    Return (xs ! i, h2)))))) \<and>
     ((\<forall>i < unat (buffer ! p). buffer ! (p + 1 + i) \<noteq> 0 \<longrightarrow>
          (\<forall>h1. \<exists>x h2. cn (Some (unat (buffer ! (p + 1 + i)))) buffer readString h1 =
             Return (x, h2))) \<longrightarrow>
        (\<exists>v h'. convertNodeList cn (Some p) buffer readString h = Return (v, h')))"
proof (intro conjI impI)
  let ?ws = "take (unat (buffer ! p)) (drop (p + 1) buffer)"
  have len: "length ?ws = unat (buffer ! p)"
    using assms by simp
  have nth: "?ws ! i = buffer ! (p + 1 + i)" if "i < unat (buffer ! p)" for i
    using that assms by simp
  show eq: "convertNodeList cn (Some p) buffer readString =
       bindJ (decodeRefs cn buffer readString ?ws) (\<lambda>xs. alloc (Array xs))"
    by (rule convertNodeList_decodeRefs [OF assms])
  {
    assume "convertNodeList cn (Some p) buffer readString h = Return (v, h')"
    then obtain xs h1 where d: "decodeRefs cn buffer readString ?ws h = Return (xs, h1)"
      and v: "v = Ref (length h1)" and h': "h' = h1 @ [Array xs]"
      unfolding eq by (auto simp: bindJ_def alloc_def split: outcome.splits)
    from decodeRefs_elems [OF d]
    have L: "length xs = length ?ws"
      and E: "\<forall>i < length ?ws.
        (?ws ! i = 0 \<longrightarrow> xs ! i = Null) \<and>
        (?ws ! i \<noteq> 0 \<longrightarrow>
           (\<exists>h1 h2. cn (Some (unat (?ws ! i))) buffer readString h1 = Return (xs ! i, h2)))"
      by blast+
    have "\<forall>i < unat (buffer ! p).
          (buffer ! (p + 1 + i) = 0 \<longrightarrow> xs ! i = Null) \<and>
          (buffer ! (p + 1 + i) \<noteq> 0 \<longrightarrow>
             (\<exists>h1 h2. cn (Some (unat (buffer ! (p + 1 + i)))) buffer readString h1 =
                Return (xs ! i, h2)))"
    proof (intro allI impI)
      fix i assume i: "i < unat (buffer ! p)"
      from E [unfolded len, rule_format, OF i]
      show "(buffer ! (p + 1 + i) = 0 \<longrightarrow> xs ! i = Null) \<and>
          (buffer ! (p + 1 + i) \<noteq> 0 \<longrightarrow>
             (\<exists>h1 h2. cn (Some (unat (buffer ! (p + 1 + i)))) buffer readString h1 =
                Return (xs ! i, h2)))"
        unfolding nth [OF i] .
    qed
    moreover have "length xs = unat (buffer ! p)"
      using L unfolding len .
    moreover have "items h' v = Some xs"
      by (simp add: v h' items_def)
    ultimately
    show "\<exists>xs. items h' v = Some xs \<and> length xs = unat (buffer ! p) \<and>
           (\<forall>i < unat (buffer ! p).
              (buffer ! (p + 1 + i) = 0 \<longrightarrow> xs ! i = Null) \<and>
              (buffer ! (p + 1 + i) \<noteq> 0 \<longrightarrow>
                 (\<exists>h1 h2. cn (Some (unat (buffer ! (p + 1 + i)))) buffer readString h1 =
                    Return (xs ! i, h2))))"
      by blast
  }
  {
    assume a: "\<forall>i < unat (buffer ! p). buffer ! (p + 1 + i) \<noteq> 0 \<longrightarrow>
          (\<forall>h1. \<exists>x h2. cn (Some (unat (buffer ! (p + 1 + i)))) buffer readString h1 =
             Return (x, h2))"
    have "\<forall>w \<in> set ?ws. w \<noteq> 0 \<longrightarrow>
            (\<forall>h. \<exists>x h1. cn (Some (unat w)) buffer readString h = Return (x, h1))"
    proof (intro ballI impI)
      fix w assume "w \<in> set ?ws" "w \<noteq> 0"
      then obtain i where "i < unat (buffer ! p)" "w = buffer ! (p + 1 + i)"
        using len nth by (metis in_set_conv_nth)
      with a \<open>w \<noteq> 0\<close>
      show "\<forall>h. \<exists>x h1. cn (Some (unat w)) buffer readString h = Return (x, h1)"
        by blast
    qed
    from decodeRefs_returns [of ?ws cn buffer readString h, OF this]
    show "\<exists>v h'. convertNodeList cn (Some p) buffer readString h = Return (v, h')"
      unfolding eq by (auto simp: bindJ_def alloc_def)
  }
qed

lemma list_example:
  "convertNodeList (convertNode exampleHost (Suc 0)) (Some 0)
     [3, 5, 0, 8, 0, 17, 1, 2, 17, 3, 4] exampleReadString [] =
   Return (Ref 2,
     [Object [(''end'', U32 2), (''start'', U32 1), (''type'', Str ''DebuggerStatement'')],
      Object [(''end'', U32 4), (''start'', U32 3), (''type'', Str ''DebuggerStatement'')],
      Array [Ref 0, Null, Ref 1]])"
  by (simp add: tags convertNodeList_def convertNodeList_loop.simps
      conv_DebuggerStatement_def rd_def bindJ_def alloc_def num_def truthy_def toPos_def
      inc_def)

theorem list_fidelity_witness:
  "\<exists>xs. items
     [Object [(''end'', U32 2), (''start'', U32 1), (''type'', Str ''DebuggerStatement'')],
      Object [(''end'', U32 4), (''start'', U32 3), (''type'', Str ''DebuggerStatement'')],
      Array [Ref 0, Null, Ref 1]]
     (Ref 2) = Some xs \<and>
     length xs = 3 \<and> xs ! 1 = Null \<and>
     (\<exists>h1 h2. convertNode exampleHost (Suc 0) (Some 5)
        [3, 5, 0, 8, 0, 17, 1, 2, 17, 3, 4] exampleReadString h1 = Return (xs ! 0, h2))"
proof -
  have "(0 :: nat) < length [3, 5, 0, 8, 0, 17, 1, 2, 17, 3, 4 :: u32]"
    and "0 + unat ([3, 5, 0, 8, 0, 17, 1, 2, 17, 3, 4 :: u32] ! 0) < length [3, 5, 0, 8, 0, 17, 1, 2, 17, 3, 4 :: u32]"
    by simp_all
  from list_fidelity [OF this, of "convertNode exampleHost (Suc 0)" exampleReadString "[]"
      "Ref 2"
      "[Object [(''end'', U32 2), (''start'', U32 1), (''type'', Str ''DebuggerStatement'')],
      Object [(''end'', U32 4), (''start'', U32 3), (''type'', Str ''DebuggerStatement'')],
      Array [Ref 0, Null, Ref 1]]"]
    list_example
  obtain xs where xs: "items
     [Object [(''end'', U32 2), (''start'', U32 1), (''type'', Str ''DebuggerStatement'')],
      Object [(''end'', U32 4), (''start'', U32 3), (''type'', Str ''DebuggerStatement'')],
      Array [Ref 0, Null, Ref 1]]
     (Ref 2) = Some xs" "length xs = 3"
    and el: "\<forall>i<3. ([3, 5, 0, 8, 0, 17, 1, 2, 17, 3, 4 :: u32] ! (Suc i) = 0 \<longrightarrow> xs ! i = Null) \<and>
       ([3, 5, 0, 8, 0, 17, 1, 2, 17, 3, 4 :: u32] ! (Suc i) \<noteq> 0 \<longrightarrow>
        (\<exists>h1 h2. convertNode exampleHost (Suc 0)
           (Some (unat ([3, 5, 0, 8, 0, 17, 1, 2, 17, 3, 4 :: u32] ! (Suc i))))
           [3, 5, 0, 8, 0, 17, 1, 2, 17, 3, 4] exampleReadString h1 = Return (xs ! i, h2)))"
    by auto
  from el [rule_format, of 1] have "xs ! 1 = Null" by simp
  moreover from el [rule_format, of 0]
  have "\<exists>h1 h2. convertNode exampleHost (Suc 0) (Some 5)
        [3, 5, 0, 8, 0, 17, 1, 2, 17, 3, 4] exampleReadString h1 = Return (xs ! 0, h2)"
    by simp
  ultimately show ?thesis using xs by blast
qed

section \<open>Numeric literals\<close>

lemma length_le_bytes [simp]: "length (le_bytes w) = 4"
  by (simp add: le_bytes_def)

lemma length_arrayBuffer: "length (arrayBuffer b) = 4 * length b"
  by (induction b) (simp_all add: arrayBuffer_def)

lemma drop_arrayBuffer: "drop (4 * k) (arrayBuffer b) = arrayBuffer (drop k b)"
proof (induction b arbitrary: k)
  case Nil
  then show ?case by (simp add: arrayBuffer_def)
next
  case (Cons w b)
  show ?case
  proof (cases k)
    case 0
    then show ?thesis by simp
  next
    case (Suc j)
    with Cons [of j] show ?thesis by (simp add: arrayBuffer_def)
  qed
qed

lemma take8_arrayBuffer:
  assumes "k + 1 < length b"
  shows "take 8 (drop (4 * k) (arrayBuffer b)) = le_bytes (b ! k) @ le_bytes (b ! (k + 1))"
proof -
  from assms have "drop k b = b ! k # b ! (k + 1) # drop (k + 2) b"
    by (simp add: Cons_nth_drop_Suc)
  then have "arrayBuffer (drop k b) =
      le_bytes (b ! k) @ le_bytes (b ! (k + 1)) @ arrayBuffer (drop (k + 2) b)"
    by (simp add: arrayBuffer_def)
  then show ?thesis
    by (simp add: drop_arrayBuffer)
qed

lemma le_word_append:
  "(le_word (xs @ ys) :: 'a::len word) = or (le_word xs) (push_bit (8 * length xs) (le_word ys))"
  by (induction xs) (simp_all add: le_word_def push_bit_or push_bit_add ac_simps)

lemma le_word_le_bytes32: "(le_word (le_bytes w) :: 64 word) = ucast w"
proof (rule bit_word_eqI)
  fix n assume "n < LENGTH(64)"
  show "bit (le_word (le_bytes w) :: 64 word) n = bit (ucast w :: 64 word) n"
    unfolding le_word_def le_bytes_def
    by (simp add: bit_simps) (cases "n < 8"; cases "n < 16"; cases "n < 24"; auto dest: bit_imp_le_length)
qed

lemma le_word_le_bytes:
  "(le_word (le_bytes lo @ le_bytes hi) :: 64 word) = word_cat hi lo"
proof -
  have "or (ucast lo :: 64 word) (push_bit 32 (ucast hi)) = word_cat hi lo"
    by (rule bit_word_eqI) (auto simp: bit_simps dest: bit_imp_le_length)
  then show ?thesis
    by (simp add: le_word_append le_word_le_bytes32)
qed

lemma getFloat64_words:
  assumes "k + 1 < length b"
  shows "getFloat64 (arrayBuffer b) (4 * int k) h =
           Return (F64 (word_cat (b ! (k + 1)) (b ! k)), h)"
proof -
  have "nat (4 * int k) = 4 * k" by simp
  with assms take8_arrayBuffer [OF assms] show ?thesis
    by (simp add: getFloat64_def length_arrayBuffer ret_def le_word_le_bytes)
qed

lemma getFloat64_range:
  assumes "\<not> k + 1 < length b"
  shows "getFloat64 (arrayBuffer b) (4 * int k) h = Throw RangeError"
  using assms by (simp add: getFloat64_def length_arrayBuffer throw_def)

lemma tag_Literal_number: "nodeConverter host (Some 41) = Some conv_Literal_number"
  by (rule tags)

lemma f64_examples:
  "f64_value (word_cat (0x400C0000 :: u32) (0 :: u32)) = Finite False (7 / 2)"
  "f64_value (word_cat (0 :: u32) (0 :: u32)) = Finite False 0"
  "f64_value (word_cat (0x80000000 :: u32) (0 :: u32)) = Finite True 0"
  "f64_value (word_cat (0x7FF00000 :: u32) (0 :: u32)) = Infinite False"
  "f64_value (word_cat (0xFFF00000 :: u32) (0 :: u32)) = Infinite True"
  "f64_value (word_cat (0 :: u32) (1 :: u32)) = Finite False (1 / 2 ^ 1074)"
  "f64_value (word_cat (0x7FEFFFFF :: u32) (0xFFFFFFFF :: u32)) =
     Finite False ((2 ^ 53 - 1) * 2 ^ 971)"
  by (simp_all add: f64_value_def word_cat_eq Let_def)

text \<open>
  C6 (as amended). A numeric literal (tag 41) at a position \<open>p\<close> with \<open>p + 4 < 2^29\<close>:
  when the two words at the cursor, \<open>p + 4\<close> and \<open>p + 5\<close>, lie in the buffer, the node
  is decoded and its \<open>value\<close> is the number whose 64 bits are the word at \<open>p + 5\<close>
  (high half) and the word at \<open>p + 4\<close> (low half): the 8 bytes of the two words read
  little-endian. Otherwise \<^verbatim>\<open>getFloat64\<close> throws a \<^verbatim>\<open>RangeError\<close>. The bit patterns of
  3.5, of both zeros, of both infinities, and of the least and the greatest finite
  magnitude denote those numbers.
\<close>

theorem numeric_literal:
  assumes "rd buffer (Some p) = Some 41" and "p + 4 < 2 ^ 29"
  shows
    "(p + 5 < length buffer \<longrightarrow>
        convertNode host (Suc depth) (Some p) buffer readString h =
          Return (Ref (length h), h @ [Object [
            (''end'', U32 (buffer ! (p + 2))),
            (''raw'', if buffer ! (p + 3) \<noteq> 0
               then Str (convertString (Some (unat (buffer ! (p + 3)))) buffer readString)
               else Undefined),
            (''start'', U32 (buffer ! (p + 1))),
            (''type'', Str ''Literal''),
            (''value'', F64 (word_cat (buffer ! (p + 5)) (buffer ! (p + 4))))]])) \<and>
     (\<not> p + 5 < length buffer \<longrightarrow>
        convertNode host (Suc depth) (Some p) buffer readString h = Throw RangeError) \<and>
     f64_value (word_cat (0x400C0000 :: u32) (0 :: u32)) = Finite False (7 / 2) \<and>
     f64_value (word_cat (0 :: u32) (0 :: u32)) = Finite False 0 \<and>
     f64_value (word_cat (0x80000000 :: u32) (0 :: u32)) = Finite True 0 \<and>
     f64_value (word_cat (0x7FF00000 :: u32) (0 :: u32)) = Infinite False \<and>
     f64_value (word_cat (0xFFF00000 :: u32) (0 :: u32)) = Infinite True \<and>
     f64_value (word_cat (0 :: u32) (1 :: u32)) = Finite False (1 / 2 ^ 1074) \<and>
     f64_value (word_cat (0x7FEFFFFF :: u32) (0xFFFFFFFF :: u32)) =
       Finite False ((2 ^ 53 - 1) * 2 ^ 971)"
proof -
  have step: "convertNode host (Suc depth) (Some p) buffer readString =
      conv_Literal_number (convertNode host depth) (Suc p) buffer readString"
    by (rule convertNode_tag [OF assms(1) tag_Literal_number])
  have sh: "shl2 (Some (Suc p + 3)) = 4 * int (p + 4)"
  proof -
    have "Suc p + 3 = p + 4" by simp
    with shl2_small [OF assms(2)] show ?thesis by (simp only:)
  qed
  have ok: "convertNode host (Suc depth) (Some p) buffer readString h =
          Return (Ref (length h), h @ [Object [
            (''end'', U32 (buffer ! (p + 2))),
            (''raw'', if buffer ! (p + 3) \<noteq> 0
               then Str (convertString (Some (unat (buffer ! (p + 3)))) buffer readString)
               else Undefined),
            (''start'', U32 (buffer ! (p + 1))),
            (''type'', Str ''Literal''),
            (''value'', F64 (word_cat (buffer ! (p + 5)) (buffer ! (p + 4))))]])"
    if "p + 5 < length buffer"
  proof -
    from that have "p + 4 + 1 < length buffer" by simp
    from getFloat64_words [OF this, of h] that show ?thesis
      unfolding step conv_Literal_number_def Let_def sh
      by (simp add: bindJ_def alloc_def rd_def num_def truthy_def toPos_def eval_nat_numeral)
  qed
  have bad: "convertNode host (Suc depth) (Some p) buffer readString h = Throw RangeError"
    if "\<not> p + 5 < length buffer"
  proof -
    from that have "\<not> p + 4 + 1 < length buffer" by simp
    from getFloat64_range [OF this, of h] show ?thesis
      unfolding step conv_Literal_number_def Let_def sh
      by (simp add: bindJ_def)
  qed
  from ok bad f64_examples show ?thesis by blast
qed

theorem numeric_literal_witness:
  "convertNode exampleHost (Suc 0) (Some 0) [41, 0, 10, 0, 0, 0x400C0000] exampleReadString [] =
     Return (Ref 0, [Object [(''end'', U32 10), (''raw'', Undefined), (''start'', U32 0),
       (''type'', Str ''Literal''), (''value'', F64 (word_cat (0x400C0000 :: u32) (0 :: u32)))]]) \<and>
   f64_value (word_cat (0x400C0000 :: u32) (0 :: u32)) = Finite False (7 / 2)"
  using numeric_literal [of "[41, 0, 10, 0, 0, 0x400C0000]" 0 exampleHost 0 exampleReadString "[]"]
  by (simp add: rd_def)


text \<open>
  C6 as stated fails from position \<open>2^30 - 4\<close> on, where \<^verbatim>\<open>position << 2\<close> wraps
  around: in a buffer of \<open>2^30 + 6\<close> words, a numeric literal at position \<open>2^30\<close>
  whose two words at the cursor are the bit pattern of 3.5 decodes, and its value is
  the number of the words 4 and 5 of the buffer, which is 0.
\<close>

theorem numeric_literal_counterexample:
  "rd (replicate (2 ^ 30) 0 @ [41, 0, 10, 0, 0, 0x400C0000]) (Some (2 ^ 30 + 4)) = Some 0 \<and>
   rd (replicate (2 ^ 30) 0 @ [41, 0, 10, 0, 0, 0x400C0000]) (Some (2 ^ 30 + 5)) =
     Some 0x400C0000 \<and>
   convertNode exampleHost (Suc 0) (Some (2 ^ 30))
     (replicate (2 ^ 30) 0 @ [41, 0, 10, 0, 0, 0x400C0000]) exampleReadString [] =
     Return (Ref 0, [Object [(''end'', U32 10), (''raw'', Undefined), (''start'', U32 0),
       (''type'', Str ''Literal''), (''value'', F64 0)]]) \<and>
   (word_cat (0x400C0000 :: u32) (0 :: u32) :: 64 word) \<noteq> 0"
proof -
  let ?b = "replicate 1073741824 0 @ [41, 0, 10, 0, 0, 0x400C0000 :: u32]"
  have "(4 :: nat) + 1 < length ?b" by simp
  from getFloat64_words [OF this, of "[]"]
  have g: "getFloat64 (arrayBuffer ?b) 16 [] = Return (F64 0, [])"
    by (simp add: nth_append word_cat_eq)
  have s: "shl2 (Some (Suc 1073741824 + 3)) = 16"
    by (simp add: shl2_def)
  have t: "rd ?b (Some 1073741824) = Some 41"
    by (simp add: rd_def nth_append)
  have "convertNode exampleHost (Suc 0) (Some 1073741824) ?b exampleReadString [] =
     Return (Ref 0, [Object [(''end'', U32 10), (''raw'', Undefined), (''start'', U32 0),
       (''type'', Str ''Literal''), (''value'', F64 0)]])"
    unfolding convertNode_tag [OF t tag_Literal_number] conv_Literal_number_def Let_def s
    by (simp add: g bindJ_def alloc_def rd_def num_def truthy_def nth_append)
  moreover have "(word_cat (0x400C0000 :: u32) (0 :: u32) :: 64 word) \<noteq> 0"
    by (simp add: word_cat_eq)
  ultimately show ?thesis
    by (simp add: rd_def nth_append)
qed

section \<open>Text spans\<close>

lemma shl2_wrap: "shl2 (Some q) = (4 * int q + 2 ^ 31) mod 2 ^ 32 - 2 ^ 31"
proof -
  have "push_bit 2 (word_of_nat q :: u32) = word_of_nat (4 * q)"
    by (simp add: push_bit_eq_mult)
  moreover have "sint (word_of_nat (4 * q) :: u32) = signed_take_bit 31 (int (4 * q))"
    unfolding signed_of_nat by simp
  ultimately show ?thesis
    by (simp add: shl2_def signed_take_bit_eq_take_bit_shift take_bit_eq_mod)
qed

lemma tag_Identifier: "nodeConverter host (Some 30) = Some conv_Identifier"
  by (rule tags)

lemma tag_PrivateIdentifier: "nodeConverter host (Some 52) = Some conv_PrivateIdentifier"
  by (rule tags)

lemma tag_AssignmentExpression:
  "nodeConverter host (Some 3) = Some conv_AssignmentExpression"
  by (rule tags)

lemma tag_BinaryExpression: "nodeConverter host (Some 6) = Some conv_BinaryExpression"
  by (rule tags)

lemma tag_LogicalExpression: "nodeConverter host (Some 45) = Some conv_LogicalExpression"
  by (rule tags)

lemma tag_Literal_string: "nodeConverter host (Some 39) = Some conv_Literal_string"
  by (rule tags)

lemma tag_Literal_RegExp: "nodeConverter host (Some 43) = Some (conv_Literal_RegExp host)"
  by (rule tags)

lemma tag_Literal_bigint: "nodeConverter host (Some 44) = Some (conv_Literal_bigint host)"
  by (rule tags)

text \<open>
  C7 (as amended). \<open>convertString\<close> at word position \<open>p\<close> reads the length word there
  (\<^verbatim>\<open>undefined\<close> outside the buffer) and returns what the resolver returns for that
  length and for the byte offset \<open>4 * (p + 1)\<close>, as long as that offset is below
  \<open>2^31\<close>: the offset is computed by the 32-bit \<^verbatim>\<open>position << 2\<close>, so that at any
  position it is \<open>4 * (p + 1)\<close> wrapped into the range from \<open>-2^31\<close> to \<open>2^31 - 1\<close>; at
  an \<^verbatim>\<open>undefined\<close> position the resolver is asked for offset 0 and an \<^verbatim>\<open>undefined\<close>
  length. What \<open>convertString\<close> returns is
  the value of the property, for every property that is a text span. With \<open>n\<close> the
  position of the tag word:
  \<^item> the \<open>name\<close> of an Identifier (tag 30) and of a PrivateIdentifier (tag 52) is the
    text of the span at \<open>n + 3\<close>, and the node is always produced;
  \<^item> the \<open>operator\<close> of an AssignmentExpression (tag 3), a BinaryExpression (tag 6) and
    a LogicalExpression (tag 45) is the text of the span at \<open>n + 5\<close>, and the node is
    produced whenever its \<open>left\<close> and then its \<open>right\<close> are;
  \<^item> the \<open>value\<close> of a string literal (tag 39) is the text of the span at \<open>n + 4\<close>, and
    the node is always produced;
  \<^item> the \<open>raw\<close> of a string literal and of a numeric literal (tag 41) is the text of
    the span at the position the word at \<open>n + 3\<close> names, \<^verbatim>\<open>undefined\<close> when that word
    is 0 or missing; the numeric literal is produced whenever its number can be read;
  \<^item> the \<open>pattern\<close> of a regular expression literal (tag 43) is the text of the span at
    the position the word at \<open>n + 3\<close> names and its \<open>flags\<close> the text of the span at
    \<open>n + 4\<close>; they are the properties of its \<open>regex\<close>, the arguments of \<^verbatim>\<open>RegExp\<close>, and
    its \<open>raw\<close> is \<^verbatim>\<open>/pattern/flags\<close>; the node is produced whenever the host accepts
    the pattern with the flags, else the \<^verbatim>\<open>SyntaxError\<close> of the host is thrown;
  \<^item> the \<open>bigint\<close> of a bigint literal (tag 44) is the text of the span at the position
    the word at \<open>n + 3\<close> names and its \<open>raw\<close> the text of the span at \<open>n + 4\<close>; the node
    is produced whenever the host reads the text as an integer, else the
    \<^verbatim>\<open>SyntaxError\<close> of the host is thrown.

  These are all the calls of \<open>convertString\<close>, and \<open>convertString\<close> holds the one call
  of the resolver.
\<close>

theorem text_span:
  "(p + 1 < 2 ^ 29 \<longrightarrow>
      convertString (Some p) buffer readString =
        readString (4 * (int p + 1)) (rd buffer (Some p))) \<and>
   (rd buffer (Some n) = Some 30 \<and> kind = ''Identifier'' \<or>
    rd buffer (Some n) = Some 52 \<and> kind = ''PrivateIdentifier'' \<longrightarrow>
      convertNode host (Suc depth) (Some n) buffer readString h =
        Return (Ref (length h), h @ [Object [
          (''end'', num (rd buffer (Some (n + 2)))),
          (''name'', Str (convertString (Some (n + 3)) buffer readString)),
          (''start'', num (rd buffer (Some (n + 1)))),
          (''type'', Str kind)]])) \<and>
   (rd buffer (Some n) = Some 3 \<and> kind = ''AssignmentExpression'' \<or>
    rd buffer (Some n) = Some 6 \<and> kind = ''BinaryExpression'' \<or>
    rd buffer (Some n) = Some 45 \<and> kind = ''LogicalExpression'' \<longrightarrow>
      convertNode host (Suc depth) (Some n) buffer readString h =
        (case convertNode host depth (toPos (rd buffer (Some (n + 3)))) buffer readString h of
           Return (left, h1) \<Rightarrow>
             (case convertNode host depth (toPos (rd buffer (Some (n + 4)))) buffer
                 readString h1 of
                Return (right, h2) \<Rightarrow>
                  Return (Ref (length h2), h2 @ [Object [
                    (''end'', num (rd buffer (Some (n + 2)))),
                    (''left'', left),
                    (''operator'', Str (convertString (Some (n + 5)) buffer readString)),
                    (''right'', right),
                    (''start'', num (rd buffer (Some (n + 1)))),
                    (''type'', Str kind)]])
              | Throw e \<Rightarrow> Throw e
              | Exhausted \<Rightarrow> Exhausted)
         | Throw e \<Rightarrow> Throw e
         | Exhausted \<Rightarrow> Exhausted)) \<and>
   (rd buffer (Some n) = Some 39 \<longrightarrow>
      convertNode host (Suc depth) (Some n) buffer readString h =
        Return (Ref (length h), h @ [Object [
          (''end'', num (rd buffer (Some (n + 2)))),
          (''raw'', if truthy (rd buffer (Some (n + 3)))
             then Str (convertString (toPos (rd buffer (Some (n + 3)))) buffer readString)
             else Undefined),
          (''start'', num (rd buffer (Some (n + 1)))),
          (''type'', Str ''Literal''),
          (''value'', Str (convertString (Some (n + 4)) buffer readString))]])) \<and>
   (rd buffer (Some n) = Some 41 \<longrightarrow>
      convertNode host (Suc depth) (Some n) buffer readString h =
        (case getFloat64 (arrayBuffer buffer) (shl2 (Some (n + 4))) h of
           Return (value, h1) \<Rightarrow>
             Return (Ref (length h1), h1 @ [Object [
               (''end'', num (rd buffer (Some (n + 2)))),
               (''raw'', if truthy (rd buffer (Some (n + 3)))
                  then Str (convertString (toPos (rd buffer (Some (n + 3)))) buffer readString)
                  else Undefined),
               (''start'', num (rd buffer (Some (n + 1)))),
               (''type'', Str ''Literal''),
               (''value'', value)]])
         | Throw e \<Rightarrow> Throw e
         | Exhausted \<Rightarrow> Exhausted)) \<and>
   (rd buffer (Some n) = Some 43 \<longrightarrow>
      convertNode host (Suc depth) (Some n) buffer readString h =
        (if RegExp host (convertString (toPos (rd buffer (Some (n + 3)))) buffer readString)
              (convertString (Some (n + 4)) buffer readString)
         then Return (Ref (length h + 2), h @ [
           Object [
             (''flags'', Str (convertString (Some (n + 4)) buffer readString)),
             (''pattern'',
               Str (convertString (toPos (rd buffer (Some (n + 3)))) buffer readString))],
           RegExpObj (convertString (toPos (rd buffer (Some (n + 3)))) buffer readString)
             (convertString (Some (n + 4)) buffer readString),
           Object [
             (''end'', num (rd buffer (Some (n + 2)))),
             (''raw'', Str (''/'' @
                convertString (toPos (rd buffer (Some (n + 3)))) buffer readString @ ''/'' @
                convertString (Some (n + 4)) buffer readString)),
             (''regex'', Ref (length h)),
             (''start'', num (rd buffer (Some (n + 1)))),
             (''type'', Str ''Literal''),
             (''value'', Ref (length h + 1))]])
         else Throw SyntaxError)) \<and>
   (rd buffer (Some n) = Some 44 \<longrightarrow>
      convertNode host (Suc depth) (Some n) buffer readString h =
        (case BigInt host (convertString (toPos (rd buffer (Some (n + 3)))) buffer readString) of
           None \<Rightarrow> Throw SyntaxError
         | Some i \<Rightarrow>
             Return (Ref (length h), h @ [Object [
               (''bigint'',
                 Str (convertString (toPos (rd buffer (Some (n + 3)))) buffer readString)),
               (''end'', num (rd buffer (Some (n + 2)))),
               (''raw'', Str (convertString (Some (n + 4)) buffer readString)),
               (''start'', num (rd buffer (Some (n + 1)))),
               (''type'', Str ''Literal''),
               (''value'', BigIntV i)]]))) \<and>
   convertString (Some p) buffer readString =
      readString ((4 * (int p + 1) + 2 ^ 31) mod 2 ^ 32 - 2 ^ 31) (rd buffer (Some p)) \<and>
   convertString None buffer readString = readString 0 None"
proof (intro conjI impI)
  assume "p + 1 < 2 ^ 29"
  with shl2_small [of "Suc p"]
  show "convertString (Some p) buffer readString =
        readString (4 * (int p + 1)) (rd buffer (Some p))"
    by (simp add: convertString_def inc_def Let_def algebra_simps)
next
  assume "rd buffer (Some n) = Some 30 \<and> kind = ''Identifier'' \<or>
    rd buffer (Some n) = Some 52 \<and> kind = ''PrivateIdentifier''"
  then show "convertNode host (Suc depth) (Some n) buffer readString h =
        Return (Ref (length h), h @ [Object [
          (''end'', num (rd buffer (Some (n + 2)))),
          (''name'', Str (convertString (Some (n + 3)) buffer readString)),
          (''start'', num (rd buffer (Some (n + 1)))),
          (''type'', Str kind)]])"
  proof (elim disjE conjE)
    assume tag: "rd buffer (Some n) = Some 30" and kind: "kind = ''Identifier''"
    show ?thesis
      unfolding convertNode_tag [OF tag tag_Identifier] conv_Identifier_def Let_def kind
      by (simp add: alloc_def eval_nat_numeral)
  next
    assume tag: "rd buffer (Some n) = Some 52" and kind: "kind = ''PrivateIdentifier''"
    show ?thesis
      unfolding convertNode_tag [OF tag tag_PrivateIdentifier] conv_PrivateIdentifier_def
        Let_def kind
      by (simp add: alloc_def eval_nat_numeral)
  qed
next
  assume "rd buffer (Some n) = Some 3 \<and> kind = ''AssignmentExpression'' \<or>
    rd buffer (Some n) = Some 6 \<and> kind = ''BinaryExpression'' \<or>
    rd buffer (Some n) = Some 45 \<and> kind = ''LogicalExpression''"
  then show "convertNode host (Suc depth) (Some n) buffer readString h =
        (case convertNode host depth (toPos (rd buffer (Some (n + 3)))) buffer readString h of
           Return (left, h1) \<Rightarrow>
             (case convertNode host depth (toPos (rd buffer (Some (n + 4)))) buffer
                 readString h1 of
                Return (right, h2) \<Rightarrow>
                  Return (Ref (length h2), h2 @ [Object [
                    (''end'', num (rd buffer (Some (n + 2)))),
                    (''left'', left),
                    (''operator'', Str (convertString (Some (n + 5)) buffer readString)),
                    (''right'', right),
                    (''start'', num (rd buffer (Some (n + 1)))),
                    (''type'', Str kind)]])
              | Throw e \<Rightarrow> Throw e
              | Exhausted \<Rightarrow> Exhausted)
         | Throw e \<Rightarrow> Throw e
         | Exhausted \<Rightarrow> Exhausted)"
  proof (elim disjE conjE)
    assume tag: "rd buffer (Some n) = Some 3" and kind: "kind = ''AssignmentExpression''"
    show ?thesis
      unfolding convertNode_tag [OF tag tag_AssignmentExpression]
        conv_AssignmentExpression_def Let_def kind
      by (simp add: bindJ_def alloc_def eval_nat_numeral split: outcome.splits)
  next
    assume tag: "rd buffer (Some n) = Some 6" and kind: "kind = ''BinaryExpression''"
    show ?thesis
      unfolding convertNode_tag [OF tag tag_BinaryExpression] conv_BinaryExpression_def
        Let_def kind
      by (simp add: bindJ_def alloc_def eval_nat_numeral split: outcome.splits)
  next
    assume tag: "rd buffer (Some n) = Some 45" and kind: "kind = ''LogicalExpression''"
    show ?thesis
      unfolding convertNode_tag [OF tag tag_LogicalExpression] conv_LogicalExpression_def
        Let_def kind
      by (simp add: bindJ_def alloc_def eval_nat_numeral split: outcome.splits)
  qed
next
  assume tag: "rd buffer (Some n) = Some 39"
  show "convertNode host (Suc depth) (Some n) buffer readString h =
        Return (Ref (length h), h @ [Object [
          (''end'', num (rd buffer (Some (n + 2)))),
          (''raw'', if truthy (rd buffer (Some (n + 3)))
             then Str (convertString (toPos (rd buffer (Some (n + 3)))) buffer readString)
             else Undefined),
          (''start'', num (rd buffer (Some (n + 1)))),
          (''type'', Str ''Literal''),
          (''value'', Str (convertString (Some (n + 4)) buffer readString))]])"
    unfolding convertNode_tag [OF tag tag_Literal_string] conv_Literal_string_def Let_def
    by (simp add: alloc_def eval_nat_numeral)
next
  assume tag: "rd buffer (Some n) = Some 41"
  show "convertNode host (Suc depth) (Some n) buffer readString h =
        (case getFloat64 (arrayBuffer buffer) (shl2 (Some (n + 4))) h of
           Return (value, h1) \<Rightarrow>
             Return (Ref (length h1), h1 @ [Object [
               (''end'', num (rd buffer (Some (n + 2)))),
               (''raw'', if truthy (rd buffer (Some (n + 3)))
                  then Str (convertString (toPos (rd buffer (Some (n + 3)))) buffer readString)
                  else Undefined),
               (''start'', num (rd buffer (Some (n + 1)))),
               (''type'', Str ''Literal''),
               (''value'', value)]])
         | Throw e \<Rightarrow> Throw e
         | Exhausted \<Rightarrow> Exhausted)"
    unfolding convertNode_tag [OF tag tag_Literal_number] conv_Literal_number_def Let_def
    by (simp add: bindJ_def alloc_def eval_nat_numeral split: outcome.splits)
next
  assume tag: "rd buffer (Some n) = Some 43"
  show "convertNode host (Suc depth) (Some n) buffer readString h =
        (if RegExp host (convertString (toPos (rd buffer (Some (n + 3)))) buffer readString)
              (convertString (Some (n + 4)) buffer readString)
         then Return (Ref (length h + 2), h @ [
           Object [
             (''flags'', Str (convertString (Some (n + 4)) buffer readString)),
             (''pattern'',
               Str (convertString (toPos (rd buffer (Some (n + 3)))) buffer readString))],
           RegExpObj (convertString (toPos (rd buffer (Some (n + 3)))) buffer readString)
             (convertString (Some (n + 4)) buffer readString),
           Object [
             (''end'', num (rd buffer (Some (n + 2)))),
             (''raw'', Str (''/'' @
                convertString (toPos (rd buffer (Some (n + 3)))) buffer readString @ ''/'' @
                convertString (Some (n + 4)) buffer readString)),
             (''regex'', Ref (length h)),
             (''start'', num (rd buffer (Some (n + 1)))),
             (''type'', Str ''Literal''),
             (''value'', Ref (length h + 1))]])
         else Throw SyntaxError)"
    unfolding convertNode_tag [OF tag tag_Literal_RegExp] conv_Literal_RegExp_def Let_def
    by (simp add: bindJ_def alloc_def newRegExp_def throw_def eval_nat_numeral)
next
  assume tag: "rd buffer (Some n) = Some 44"
  show "convertNode host (Suc depth) (Some n) buffer readString h =
        (case BigInt host (convertString (toPos (rd buffer (Some (n + 3)))) buffer readString) of
           None \<Rightarrow> Throw SyntaxError
         | Some i \<Rightarrow>
             Return (Ref (length h), h @ [Object [
               (''bigint'',
                 Str (convertString (toPos (rd buffer (Some (n + 3)))) buffer readString)),
               (''end'', num (rd buffer (Some (n + 2)))),
               (''raw'', Str (convertString (Some (n + 4)) buffer readString)),
               (''start'', num (rd buffer (Some (n + 1)))),
               (''type'', Str ''Literal''),
               (''value'', BigIntV i)]]))"
    unfolding convertNode_tag [OF tag tag_Literal_bigint] conv_Literal_bigint_def Let_def
    by (simp add: bindJ_def alloc_def toBigInt_def throw_def ret_def eval_nat_numeral
        split: option.splits)
next
  have "4 * int (Suc p) = 4 * (int p + 1)"
    by simp
  with shl2_wrap [of "Suc p"]
  have "shl2 (Some (Suc p)) = (4 * (int p + 1) + 2 ^ 31) mod 2 ^ 32 - 2 ^ 31"
    by (simp only:)
  then show "convertString (Some p) buffer readString =
      readString ((4 * (int p + 1) + 2 ^ 31) mod 2 ^ 32 - 2 ^ 31) (rd buffer (Some p))"
    by (simp only: convertString_def inc_def Let_def option.map)
next
  show "convertString None buffer readString = readString 0 None"
    by (simp add: convertString_def inc_def Let_def shl2_def rd_def)
qed

theorem text_span_witness:
  "convertString (Some 1) [30, 3] exampleReadString = ''8:3'' \<and>
   (convertNode exampleHost (Suc 0) (Some 0) [30, 0, 9, 5] exampleReadString [] =
      Return (Ref 0, [Object [(''end'', U32 9), (''name'', Str ''16:5''), (''start'', U32 0),
        (''type'', Str ''Identifier'')]])) \<and>
   (convertNode exampleHost (Suc 0) (Some 0) [52, 0, 9, 5] exampleReadString [] =
      Return (Ref 0, [Object [(''end'', U32 9), (''name'', Str ''16:5''), (''start'', U32 0),
        (''type'', Str ''PrivateIdentifier'')]])) \<and>
   (convertNode exampleHost (Suc (Suc 0)) (Some 0) [3, 0, 9, 6, 9, 2, 17, 1, 2, 17, 3, 4]
        exampleReadString [] =
      Return (Ref 2, [Object [(''end'', U32 2), (''start'', U32 1), (''type'', Str ''DebuggerStatement'')],
        Object [(''end'', U32 4), (''start'', U32 3), (''type'', Str ''DebuggerStatement'')],
        Object [(''end'', U32 9), (''left'', Ref 0), (''operator'', Str ''24:2''),
          (''right'', Ref 1), (''start'', U32 0), (''type'', Str ''AssignmentExpression'')]])) \<and>
   (convertNode exampleHost (Suc (Suc 0)) (Some 0) [6, 0, 9, 6, 9, 2, 17, 1, 2, 17, 3, 4]
        exampleReadString [] =
      Return (Ref 2, [Object [(''end'', U32 2), (''start'', U32 1), (''type'', Str ''DebuggerStatement'')],
        Object [(''end'', U32 4), (''start'', U32 3), (''type'', Str ''DebuggerStatement'')],
        Object [(''end'', U32 9), (''left'', Ref 0), (''operator'', Str ''24:2''),
          (''right'', Ref 1), (''start'', U32 0), (''type'', Str ''BinaryExpression'')]])) \<and>
   (convertNode exampleHost (Suc (Suc 0)) (Some 0) [45, 0, 9, 6, 9, 2, 17, 1, 2, 17, 3, 4]
        exampleReadString [] =
      Return (Ref 2, [Object [(''end'', U32 2), (''start'', U32 1), (''type'', Str ''DebuggerStatement'')],
        Object [(''end'', U32 4), (''start'', U32 3), (''type'', Str ''DebuggerStatement'')],
        Object [(''end'', U32 9), (''left'', Ref 0), (''operator'', Str ''24:2''),
          (''right'', Ref 1), (''start'', U32 0), (''type'', Str ''LogicalExpression'')]])) \<and>
   (convertNode exampleHost (Suc 0) (Some 0) [39, 0, 9, 5, 3, 7] exampleReadString [] =
      Return (Ref 0, [Object [(''end'', U32 9), (''raw'', Str ''24:7''), (''start'', U32 0),
        (''type'', Str ''Literal''), (''value'', Str ''20:3'')]])) \<and>
   (convertNode exampleHost (Suc 0) (Some 0) [39, 0, 9, 0, 3] exampleReadString [] =
      Return (Ref 0, [Object [(''end'', U32 9), (''raw'', Undefined), (''start'', U32 0),
        (''type'', Str ''Literal''), (''value'', Str ''20:3'')]])) \<and>
   (convertNode exampleHost (Suc 0) (Some 0) [41, 0, 9, 6, 0, 0, 4] exampleReadString [] =
      Return (Ref 0, [Object [(''end'', U32 9), (''raw'', Str ''28:4''), (''start'', U32 0),
        (''type'', Str ''Literal''), (''value'', F64 0)]])) \<and>
   (convertNode exampleHost (Suc 0) (Some 0) [43, 0, 9, 5, 2, 3] exampleReadString [] =
      Return (Ref 2, [Object [(''flags'', Str ''20:2''), (''pattern'', Str ''24:3'')],
        RegExpObj ''24:3'' ''20:2'',
        Object [(''end'', U32 9), (''raw'', Str ''/24:3/20:2''), (''regex'', Ref 0),
          (''start'', U32 0), (''type'', Str ''Literal''), (''value'', Ref 1)]])) \<and>
   (convertNode exampleHost (Suc 0) (Some 0) [44, 0, 9, 5, 2, 3] exampleReadString [] =
      Return (Ref 0, [Object [(''bigint'', Str ''24:3''), (''end'', U32 9),
        (''raw'', Str ''20:2''), (''start'', U32 0), (''type'', Str ''Literal''),
        (''value'', BigIntV 0)]]))"
proof -
  have l: "convertNode exampleHost (Suc 0) (Some 6) (w # [0, 9, 6, 9, 2, 17, 1, 2, 17, 3, 4])
      exampleReadString [] =
    Return (Ref 0, [Object [(''end'', U32 2), (''start'', U32 1), (''type'', Str ''DebuggerStatement'')]])" for w
    by (simp add: tags conv_DebuggerStatement_def rd_def alloc_def num_def)
  have r: "convertNode exampleHost (Suc 0) (Some 9) (w # [0, 9, 6, 9, 2, 17, 1, 2, 17, 3, 4])
      exampleReadString [Object [(''end'', U32 2), (''start'', U32 1), (''type'', Str ''DebuggerStatement'')]] =
    Return (Ref 1, [Object [(''end'', U32 2), (''start'', U32 1), (''type'', Str ''DebuggerStatement'')],
      Object [(''end'', U32 4), (''start'', U32 3), (''type'', Str ''DebuggerStatement'')]])" for w
    by (simp add: tags conv_DebuggerStatement_def rd_def alloc_def num_def)
  have g: "getFloat64 (arrayBuffer [41, 0, 9, 6, 0, 0, 4]) 16 h = Return (F64 0, h)" for h
    using getFloat64_words [of 4 "[41, 0, 9, 6, 0, 0, 4]" h] by simp
  have "(1 :: nat) + 1 < 2 ^ 29"
    by simp
  from text_span [where p = 1 and buffer = "[30, 3]" and readString = exampleReadString,
      THEN conjunct1, THEN mp, OF this]
  have s: "convertString (Some 1) [30, 3] exampleReadString = ''8:3''"
    by (simp add: rd_def exampleReadString_def toString_def decimal.simps)
  have "rd [30, 0, 9, 5] (Some 0) = Some 30 \<and> ''Identifier'' = ''Identifier'' \<or>
      rd [30, 0, 9, 5] (Some 0) = Some 52 \<and> ''Identifier'' = ''PrivateIdentifier''"
    by (simp add: rd_def)
  from text_span [where buffer = "[30, 0, 9, 5]" and n = 0 and host = exampleHost
        and depth = "0" and h = "[]" and readString = exampleReadString and kind = "''Identifier''",
      THEN conjunct2, THEN conjunct1, THEN mp, OF this]
  have t30: "convertNode exampleHost (Suc 0) (Some 0) [30, 0, 9, 5] exampleReadString [] =
      Return (Ref 0, [Object [(''end'', U32 9), (''name'', Str ''16:5''), (''start'', U32 0),
        (''type'', Str ''Identifier'')]])"
    by (simp add: rd_def truthy_def toPos_def num_def convertString_def inc_def shl2_def
        exampleReadString_def toString_def decimal.simps
        del: convertNode.simps)
  have "rd [52, 0, 9, 5] (Some 0) = Some 30 \<and> ''PrivateIdentifier'' = ''Identifier'' \<or>
      rd [52, 0, 9, 5] (Some 0) = Some 52 \<and> ''PrivateIdentifier'' = ''PrivateIdentifier''"
    by (simp add: rd_def)
  from text_span [where buffer = "[52, 0, 9, 5]" and n = 0 and host = exampleHost
        and depth = "0" and h = "[]" and readString = exampleReadString and kind = "''PrivateIdentifier''",
      THEN conjunct2, THEN conjunct1, THEN mp, OF this]
  have t52: "convertNode exampleHost (Suc 0) (Some 0) [52, 0, 9, 5] exampleReadString [] =
      Return (Ref 0, [Object [(''end'', U32 9), (''name'', Str ''16:5''), (''start'', U32 0),
        (''type'', Str ''PrivateIdentifier'')]])"
    by (simp add: rd_def truthy_def toPos_def num_def convertString_def inc_def shl2_def
        exampleReadString_def toString_def decimal.simps
        del: convertNode.simps)
  have "rd [3, 0, 9, 6, 9, 2, 17, 1, 2, 17, 3, 4] (Some 0) = Some 3 \<and>
        ''AssignmentExpression'' = ''AssignmentExpression'' \<or>
      rd [3, 0, 9, 6, 9, 2, 17, 1, 2, 17, 3, 4] (Some 0) = Some 6 \<and>
        ''AssignmentExpression'' = ''BinaryExpression'' \<or>
      rd [3, 0, 9, 6, 9, 2, 17, 1, 2, 17, 3, 4] (Some 0) = Some 45 \<and>
        ''AssignmentExpression'' = ''LogicalExpression''"
    by (simp add: rd_def)
  from text_span [where buffer = "[3, 0, 9, 6, 9, 2, 17, 1, 2, 17, 3, 4]" and n = 0 and host = exampleHost
        and depth = "Suc 0" and h = "[]" and readString = exampleReadString and kind = "''AssignmentExpression''",
      THEN conjunct2, THEN conjunct2, THEN conjunct1, THEN mp, OF this]
  have t3: "convertNode exampleHost (Suc (Suc 0)) (Some 0) [3, 0, 9, 6, 9, 2, 17, 1, 2, 17, 3, 4]
        exampleReadString [] =
      Return (Ref 2, [Object [(''end'', U32 2), (''start'', U32 1), (''type'', Str ''DebuggerStatement'')],
        Object [(''end'', U32 4), (''start'', U32 3), (''type'', Str ''DebuggerStatement'')],
        Object [(''end'', U32 9), (''left'', Ref 0), (''operator'', Str ''24:2''),
          (''right'', Ref 1), (''start'', U32 0), (''type'', Str ''AssignmentExpression'')]])"
    by (simp add: l r rd_def truthy_def toPos_def num_def convertString_def inc_def shl2_def
        exampleReadString_def toString_def decimal.simps
        del: convertNode.simps)
  have "rd [6, 0, 9, 6, 9, 2, 17, 1, 2, 17, 3, 4] (Some 0) = Some 3 \<and>
        ''BinaryExpression'' = ''AssignmentExpression'' \<or>
      rd [6, 0, 9, 6, 9, 2, 17, 1, 2, 17, 3, 4] (Some 0) = Some 6 \<and>
        ''BinaryExpression'' = ''BinaryExpression'' \<or>
      rd [6, 0, 9, 6, 9, 2, 17, 1, 2, 17, 3, 4] (Some 0) = Some 45 \<and>
        ''BinaryExpression'' = ''LogicalExpression''"
    by (simp add: rd_def)
  from text_span [where buffer = "[6, 0, 9, 6, 9, 2, 17, 1, 2, 17, 3, 4]" and n = 0 and host = exampleHost
        and depth = "Suc 0" and h = "[]" and readString = exampleReadString and kind = "''BinaryExpression''",
      THEN conjunct2, THEN conjunct2, THEN conjunct1, THEN mp, OF this]
  have t6: "convertNode exampleHost (Suc (Suc 0)) (Some 0) [6, 0, 9, 6, 9, 2, 17, 1, 2, 17, 3, 4]
        exampleReadString [] =
      Return (Ref 2, [Object [(''end'', U32 2), (''start'', U32 1), (''type'', Str ''DebuggerStatement'')],
        Object [(''end'', U32 4), (''start'', U32 3), (''type'', Str ''DebuggerStatement'')],
        Object [(''end'', U32 9), (''left'', Ref 0), (''operator'', Str ''24:2''),
          (''right'', Ref 1), (''start'', U32 0), (''type'', Str ''BinaryExpression'')]])"
    by (simp add: l r rd_def truthy_def toPos_def num_def convertString_def inc_def shl2_def
        exampleReadString_def toString_def decimal.simps
        del: convertNode.simps)
  have "rd [45, 0, 9, 6, 9, 2, 17, 1, 2, 17, 3, 4] (Some 0) = Some 3 \<and>
        ''LogicalExpression'' = ''AssignmentExpression'' \<or>
      rd [45, 0, 9, 6, 9, 2, 17, 1, 2, 17, 3, 4] (Some 0) = Some 6 \<and>
        ''LogicalExpression'' = ''BinaryExpression'' \<or>
      rd [45, 0, 9, 6, 9, 2, 17, 1, 2, 17, 3, 4] (Some 0) = Some 45 \<and>
        ''LogicalExpression'' = ''LogicalExpression''"
    by (simp add: rd_def)
  from text_span [where buffer = "[45, 0, 9, 6, 9, 2, 17, 1, 2, 17, 3, 4]" and n = 0 and host = exampleHost
        and depth = "Suc 0" and h = "[]" and readString = exampleReadString and kind = "''LogicalExpression''",
      THEN conjunct2, THEN conjunct2, THEN conjunct1, THEN mp, OF this]
  have t45: "convertNode exampleHost (Suc (Suc 0)) (Some 0) [45, 0, 9, 6, 9, 2, 17, 1, 2, 17, 3, 4]
        exampleReadString [] =
      Return (Ref 2, [Object [(''end'', U32 2), (''start'', U32 1), (''type'', Str ''DebuggerStatement'')],
        Object [(''end'', U32 4), (''start'', U32 3), (''type'', Str ''DebuggerStatement'')],
        Object [(''end'', U32 9), (''left'', Ref 0), (''operator'', Str ''24:2''),
          (''right'', Ref 1), (''start'', U32 0), (''type'', Str ''LogicalExpression'')]])"
    by (simp add: l r rd_def truthy_def toPos_def num_def convertString_def inc_def shl2_def
        exampleReadString_def toString_def decimal.simps
        del: convertNode.simps)
  have "rd [39, 0, 9, 5, 3, 7] (Some 0) = Some 39"
    by (simp add: rd_def)
  from text_span [where buffer = "[39, 0, 9, 5, 3, 7]" and n = 0 and host = exampleHost
        and depth = "0" and h = "[]" and readString = exampleReadString,
      THEN conjunct2, THEN conjunct2, THEN conjunct2, THEN conjunct1, THEN mp, OF this]
  have t39: "convertNode exampleHost (Suc 0) (Some 0) [39, 0, 9, 5, 3, 7] exampleReadString [] =
      Return (Ref 0, [Object [(''end'', U32 9), (''raw'', Str ''24:7''), (''start'', U32 0),
        (''type'', Str ''Literal''), (''value'', Str ''20:3'')]])"
    by (simp add: rd_def truthy_def toPos_def num_def convertString_def inc_def shl2_def
        exampleReadString_def toString_def decimal.simps
        del: convertNode.simps)
  have "rd [39, 0, 9, 0, 3] (Some 0) = Some 39"
    by (simp add: rd_def)
  from text_span [where buffer = "[39, 0, 9, 0, 3]" and n = 0 and host = exampleHost
        and depth = "0" and h = "[]" and readString = exampleReadString,
      THEN conjunct2, THEN conjunct2, THEN conjunct2, THEN conjunct1, THEN mp, OF this]
  have t39u: "convertNode exampleHost (Suc 0) (Some 0) [39, 0, 9, 0, 3] exampleReadString [] =
      Return (Ref 0, [Object [(''end'', U32 9), (''raw'', Undefined), (''start'', U32 0),
        (''type'', Str ''Literal''), (''value'', Str ''20:3'')]])"
    by (simp add: rd_def truthy_def toPos_def num_def convertString_def inc_def shl2_def
        exampleReadString_def toString_def decimal.simps
        del: convertNode.simps)
  have "rd [41, 0, 9, 6, 0, 0, 4] (Some 0) = Some 41"
    by (simp add: rd_def)
  from text_span [where buffer = "[41, 0, 9, 6, 0, 0, 4]" and n = 0 and host = exampleHost
        and depth = "0" and h = "[]" and readString = exampleReadString,
      THEN conjunct2, THEN conjunct2, THEN conjunct2, THEN conjunct2, THEN conjunct1, THEN mp, OF this]
  have t41: "convertNode exampleHost (Suc 0) (Some 0) [41, 0, 9, 6, 0, 0, 4] exampleReadString [] =
      Return (Ref 0, [Object [(''end'', U32 9), (''raw'', Str ''28:4''), (''start'', U32 0),
        (''type'', Str ''Literal''), (''value'', F64 0)]])"
    by (simp add: g rd_def truthy_def toPos_def num_def convertString_def inc_def shl2_def
        exampleReadString_def toString_def decimal.simps
        del: convertNode.simps)
  have "rd [43, 0, 9, 5, 2, 3] (Some 0) = Some 43"
    by (simp add: rd_def)
  from text_span [where buffer = "[43, 0, 9, 5, 2, 3]" and n = 0 and host = exampleHost
        and depth = "0" and h = "[]" and readString = exampleReadString,
      THEN conjunct2, THEN conjunct2, THEN conjunct2, THEN conjunct2, THEN conjunct2, THEN conjunct1, THEN mp, OF this]
  have t43: "convertNode exampleHost (Suc 0) (Some 0) [43, 0, 9, 5, 2, 3] exampleReadString [] =
      Return (Ref 2, [Object [(''flags'', Str ''20:2''), (''pattern'', Str ''24:3'')],
        RegExpObj ''24:3'' ''20:2'',
        Object [(''end'', U32 9), (''raw'', Str ''/24:3/20:2''), (''regex'', Ref 0),
          (''start'', U32 0), (''type'', Str ''Literal''), (''value'', Ref 1)]])"
    by (simp add: exampleHost_def rd_def truthy_def toPos_def num_def convertString_def inc_def shl2_def
        exampleReadString_def toString_def decimal.simps
        del: convertNode.simps)
  have "rd [44, 0, 9, 5, 2, 3] (Some 0) = Some 44"
    by (simp add: rd_def)
  from text_span [where buffer = "[44, 0, 9, 5, 2, 3]" and n = 0 and host = exampleHost
        and depth = "0" and h = "[]" and readString = exampleReadString,
      THEN conjunct2, THEN conjunct2, THEN conjunct2, THEN conjunct2, THEN conjunct2,
      THEN conjunct2, THEN conjunct1, THEN mp, OF this]
  have t44: "convertNode exampleHost (Suc 0) (Some 0) [44, 0, 9, 5, 2, 3] exampleReadString [] =
      Return (Ref 0, [Object [(''bigint'', Str ''24:3''), (''end'', U32 9),
        (''raw'', Str ''20:2''), (''start'', U32 0), (''type'', Str ''Literal''),
        (''value'', BigIntV 0)]])"
    by (simp add: exampleHost_def rd_def truthy_def toPos_def num_def convertString_def inc_def shl2_def
        exampleReadString_def toString_def decimal.simps
        del: convertNode.simps)
  from s t30 t52 t3 t6 t45 t39 t39u t41 t43 t44 show ?thesis
    by (intro conjI)
qed

text \<open>
  C7 as stated fails from word position \<open>2^29 - 1\<close> on: in a buffer of \<open>2^29\<close> words
  whose last word is the length 5, the text span at the last word is resolved at byte
  offset \<open>-2^31\<close>, not at \<open>4 * 2^29 = 2^31\<close>.
\<close>

theorem text_span_counterexample:
  "rd (replicate (2 ^ 29 - 1) 0 @ [5]) (Some (2 ^ 29 - 1)) = Some 5 \<and>
   convertString (Some (2 ^ 29 - 1)) (replicate (2 ^ 29 - 1) 0 @ [5]) exampleReadString =
     ''-2147483648:5'' \<and>
   exampleReadString (4 * (int (2 ^ 29 - 1) + 1)) (Some 5) = ''2147483648:5''"
  by (simp add: convertString_def rd_def inc_def shl2_def nth_append exampleReadString_def
      toString_def decimal.simps)

section \<open>Determinism\<close>

lemma uniform_ret: "v' = sv v \<Longrightarrow> uniform sv k (ret v') (ret v)"
  by (simp add: uniform_def ret_def relocate_def)

lemma uniform_throw: "uniform sv k (throw x) (throw x)"
  by (simp add: uniform_def throw_def relocate_def)

lemma uniform_alloc: "obj' = shiftObj k obj \<Longrightarrow> uniform (shift k) k (alloc obj') (alloc obj)"
  by (simp add: uniform_def alloc_def relocate_def)

lemma uniform_bindJ:
  assumes "uniform sv k m' m" and "\<And>v. uniform sw k (f' (sv v)) (f v)"
  shows "uniform sw k (bindJ m' f') (bindJ m f)"
  unfolding uniform_def
proof (intro allI impI)
  fix h e :: heap assume k: "length h = k"
  show "bindJ m' f' (h @ map (shiftObj k) e) = relocate sw h (bindJ m f e)"
  proof (cases "m e")
    case (Return x)
    obtain v e1 where x: "x = (v, e1)" by (cases x)
    from assms(1) k Return x have "m' (h @ map (shiftObj k) e) = Return (sv v, h @ map (shiftObj k) e1)"
      by (simp add: uniform_def relocate_def)
    moreover from assms(2) [of v] k
    have "f' (sv v) (h @ map (shiftObj k) e1) = relocate sw h (f v e1)"
      by (simp add: uniform_def)
    ultimately show ?thesis using Return x by (simp add: bindJ_def)
  next
    case (Throw x)
    with assms(1) k show ?thesis by (simp add: uniform_def relocate_def bindJ_def)
  next
    case Exhausted
    with assms(1) k show ?thesis by (simp add: uniform_def relocate_def bindJ_def)
  qed
qed

lemma uniform_if:
  "(c \<Longrightarrow> uniform sv k a' a) \<Longrightarrow> (\<not> c \<Longrightarrow> uniform sv k b' b) \<Longrightarrow>
   uniform sv k (if c then a' else b') (if c then a else b)"
  by simp

lemma uniform_getFloat64: "uniform (shift k) k (getFloat64 bytes off) (getFloat64 bytes off)"
  by (simp add: getFloat64_def uniform_ret uniform_throw)

lemma uniform_toBigInt: "uniform (shift k) k (toBigInt host s) (toBigInt host s)"
  by (simp add: toBigInt_def uniform_ret uniform_throw split: option.splits)

lemma uniform_newRegExp: "uniform (shift k) k (newRegExp host p f) (newRegExp host p f)"
  by (simp add: newRegExp_def uniform_alloc uniform_throw)

lemma uniform_loop:
  assumes cn: "\<And>pos. uniform (shift k) k (cn pos b r) (cn pos b r)"
  shows "uniform (map (shift k)) k
     (convertNodeList_loop cn b r len index position (map (shift k) list))
     (convertNodeList_loop cn b r len index position list)"
  unfolding uniform_def
proof (intro allI impI)
  fix h e :: heap assume k: "length h = k"
  show "convertNodeList_loop cn b r len index position (map (shift k) list)
          (h @ map (shiftObj k) e) =
        relocate (map (shift k)) h (convertNodeList_loop cn b r len index position list e)"
  proof (induction "len - index" arbitrary: index position list e)
    case 0
    then show ?case
      by (simp add: convertNodeList_loop.simps relocate_def k)
  next
    case (Suc n)
    then have lt: "index < len" and n: "n = len - (index + 1)" by simp_all
    note IH = Suc.hyps(1) [OF n]
    show ?case
    proof (cases "truthy (rd b position)")
      case False
      with IH [of "inc position" "list @ [Null]" e] lt show ?thesis
        by (subst (1 2) convertNodeList_loop.simps) simp
    next
      case True
      from cn [of "toPos (rd b position)"] k
      have c: "cn (toPos (rd b position)) b r (h @ map (shiftObj k) e) =
          relocate (shift k) h (cn (toPos (rd b position)) b r e)"
        by (simp add: uniform_def)
      show ?thesis
      proof (cases "cn (toPos (rd b position)) b r e")
        case (Return x)
        obtain v e1 where x: "x = (v, e1)" by (cases x)
        with IH [of "inc position" "list @ [v]" e1] lt True c Return k show ?thesis
          by (subst (1 2) convertNodeList_loop.simps) (simp add: relocate_def)
      next
        case (Throw x)
        with lt True c show ?thesis
          by (subst (1 2) convertNodeList_loop.simps) (simp add: relocate_def)
      next
        case Exhausted
        with lt True c show ?thesis
          by (subst (1 2) convertNodeList_loop.simps) (simp add: relocate_def)
      qed
    qed
  qed
qed

lemma uniform_convertNodeList:
  assumes cn: "\<And>pos. uniform (shift k) k (cn pos b r) (cn pos b r)"
  shows "uniform (shift k) k (convertNodeList cn position b r) (convertNodeList cn position b r)"
  unfolding convertNodeList_def Let_def
  using uniform_loop [of k cn b r _ _ _ "[]", OF cn]
  by (intro uniform_bindJ [where sv = "map (shift k)"] uniform_alloc) simp_all

lemma shift_num [simp]: "shift k (num w) = num w"
  by (simp add: num_def split: option.splits)

lemma shift_kind [simp]: "shift k (lookupKind t w) = lookupKind t w"
  by (simp add: lookupKind_def split: option.splits)

lemmas uniform_intros =
  uniform_bindJ [where sv = "shift k" and sw = "shift k" for k]
  uniform_alloc uniform_ret uniform_throw uniform_if
  uniform_getFloat64 uniform_toBigInt uniform_newRegExp uniform_convertNodeList

lemma conv_uniform:
  assumes cn: "\<And>pos. uniform (shift k) k (cn pos b r) (cn pos b r)"
  shows
    "uniform (shift k) k (conv_ArrayExpression cn p b r) (conv_ArrayExpression cn p b r)"
    "uniform (shift k) k (conv_ArrayPattern cn p b r) (conv_ArrayPattern cn p b r)"
    "uniform (shift k) k (conv_ArrowFunctionExpression cn p b r) (conv_ArrowFunctionExpression cn p b r)"
    "uniform (shift k) k (conv_AssignmentExpression cn p b r) (conv_AssignmentExpression cn p b r)"
    "uniform (shift k) k (conv_AssignmentPattern cn p b r) (conv_AssignmentPattern cn p b r)"
    "uniform (shift k) k (conv_AwaitExpression cn p b r) (conv_AwaitExpression cn p b r)"
    "uniform (shift k) k (conv_BinaryExpression cn p b r) (conv_BinaryExpression cn p b r)"
    "uniform (shift k) k (conv_BlockStatement cn p b r) (conv_BlockStatement cn p b r)"
    "uniform (shift k) k (conv_BreakStatement cn p b r) (conv_BreakStatement cn p b r)"
    "uniform (shift k) k (conv_CallExpression cn p b r) (conv_CallExpression cn p b r)"
    "uniform (shift k) k (conv_CatchClause cn p b r) (conv_CatchClause cn p b r)"
    "uniform (shift k) k (conv_ChainExpression cn p b r) (conv_ChainExpression cn p b r)"
    "uniform (shift k) k (conv_ClassBody cn p b r) (conv_ClassBody cn p b r)"
    "uniform (shift k) k (conv_ClassDeclaration cn p b r) (conv_ClassDeclaration cn p b r)"
    "uniform (shift k) k (conv_ClassExpression cn p b r) (conv_ClassExpression cn p b r)"
    "uniform (shift k) k (conv_ConditionalExpression cn p b r) (conv_ConditionalExpression cn p b r)"
    "uniform (shift k) k (conv_ContinueStatement cn p b r) (conv_ContinueStatement cn p b r)"
    "uniform (shift k) k (conv_DebuggerStatement cn p b r) (conv_DebuggerStatement cn p b r)"
    "uniform (shift k) k (conv_DoWhileStatement cn p b r) (conv_DoWhileStatement cn p b r)"
    "uniform (shift k) k (conv_EmptyStatement cn p b r) (conv_EmptyStatement cn p b r)"
    "uniform (shift k) k (conv_ExportAllDeclaration cn p b r) (conv_ExportAllDeclaration cn p b r)"
    "uniform (shift k) k (conv_ExportDefaultDeclaration cn p b r) (conv_ExportDefaultDeclaration cn p b r)"
    "uniform (shift k) k (conv_ExportNamedDeclaration cn p b r) (conv_ExportNamedDeclaration cn p b r)"
    "uniform (shift k) k (conv_ExportSpecifier cn p b r) (conv_ExportSpecifier cn p b r)"
    "uniform (shift k) k (conv_ExpressionStatement cn p b r) (conv_ExpressionStatement cn p b r)"
    "uniform (shift k) k (conv_ForInStatement cn p b r) (conv_ForInStatement cn p b r)"
    "uniform (shift k) k (conv_ForOfStatement cn p b r) (conv_ForOfStatement cn p b r)"
    "uniform (shift k) k (conv_ForStatement cn p b r) (conv_ForStatement cn p b r)"
    "uniform (shift k) k (conv_FunctionDeclaration cn p b r) (conv_FunctionDeclaration cn p b r)"
    "uniform (shift k) k (conv_FunctionExpression cn p b r) (conv_FunctionExpression cn p b r)"
    "uniform (shift k) k (conv_Identifier cn p b r) (conv_Identifier cn p b r)"
    "uniform (shift k) k (conv_IfStatement cn p b r) (conv_IfStatement cn p b r)"
    "uniform (shift k) k (conv_ImportAttribute cn p b r) (conv_ImportAttribute cn p b r)"
    "uniform (shift k) k (conv_ImportDeclaration cn p b r) (conv_ImportDeclaration cn p b r)"
    "uniform (shift k) k (conv_ImportDefaultSpecifier cn p b r) (conv_ImportDefaultSpecifier cn p b r)"
    "uniform (shift k) k (conv_ImportExpression cn p b r) (conv_ImportExpression cn p b r)"
    "uniform (shift k) k (conv_ImportNamespaceSpecifier cn p b r) (conv_ImportNamespaceSpecifier cn p b r)"
    "uniform (shift k) k (conv_ImportSpecifier cn p b r) (conv_ImportSpecifier cn p b r)"
    "uniform (shift k) k (conv_LabeledStatement cn p b r) (conv_LabeledStatement cn p b r)"
    "uniform (shift k) k (conv_Literal_string cn p b r) (conv_Literal_string cn p b r)"
    "uniform (shift k) k (conv_Literal_boolean cn p b r) (conv_Literal_boolean cn p b r)"
    "uniform (shift k) k (conv_Literal_number cn p b r) (conv_Literal_number cn p b r)"
    "uniform (shift k) k (conv_Literal_null cn p b r) (conv_Literal_null cn p b r)"
    "uniform (shift k) k (conv_Literal_RegExp host cn p b r) (conv_Literal_RegExp host cn p b r)"
    "uniform (shift k) k (conv_Literal_bigint host cn p b r) (conv_Literal_bigint host cn p b r)"
    "uniform (shift k) k (conv_LogicalExpression cn p b r) (conv_LogicalExpression cn p b r)"
    "uniform (shift k) k (conv_MemberExpression cn p b r) (conv_MemberExpression cn p b r)"
    "uniform (shift k) k (conv_MetaProperty cn p b r) (conv_MetaProperty cn p b r)"
    "uniform (shift k) k (conv_MethodDefinition cn p b r) (conv_MethodDefinition cn p b r)"
    "uniform (shift k) k (conv_NewExpression cn p b r) (conv_NewExpression cn p b r)"
    "uniform (shift k) k (conv_ObjectExpression cn p b r) (conv_ObjectExpression cn p b r)"
    "uniform (shift k) k (conv_ObjectPattern cn p b r) (conv_ObjectPattern cn p b r)"
    "uniform (shift k) k (conv_PrivateIdentifier cn p b r) (conv_PrivateIdentifier cn p b r)"
    "uniform (shift k) k (conv_Program cn p b r) (conv_Program cn p b r)"
    "uniform (shift k) k (conv_Property cn p b r) (conv_Property cn p b r)"
    "uniform (shift k) k (conv_PropertyDefinition cn p b r) (conv_PropertyDefinition cn p b r)"
    "uniform (shift k) k (conv_RestElement cn p b r) (conv_RestElement cn p b r)"
    "uniform (shift k) k (conv_ReturnStatement cn p b r) (conv_ReturnStatement cn p b r)"
    "uniform (shift k) k (conv_SequenceExpression cn p b r) (conv_SequenceExpression cn p b r)"
    "uniform (shift k) k (conv_SpreadElement cn p b r) (conv_SpreadElement cn p b r)"
    "uniform (shift k) k (conv_StaticBlock cn p b r) (conv_StaticBlock cn p b r)"
    "uniform (shift k) k (conv_Super cn p b r) (conv_Super cn p b r)"
    "uniform (shift k) k (conv_SwitchCase cn p b r) (conv_SwitchCase cn p b r)"
    "uniform (shift k) k (conv_SwitchStatement cn p b r) (conv_SwitchStatement cn p b r)"
    "uniform (shift k) k (conv_ThisExpression cn p b r) (conv_ThisExpression cn p b r)"
    "uniform (shift k) k (conv_ThrowStatement cn p b r) (conv_ThrowStatement cn p b r)"
    "uniform (shift k) k (conv_TryStatement cn p b r) (conv_TryStatement cn p b r)"
    "uniform (shift k) k (conv_VariableDeclaration cn p b r) (conv_VariableDeclaration cn p b r)"
    "uniform (shift k) k (conv_VariableDeclarator cn p b r) (conv_VariableDeclarator cn p b r)"
    "uniform (shift k) k (conv_WhileStatement cn p b r) (conv_WhileStatement cn p b r)"
    "uniform (shift k) k (conv_AssignmentPatternProperty cn p b r) (conv_AssignmentPatternProperty cn p b r)"
  unfolding conv_defs Let_def
  by (intro uniform_intros cn;
      simp add: PROPERTY_KINDS_def METHOD_DEFINITION_KINDS_def DECLARATION_KINDS_def)+

lemma converter_uniform:
  assumes "nodeConverter host t = Some c"
    and cn: "\<And>pos. uniform (shift k) k (cn pos b r) (cn pos b r)"
  shows "uniform (shift k) k (c cn p b r) (c cn p b r)"
  using nodeConverter_mem [OF assms(1)]
  by (auto simp: nodeConverters_def conv_uniform [of k cn b r, OF cn])

lemma convertNode_uniform:
  "uniform (shift k) k (convertNode host depth position b r) (convertNode host depth position b r)"
proof (induction depth arbitrary: position)
  case 0
  show ?case by (simp add: uniform_def relocate_def)
next
  case (Suc d)
  show ?case
  proof (cases position)
    case None
    then show ?thesis by (simp add: rd_def nodeConverter_def uniform_throw)
  next
    case (Some q)
    show ?thesis
    proof (cases "nodeConverter host (rd b position)")
      case None
      then show ?thesis by (simp add: uniform_throw)
    next
      case c: (Some c)
      from converter_uniform [of host "rd b position" c k "convertNode host d" b r "q + 1",
          OF c Suc] c Some
      show ?thesis by simp
    qed
  qed
qed

lemma reify_relocate:
  "reify (h @ map (shiftObj (length h)) e) (shift (length h) v) = reify e v"
proof (induction e v rule: reify.induct)
  case (1 e a)
  show ?case
  proof (cases "a < length e")
    case False
    then show ?thesis by simp
  next
    case True
    then have tk: "take (a + length h) (h @ map (shiftObj (length h)) e) =
        h @ map (shiftObj (length h)) (take a e)"
      by (simp add: take_map)
    from True have nth: "(h @ map (shiftObj (length h)) e) ! (a + length h) =
        shiftObj (length h) (e ! a)"
      by (simp add: nth_append)
    show ?thesis
    proof (cases "e ! a")
      case (Object props)
      with 1(1) [OF True Object] True tk nth show ?thesis
        by (auto simp: case_prod_unfold)
    next
      case (Array xs)
      with 1(2) [OF True Array] True tk nth show ?thesis
        by auto
    next
      case (RegExpObj x y)
      with True nth show ?thesis by simp
    qed
  qed
qed simp_all

lemma below_mono: "below n v \<Longrightarrow> n \<le> m \<Longrightarrow> below m v"
  by (cases v) auto

lemma nonref_below: "nonref v \<Longrightarrow> below n v"
  by (cases v) auto

lemma backward_snoc:
  "backward h \<Longrightarrow> \<forall>v \<in> set (vals obj). below (length h) v \<Longrightarrow> backward (h @ [obj])"
  by (auto simp: backward_def nth_append less_Suc_eq)

lemma good_weaken: "good {} m \<Longrightarrow> good S m"
  unfolding good_def by blast

lemma good_ret: "v \<in> S \<or> nonref v \<Longrightarrow> good S (ret v)"
  by (auto simp: good_def ret_def nonref_below)

lemma good_throw: "good S (throw x)"
  by (simp add: good_def throw_def)

lemma good_alloc:
  assumes "\<forall>v \<in> set (vals obj). v \<in> S \<or> nonref v"
  shows "good S (alloc obj)"
  unfolding good_def alloc_def
proof (intro allI impI)
  fix h v h'
  assume pre: "backward h \<and> (\<forall>x \<in> S. below (length h) x)"
    and run: "Return (Ref (length h), h @ [obj]) = Return (v, h')"
  from assms pre have "\<forall>v \<in> set (vals obj). below (length h) v"
    using nonref_below by blast
  with pre have "backward (h @ [obj])" by (simp add: backward_snoc)
  with run show "backward h' \<and> length h \<le> length h' \<and> below (length h') v"
    by auto
qed

lemma goodD:
  "good S m \<Longrightarrow> backward h \<Longrightarrow> \<forall>x \<in> S. below (length h) x \<Longrightarrow> m h = Return (v, h') \<Longrightarrow>
     backward h' \<and> length h \<le> length h' \<and> below (length h') v"
  unfolding good_def by blast

lemma good_bindJ:
  assumes "good S m" and "\<And>v. good (insert v S) (f v)"
  shows "good S (bindJ m f)"
  unfolding good_def
proof (intro allI impI)
  fix h v h'
  assume pre: "backward h \<and> (\<forall>x \<in> S. below (length h) x)"
    and run: "bindJ m f h = Return (v, h')"
  from run obtain w h1 where m: "m h = Return (w, h1)" and f: "f w h1 = Return (v, h')"
    by (auto simp: bindJ_def split: outcome.splits)
  from pre have c: "backward h" and S: "\<forall>x \<in> S. below (length h) x" by simp_all
  from goodD [OF assms(1) c S m]
  have 1: "backward h1" "length h \<le> length h1" "below (length h1) w"
    by simp_all
  have mono: "below (length h1) x" if "below (length h) x" for x
    using that 1(2) by (rule below_mono)
  with S 1(3) have S1: "\<forall>x \<in> insert w S. below (length h1) x"
    by simp
  from goodD [OF assms(2) 1(1) S1 f] 1(2)
  show "backward h' \<and> length h \<le> length h' \<and> below (length h') v"
    by simp
qed

lemma good_if:
  "(c \<Longrightarrow> good S a) \<Longrightarrow> (\<not> c \<Longrightarrow> good S b) \<Longrightarrow> good S (if c then a else b)"
  by simp

lemma good_getFloat64: "good S (getFloat64 bytes off)"
  by (simp add: getFloat64_def good_ret good_throw)

lemma good_toBigInt: "good S (toBigInt host s)"
  by (simp add: toBigInt_def good_ret good_throw split: option.splits)

lemma good_newRegExp: "good S (newRegExp host p f)"
  by (simp add: newRegExp_def good_alloc good_throw)

lemma good_loop:
  assumes cn: "\<And>pos. good {} (cn pos b r)"
    and "backward h" and "\<forall>x \<in> set list. below (length h) x"
    and "convertNodeList_loop cn b r len index position list h = Return (xs, h')"
  shows "backward h' \<and> length h \<le> length h' \<and> (\<forall>x \<in> set xs. below (length h') x)"
  using assms(2-)
proof (induction "len - index" arbitrary: index position list h)
  case 0
  then show ?case by (simp add: convertNodeList_loop.simps)
next
  case (Suc n)
  then have lt: "index < len" and n: "n = len - (index + 1)" by simp_all
  from Suc.prems(3) lt obtain item h1 where
    item: "(if truthy (rd b position) then cn (toPos (rd b position)) b r h
            else Return (Null, h)) = Return (item, h1)"
    and rest: "convertNodeList_loop cn b r len (index + 1) (inc position) (list @ [item]) h1 =
      Return (xs, h')"
    by (subst (asm) convertNodeList_loop.simps) (auto simp: Let_def split: outcome.splits)
  have 1: "backward h1 \<and> length h \<le> length h1 \<and> below (length h1) item"
  proof (cases "truthy (rd b position)")
    case True
    with item have "cn (toPos (rd b position)) b r h = Return (item, h1)" by simp
    from goodD [OF cn Suc.prems(1) _ this] show ?thesis by simp
  next
    case False
    with item Suc.prems(1) show ?thesis by auto
  qed
  then have le: "length h \<le> length h1" by simp
  have mono: "below (length h1) x" if "below (length h) x" for x
    using that le by (rule below_mono)
  with Suc.prems(2) 1 have "\<forall>x \<in> set (list @ [item]). below (length h1) x"
    by simp
  from Suc.hyps(1) [OF n _ this rest] 1 show ?case by auto
qed

lemma good_convertNodeList:
  assumes cn: "\<And>pos. good {} (cn pos b r)"
  shows "good S (convertNodeList cn position b r)"
proof (rule good_weaken, unfold good_def, intro allI impI)
  fix h v h'
  assume pre: "backward h \<and> (\<forall>x \<in> {}. below (length h) x)"
    and run: "convertNodeList cn position b r h = Return (v, h')"
  from run obtain xs h1 where
    l: "convertNodeList_loop cn b r (case rd b position of None \<Rightarrow> 0 | Some n \<Rightarrow> unat n) 0
          (inc position) [] h = Return (xs, h1)"
    and v: "v = Ref (length h1)" and h': "h' = h1 @ [Array xs]"
    by (auto simp: convertNodeList_def Let_def bindJ_def alloc_def split: outcome.splits)
  from good_loop [OF cn _ _ l] pre
  have "backward h1 \<and> length h \<le> length h1 \<and> (\<forall>x \<in> set xs. below (length h1) x)"
    by simp
  then show "backward h' \<and> length h \<le> length h' \<and> below (length h') v"
    by (auto simp: v h' intro!: backward_snoc)
qed

lemma nonref_num [simp]: "nonref (num w)"
  by (simp add: num_def split: option.splits)

lemma nonref_kind [simp]: "nonref (lookupKind t w)"
  by (simp add: lookupKind_def split: option.splits)

lemmas good_intros =
  good_bindJ good_alloc good_ret good_throw good_if
  good_getFloat64 good_toBigInt good_newRegExp good_convertNodeList

lemma conv_good:
  assumes cn: "\<And>pos. good {} (cn pos b r)"
  shows
    "good S (conv_ArrayExpression cn p b r)"
    "good S (conv_ArrayPattern cn p b r)"
    "good S (conv_ArrowFunctionExpression cn p b r)"
    "good S (conv_AssignmentExpression cn p b r)"
    "good S (conv_AssignmentPattern cn p b r)"
    "good S (conv_AwaitExpression cn p b r)"
    "good S (conv_BinaryExpression cn p b r)"
    "good S (conv_BlockStatement cn p b r)"
    "good S (conv_BreakStatement cn p b r)"
    "good S (conv_CallExpression cn p b r)"
    "good S (conv_CatchClause cn p b r)"
    "good S (conv_ChainExpression cn p b r)"
    "good S (conv_ClassBody cn p b r)"
    "good S (conv_ClassDeclaration cn p b r)"
    "good S (conv_ClassExpression cn p b r)"
    "good S (conv_ConditionalExpression cn p b r)"
    "good S (conv_ContinueStatement cn p b r)"
    "good S (conv_DebuggerStatement cn p b r)"
    "good S (conv_DoWhileStatement cn p b r)"
    "good S (conv_EmptyStatement cn p b r)"
    "good S (conv_ExportAllDeclaration cn p b r)"
    "good S (conv_ExportDefaultDeclaration cn p b r)"
    "good S (conv_ExportNamedDeclaration cn p b r)"
    "good S (conv_ExportSpecifier cn p b r)"
    "good S (conv_ExpressionStatement cn p b r)"
    "good S (conv_ForInStatement cn p b r)"
    "good S (conv_ForOfStatement cn p b r)"
    "good S (conv_ForStatement cn p b r)"
    "good S (conv_FunctionDeclaration cn p b r)"
    "good S (conv_FunctionExpression cn p b r)"
    "good S (conv_Identifier cn p b r)"
    "good S (conv_IfStatement cn p b r)"
    "good S (conv_ImportAttribute cn p b r)"
    "good S (conv_ImportDeclaration cn p b r)"
    "good S (conv_ImportDefaultSpecifier cn p b r)"
    "good S (conv_ImportExpression cn p b r)"
    "good S (conv_ImportNamespaceSpecifier cn p b r)"
    "good S (conv_ImportSpecifier cn p b r)"
    "good S (conv_LabeledStatement cn p b r)"
    "good S (conv_Literal_string cn p b r)"
    "good S (conv_Literal_boolean cn p b r)"
    "good S (conv_Literal_number cn p b r)"
    "good S (conv_Literal_null cn p b r)"
    "good S (conv_Literal_RegExp host cn p b r)"
    "good S (conv_Literal_bigint host cn p b r)"
    "good S (conv_LogicalExpression cn p b r)"
    "good S (conv_MemberExpression cn p b r)"
    "good S (conv_MetaProperty cn p b r)"
    "good S (conv_MethodDefinition cn p b r)"
    "good S (conv_NewExpression cn p b r)"
    "good S (conv_ObjectExpression cn p b r)"
    "good S (conv_ObjectPattern cn p b r)"
    "good S (conv_PrivateIdentifier cn p b r)"
    "good S (conv_Program cn p b r)"
    "good S (conv_Property cn p b r)"
    "good S (conv_PropertyDefinition cn p b r)"
    "good S (conv_RestElement cn p b r)"
    "good S (conv_ReturnStatement cn p b r)"
    "good S (conv_SequenceExpression cn p b r)"
    "good S (conv_SpreadElement cn p b r)"
    "good S (conv_StaticBlock cn p b r)"
    "good S (conv_Super cn p b r)"
    "good S (conv_SwitchCase cn p b r)"
    "good S (conv_SwitchStatement cn p b r)"
    "good S (conv_ThisExpression cn p b r)"
    "good S (conv_ThrowStatement cn p b r)"
    "good S (conv_TryStatement cn p b r)"
    "good S (conv_VariableDeclaration cn p b r)"
    "good S (conv_VariableDeclarator cn p b r)"
    "good S (conv_WhileStatement cn p b r)"
    "good S (conv_AssignmentPatternProperty cn p b r)"
  unfolding conv_defs Let_def
  by (intro good_intros cn good_weaken [OF cn];
      simp add: PROPERTY_KINDS_def METHOD_DEFINITION_KINDS_def DECLARATION_KINDS_def)+

lemma converter_good:
  assumes "nodeConverter host t = Some c"
    and cn: "\<And>pos. good {} (cn pos b r)"
  shows "good S (c cn p b r)"
  using nodeConverter_mem [OF assms(1)]
  by (auto simp: nodeConverters_def conv_good [of cn b r, OF cn])

lemma convertNode_good: "good S (convertNode host depth position b r)"
proof (induction depth arbitrary: position S)
  case 0
  show ?case by (simp add: good_def)
next
  case (Suc d)
  show ?case
  proof (cases position)
    case None
    then show ?thesis by (simp add: rd_def nodeConverter_def good_throw)
  next
    case (Some q)
    show ?thesis
    proof (cases "nodeConverter host (rd b position)")
      case None
      then show ?thesis by (simp add: good_throw)
    next
      case c: (Some c)
      from converter_good [of host "rd b position" c "convertNode host d" b r S "q + 1",
          OF c Suc] c Some
      show ?thesis by simp
    qed
  qed
qed

lemma backward_take: "backward h \<Longrightarrow> backward (take a h)"
  by (simp add: backward_def)

lemma whole_reify: "backward h \<Longrightarrow> below (length h) v \<Longrightarrow> whole (reify h v)"
proof (induction h v rule: reify.induct)
  case (1 h a)
  then have a: "a < length h" by simp
  from 1(3) a have v: "\<forall>v \<in> set (vals (h ! a)). below a v"
    by (simp add: backward_def)
  show ?case
  proof (cases "h ! a")
    case (Object props)
    have "whole (reify (take a h) v)" if "(name, v) \<in> set props" for name v
    proof -
      from that v Object have "below (length (take a h)) v" using a by force
      from 1(1) [OF a Object that refl backward_take [OF 1(3)] this] show ?thesis .
    qed
    with a Object show ?thesis
      by (auto simp: list_all_iff)
  next
    case (Array xs)
    have "whole (reify (take a h) v)" if "v \<in> set xs" for v
    proof -
      from that v Array have "below (length (take a h)) v" using a by force
      from 1(2) [OF a Array that backward_take [OF 1(3)] this] show ?thesis .
    qed
    with a Array show ?thesis
      by (auto simp: list_all_iff)
  next
    case (RegExpObj x y)
    with a show ?thesis by simp
  qed
qed simp_all

lemma le_word_le_bytes_id: "(le_word (le_bytes w) :: u32) = w"
proof (rule bit_word_eqI)
  fix n assume "n < LENGTH(32)"
  then show "bit (le_word (le_bytes w) :: u32) n = bit w n"
    unfolding le_word_def le_bytes_def
    by (simp add: bit_simps) (cases "n < 8"; cases "n < 16"; cases "n < 24"; auto)
qed

lemma words_of_arrayBuffer: "words_of (arrayBuffer b) = b"
  using le_word_le_bytes_id
  by (induction b) (simp_all add: arrayBuffer_def le_bytes_def)

lemma arrayBuffer_mod4: "length (arrayBuffer b) mod 4 = 0"
  by (simp add: length_arrayBuffer)

text \<open>
  The bytes under the \<^verbatim>\<open>Uint32Array\<close> that \<open>convertProgram\<close> makes are the bytes
  it was given, so \<^verbatim>\<open>buffer.buffer\<close> is the caller's \<^verbatim>\<open>ArrayBuffer\<close>.
\<close>

lemma le_bytes_le_word: "le_bytes (le_word [a, b, c, d] :: u32) = [a, b, c, d]"
proof -
  let ?w = "le_word [a, b, c, d] :: u32"
  have "ucast ?w = a"
    unfolding le_word_def by (rule bit_word_eqI) (auto simp: bit_simps dest: bit_imp_le_length)
  moreover have "ucast (drop_bit 8 ?w) = b"
    unfolding le_word_def by (rule bit_word_eqI) (auto simp: bit_simps dest: bit_imp_le_length)
  moreover have "ucast (drop_bit 16 ?w) = c"
    unfolding le_word_def by (rule bit_word_eqI) (auto simp: bit_simps dest: bit_imp_le_length)
  moreover have "ucast (drop_bit 24 ?w) = d"
    unfolding le_word_def by (rule bit_word_eqI) (auto simp: bit_simps dest: bit_imp_le_length)
  ultimately show ?thesis by (simp add: le_bytes_def)
qed

lemma arrayBuffer_words_of:
  "length bytes mod 4 = 0 \<Longrightarrow> arrayBuffer (words_of bytes) = bytes"
proof (induction bytes rule: words_of.induct)
  case (1 a b c d rest)
  then show ?case
    using le_bytes_le_word [of a b c d] by (simp add: arrayBuffer_def)
qed (simp_all add: arrayBuffer_def)

lemma convertProgram_uniform:
  "uniform (shift k) k (convertProgram host depth bytes r) (convertProgram host depth bytes r)"
  unfolding convertProgram_def newUint32Array_def
  by (intro uniform_bindJ [where sv = id] uniform_if uniform_throw uniform_ret)
    (simp_all add: convertNode_uniform)

lemma good_newUint32Array_bind:
  assumes "\<And>words. good S (f words)"
  shows "good S (bindJ (newUint32Array bytes) f)"
  unfolding good_def
proof (intro allI impI)
  fix h v h'
  assume pre: "backward h \<and> (\<forall>x \<in> S. below (length h) x)"
    and run: "bindJ (newUint32Array bytes) f h = Return (v, h')"
  from run have "f (words_of bytes) h = Return (v, h')"
    by (simp add: bindJ_def newUint32Array_def throw_def ret_def split: if_splits)
  from goodD [OF assms _ _ this] pre
  show "backward h' \<and> length h \<le> length h' \<and> below (length h') v"
    by simp
qed

lemma convertProgram_good: "good {} (convertProgram host depth bytes r)"
  unfolding convertProgram_def
  by (rule good_newUint32Array_bind) (rule convertNode_good)

lemma relocate_reify:
  assumes "m h = relocate (shift (length h)) h (m [])" and "m h = Return (v, h')"
  shows "\<exists>v0 e. m [] = Return (v0, e) \<and> reify h' v = reify e v0"
proof (cases "m []")
  case (Return x)
  obtain v0 e where x: "x = (v0, e)" by (cases x)
  with assms Return have "v = shift (length h) v0" "h' = h @ map (shiftObj (length h)) e"
    by (simp_all add: relocate_def)
  with Return x show ?thesis by (simp add: reify_relocate)
next
  case (Throw x)
  with assms show ?thesis by (simp add: relocate_def)
next
  case Exhausted
  with assms show ?thesis by (simp add: relocate_def)
qed

text \<open>
  C8. The resolver and the built-ins of the host are functions. \<open>convertProgram\<close> run
  on any heap is its run on the empty heap: the new objects come after the old ones,
  with the addresses renumbered, and nothing else of the heap matters. So two calls
  with the same buffer and resolver, on whatever heaps (the second, say, on the heap
  the first has left), end the same way: both return, and the two values stand for
  the same tree, in which every reference is followed; or both throw the same error;
  or both exhaust the call stack.
\<close>

theorem decode_deterministic:
  "convertProgram host depth buffer readString h1 =
     relocate (shift (length h1)) h1 (convertProgram host depth buffer readString []) \<and>
   (\<forall>v1 h1'. convertProgram host depth buffer readString h1 = Return (v1, h1') \<longrightarrow>
      whole (reify h1' v1) \<and>
      (\<exists>v2 h2'. convertProgram host depth buffer readString h2 = Return (v2, h2') \<and>
         reify h2' v2 = reify h1' v1)) \<and>
   (\<forall>x. convertProgram host depth buffer readString h1 = Throw x \<longrightarrow>
      convertProgram host depth buffer readString h2 = Throw x) \<and>
   (convertProgram host depth buffer readString h1 = Exhausted \<longrightarrow>
      convertProgram host depth buffer readString h2 = Exhausted)"
proof -
  let ?m = "convertProgram host depth buffer readString"
  have rel: "?m h = relocate (shift (length h)) h (?m [])" for h
    using convertProgram_uniform [of "length h" host depth buffer readString]
    by (simp add: uniform_def) (metis append_Nil2 list.map(1))
  have ret: "whole (reify h1' v1) \<and> (\<exists>v2 h2'. ?m h2 = Return (v2, h2') \<and> reify h2' v2 = reify h1' v1)"
    if r: "?m h1 = Return (v1, h1')" for v1 h1'
  proof -
    from relocate_reify [of ?m, OF rel r] obtain v0 e where
      e: "?m [] = Return (v0, e)" and t: "reify h1' v1 = reify e v0"
      by blast
    from goodD [OF convertProgram_good _ _ e] have "backward e" "below (length e) v0"
      by (simp_all add: backward_def)
    then have "whole (reify e v0)" by (rule whole_reify)
    moreover from rel [of h2] e
    have "?m h2 = Return (shift (length h2) v0, h2 @ map (shiftObj (length h2)) e)"
      by (simp add: relocate_def)
    ultimately show ?thesis using t by (simp add: reify_relocate)
  qed
  have thr: "?m h2 = Throw x" if "?m h1 = Throw x" for x
    using that rel [of h1] rel [of h2]
    by (cases "?m []") (auto simp: relocate_def)
  have exh: "?m h2 = Exhausted" if "?m h1 = Exhausted"
    using that rel [of h1] rel [of h2]
    by (cases "?m []") (auto simp: relocate_def)
  from rel [of h1] ret thr exh show ?thesis by blast
qed

lemma convertProgram_example:
  "convertProgram exampleHost (Suc (Suc 0)) (arrayBuffer [53, 0, 10, 1, 5, 17, 1, 2]) exampleReadString [] =
   Return (Ref 2,
     [Object [(''end'', U32 2), (''start'', U32 1), (''type'', Str ''DebuggerStatement'')],
      Array [Ref 0],
      Object [(''body'', Ref 1), (''end'', U32 10), (''sourceType'', Str ''module''),
        (''start'', U32 0), (''type'', Str ''Program'')]])"
  by (simp add: convertProgram_def newUint32Array_def arrayBuffer_mod4 words_of_arrayBuffer
      program_example del: convertNode.simps)

theorem decode_deterministic_witness:
  "(\<exists>v2 h2'.
      convertProgram exampleHost (Suc (Suc 0)) (arrayBuffer [53, 0, 10, 1, 5, 17, 1, 2]) exampleReadString
     [Object [(''end'', U32 2), (''start'', U32 1), (''type'', Str ''DebuggerStatement'')],
      Array [Ref 0],
      Object [(''body'', Ref 1), (''end'', U32 10), (''sourceType'', Str ''module''),
        (''start'', U32 0), (''type'', Str ''Program'')]] = Return (v2, h2') \<and>
      reify h2' v2 =
        reify
     [Object [(''end'', U32 2), (''start'', U32 1), (''type'', Str ''DebuggerStatement'')],
      Array [Ref 0],
      Object [(''body'', Ref 1), (''end'', U32 10), (''sourceType'', Str ''module''),
        (''start'', U32 0), (''type'', Str ''Program'')]]
          (Ref 2)) \<and>
   reify
     [Object [(''end'', U32 2), (''start'', U32 1), (''type'', Str ''DebuggerStatement'')],
      Array [Ref 0],
      Object [(''body'', Ref 1), (''end'', U32 10), (''sourceType'', Str ''module''),
        (''start'', U32 0), (''type'', Str ''Program'')]]
     (Ref 2) =
     TObject [(''body'', TArray [TObject [(''end'', TU32 2), (''start'', TU32 1),
        (''type'', TStr ''DebuggerStatement'')]]),
      (''end'', TU32 10), (''sourceType'', TStr ''module''), (''start'', TU32 0),
      (''type'', TStr ''Program'')]"
  using decode_deterministic [of exampleHost "Suc (Suc 0)" "(arrayBuffer [53, 0, 10, 1, 5, 17, 1, 2])"
      exampleReadString "[]"
      "[Object [(''end'', U32 2), (''start'', U32 1), (''type'', Str ''DebuggerStatement'')],
      Array [Ref 0],
      Object [(''body'', Ref 1), (''end'', U32 10), (''sourceType'', Str ''module''),
        (''start'', U32 0), (''type'', Str ''Program'')]]"]
  by (simp add: convertProgram_example)

end
